theory Spec2Isabelle
  imports Complex_Main
begin

section \<open>Arrays\<close>

text \<open>
  A two-dimensional numpy array is modelled by its shape and its entries. Floating-point
  numbers are idealised as real numbers (so \<open>x / 0\<close> is \<open>0\<close> here where numpy gives
  \<open>inf\<close> or \<open>nan\<close> with a warning; no statement below depends on such a value).
  Entries outside the shape are fixed to \<open>0\<close>, so that two arrays with the same shape
  and the same entries are equal. A one-dimensional array is a list.
\<close>

datatype 'a mat = Mat (nr: nat) (nc: nat) (el: "nat \<Rightarrow> nat \<Rightarrow> 'a")

type_synonym vec = "real list"

definition mk :: "nat \<Rightarrow> nat \<Rightarrow> (nat \<Rightarrow> nat \<Rightarrow> 'a::zero) \<Rightarrow> 'a mat" where
  "mk r c f = Mat r c (\<lambda>i j. if i < r \<and> j < c then f i j else 0)"

definition of_rows :: "nat \<Rightarrow> 'a::zero list list \<Rightarrow> 'a mat" where
  \<comment> \<open>the array of a list of rows, each with \<open>c\<close> entries\<close>
  "of_rows c rows = mk (length rows) c (\<lambda>i j. rows ! i ! j)"

definition zeros :: "nat \<Rightarrow> nat \<Rightarrow> real mat" where
  "zeros r c = mk r c (\<lambda>i j. 0)"

definition ones :: "nat \<Rightarrow> nat \<Rightarrow> real mat" where
  "ones r c = mk r c (\<lambda>i j. 1)"

definition eye :: "nat \<Rightarrow> real mat" where
  "eye n = mk n n (\<lambda>i j. if i = j then 1 else 0)"

definition arange :: "nat \<Rightarrow> nat \<Rightarrow> nat list" where
  \<comment> \<open>\<open>np.arange(a, b)\<close>\<close>
  "arange a b = [a..<b]"

definition mT :: "'a::zero mat \<Rightarrow> 'a mat" where
  \<comment> \<open>\<open>A.T\<close>\<close>
  "mT A = mk (nc A) (nr A) (\<lambda>i j. el A j i)"

definition matmul :: "real mat \<Rightarrow> real mat \<Rightarrow> real mat" where
  \<comment> \<open>\<open>A @ B\<close>, for \<open>nc A = nr B\<close> (numpy raises ValueError otherwise)\<close>
  "matmul A B = mk (nr A) (nc B) (\<lambda>i j. \<Sum>k<nc A. el A i k * el B k j)"

definition cbind :: "'a::zero mat \<Rightarrow> 'a mat \<Rightarrow> 'a mat" where
  \<comment> \<open>\<open>np.c_[A, B]\<close>: columns of \<open>B\<close> after those of \<open>A\<close>, for \<open>nr A = nr B\<close>\<close>
  "cbind A B = mk (nr A) (nc A + nc B) (\<lambda>i j. if j < nc A then el A i j else el B i (j - nc A))"

definition rbind :: "'a::zero mat \<Rightarrow> 'a mat \<Rightarrow> 'a mat" where
  \<comment> \<open>\<open>np.r_[A, B]\<close>: rows of \<open>B\<close> below those of \<open>A\<close>, for \<open>nc A = nc B\<close>\<close>
  "rbind A B = mk (nr A + nr B) (nc A) (\<lambda>i j. if i < nr A then el A i j else el B (i - nr A) j)"

definition bdim :: "nat \<Rightarrow> nat \<Rightarrow> nat" where
  \<comment> \<open>one axis of a broadcast shape: an axis of length 1 is stretched\<close>
  "bdim a b = (if a = 1 then b else a)"

definition bop :: "(real \<Rightarrow> real \<Rightarrow> real) \<Rightarrow> real mat \<Rightarrow> real mat \<Rightarrow> real mat" where
  \<comment> \<open>an elementwise binary operation with numpy's broadcasting of axes of length 1\<close>
  "bop f A B = mk (bdim (nr A) (nr B)) (bdim (nc A) (nc B))
     (\<lambda>i j. f (el A (if nr A = 1 then 0 else i) (if nc A = 1 then 0 else j))
              (el B (if nr B = 1 then 0 else i) (if nc B = 1 then 0 else j)))"

definition badd :: "real mat \<Rightarrow> real mat \<Rightarrow> real mat" where
  "badd = bop (+)"

definition bsub :: "real mat \<Rightarrow> real mat \<Rightarrow> real mat" where
  "bsub = bop (-)"

definition bmul :: "real mat \<Rightarrow> real mat \<Rightarrow> real mat" where
  "bmul = bop (*)"

definition smul :: "real \<Rightarrow> real mat \<Rightarrow> real mat" where
  "smul c A = mk (nr A) (nc A) (\<lambda>i j. c * el A i j)"

definition sdiv :: "real mat \<Rightarrow> real \<Rightarrow> real mat" where
  "sdiv A c = mk (nr A) (nc A) (\<lambda>i j. el A i j / c)"

definition mean0 :: "real mat \<Rightarrow> vec" where
  \<comment> \<open>\<open>A.mean(0)\<close>: the mean of every column\<close>
  "mean0 A = map (\<lambda>j. (\<Sum>i<nr A. el A i j) / real (nr A)) [0..<nc A]"

definition col :: "'a::zero list \<Rightarrow> 'a mat" where
  \<comment> \<open>\<open>v[:, None]\<close>\<close>
  "col v = mk (length v) 1 (\<lambda>i j. v ! i)"

definition row :: "'a::zero list \<Rightarrow> 'a mat" where
  \<comment> \<open>\<open>v[None, :]\<close>; a one-dimensional array also broadcasts against a matrix as this row\<close>
  "row v = mk 1 (length v) (\<lambda>i j. v ! j)"

definition kron :: "real mat \<Rightarrow> real mat \<Rightarrow> real mat" where
  "kron A B = mk (nr A * nr B) (nc A * nc B)
     (\<lambda>i j. el A (i div nr B) (j div nc B) * el B (i mod nr B) (j mod nc B))"

definition tile :: "'a::zero mat \<Rightarrow> nat \<Rightarrow> nat \<Rightarrow> 'a mat" where
  \<comment> \<open>\<open>np.tile(A, (a, b))\<close>\<close>
  "tile A a b = mk (a * nr A) (b * nc A) (\<lambda>i j. el A (i mod nr A) (j mod nc A))"

definition ravel_C :: "'a mat \<Rightarrow> 'a list" where
  \<comment> \<open>\<open>A.ravel()\<close>: row after row\<close>
  "ravel_C A = map (\<lambda>q. el A (q div nc A) (q mod nc A)) [0..<nr A * nc A]"

definition ravel_F :: "'a mat \<Rightarrow> 'a list" where
  \<comment> \<open>\<open>A.ravel(order='F')\<close>: column after column\<close>
  "ravel_F A = map (\<lambda>q. el A (q mod nr A) (q div nr A)) [0..<nr A * nc A]"

definition reshape_C :: "nat \<Rightarrow> nat \<Rightarrow> 'a::zero list \<Rightarrow> 'a mat" where
  \<comment> \<open>\<open>np.reshape(v, (r, c))\<close>, for \<open>length v = r * c\<close>\<close>
  "reshape_C r c v = mk r c (\<lambda>i j. v ! (i * c + j))"

definition reshape_F :: "nat \<Rightarrow> nat \<Rightarrow> 'a::zero list \<Rightarrow> 'a mat" where
  \<comment> \<open>\<open>np.reshape(v, (r, c), order='F')\<close>, for \<open>length v = r * c\<close>\<close>
  "reshape_F r c v = mk r c (\<lambda>i j. v ! (j * r + i))"

definition slice :: "'a::zero mat \<Rightarrow> nat \<Rightarrow> nat \<Rightarrow> nat \<Rightarrow> nat \<Rightarrow> 'a mat" where
  \<comment> \<open>\<open>A[r0:r1, c0:c1]\<close>; a slice is clipped to the shape\<close>
  "slice A r0 r1 c0 c1 =
     mk (min r1 (nr A) - r0) (min c1 (nc A) - c0) (\<lambda>i j. el A (r0 + i) (c0 + j))"

definition stride :: "'a::zero mat \<Rightarrow> nat \<Rightarrow> nat \<Rightarrow> 'a mat" where
  \<comment> \<open>\<open>A[0:n:s, 0:n:s]\<close> with \<open>s > 0\<close>: every \<open>s\<close>-th row and column below \<open>n\<close>\<close>
  "stride A n s =
     mk ((min n (nr A) + s - 1) div s) ((min n (nc A) + s - 1) div s) (\<lambda>i j. el A (i * s) (j * s))"

definition take_idx :: "nat list \<Rightarrow> 'a::zero mat \<Rightarrow> 'a mat" where
  \<comment> \<open>\<open>A[order][:, order]\<close>, for indices inside the shape (numpy raises IndexError otherwise)\<close>
  "take_idx order A = mk (length order) (length order) (\<lambda>i j. el A (order ! i) (order ! j))"

definition set_block :: "'a::zero mat \<Rightarrow> nat \<Rightarrow> nat \<Rightarrow> 'a mat \<Rightarrow> 'a mat" where
  \<comment> \<open>\<open>A[r0:r0+nr B, c0:c0+nc B] = B\<close>: the array after the assignment\<close>
  "set_block A r0 c0 B = mk (nr A) (nc A)
     (\<lambda>i j. if r0 \<le> i \<and> i < r0 + nr B \<and> c0 \<le> j \<and> j < c0 + nc B
             then el B (i - r0) (j - c0) else el A i j)"

definition msum :: "real mat \<Rightarrow> real" where
  \<comment> \<open>\<open>A.sum()\<close>\<close>
  "msum A = (\<Sum>i<nr A. \<Sum>j<nc A. el A i j)"

section \<open>Data model\<close>

text \<open>
  The exceptions that can leave the estimators. \<open>ValueError\<close> carries its message;
  \<open>LinAlgError\<close> is numpy.linalg's; \<open>KeyError\<close> is the failed lookup of a kernel name;
  \<open>TypeError\<close> is a call that does not bind its parameters; \<open>ExternalError\<close> stands for
  any exception leaving the kernel-weight and kernel-covariance routines, which the
  source imports.
\<close>

datatype error = ValueError string | LinAlgError | KeyError string | TypeError | ExternalError

text \<open>
  \<open>IVData\<close>: a validated numeric matrix with its column labels. Its class is imported by
  the source; a value of it is the pair of the \<open>ndarray\<close> and \<open>cols\<close> attributes the
  source reads, and its \<open>shape\<close> is the shape of the array.
\<close>

record ivdata =
  ndarray :: "real mat"
  cols :: "string list"

definition IVData :: "ivdata \<Rightarrow> string \<Rightarrow> ivdata" where
  \<comment> \<open>Modelled from the spec: the data-ingestion class \<open>IVData\<close> is imported; for an
      input that is numeric, two-dimensional and labelled already it keeps the matrix and
      the labels (\<open>var_name\<close> only names unlabelled columns).\<close>
  "IVData x var_name = x"

record model =
  portfolios :: ivdata
  factors :: ivdata
  model_name :: string

text \<open>\<open>WaldTestStatistic(stat, null, df, name=...)\<close>: the record of its arguments.\<close>

record wald =
  stat :: real
  null :: string
  df :: int
  wald_name :: string

text \<open>
  The \<open>AttrDict\<close> handed to the results class, field by field (the \<open>model\<close> entry, a
  reference to the estimator itself, is left out).
\<close>

record results =
  params :: "real mat"
  cov :: "real mat"
  betas :: "real mat"
  rp :: "real mat"
  rp_cov :: "real mat"
  alphas :: "real mat"
  alpha_vcv :: "real mat"
  jstat :: wald
  rsquared :: real
  total_ss :: real
  residual_ss :: real
  param_names :: "string list"
  portfolio_names :: "string list"
  factor_names :: "string list"
  name :: string
  cov_type :: string
  nobs :: nat
  rp_names :: "string list"

text \<open>\<open>**cov_config\<close>: the two keys the source reads.\<close>

record cov_config =
  cfg_kernel :: "string option"
  cfg_bandwidth :: "int option"

text \<open>
  The routines the source imports and calls. \<open>np_pinv\<close>, \<open>np_lstsq\<close> (its first result)
  and \<open>np_inv\<close> are numpy.linalg's; \<open>np_inv\<close> is \<open>None\<close> where numpy raises LinAlgError.
  \<open>sp_minimize f x0 disp maxiter\<close> is scipy's \<open>minimize\<close> with the objective \<open>f\<close>, giving
  \<open>(res.x, res.fun)\<close> or the exception that left the objective. \<open>KERNEL_LOOKUP\<close> maps a
  kernel name to its weight function of \<open>(bw, nobs - 1)\<close> and \<open>cov_kernel\<close> is
  \<open>_cov_kernel\<close>; both are \<open>None\<close> where they raise. Every statement below holds for
  all such routines unless it names a property of them.
\<close>

record numerics =
  np_pinv :: "real mat \<Rightarrow> real mat"
  np_lstsq :: "real mat \<Rightarrow> real mat \<Rightarrow> real mat"
  np_inv :: "real mat \<Rightarrow> real mat option"
  sp_minimize :: "(vec \<Rightarrow> error + real) \<Rightarrow> vec \<Rightarrow> bool \<Rightarrow> int \<Rightarrow> error + vec \<times> real"
  KERNEL_LOOKUP :: "string \<Rightarrow> (int \<Rightarrow> int \<Rightarrow> vec option) option"
  cov_kernel :: "real mat \<Rightarrow> vec \<Rightarrow> real mat option"

section \<open>Constructors\<close>

definition base_init :: "string \<Rightarrow> ivdata \<Rightarrow> ivdata \<Rightarrow> model" where
  \<comment> \<open>\<open>TradedFactorModel.__init__(self, portfolios, factors)\<close>, lines 52-55; \<open>cls\<close> is
      \<open>self.__class__.__name__\<close>\<close>
  "base_init cls portfolios_arg factors_arg =
     \<lparr>portfolios = IVData portfolios_arg ''portfolio'',
      factors = IVData factors_arg ''factor'',
      model_name = cls\<rparr>"

definition TradedFactorModel :: "ivdata \<Rightarrow> ivdata \<Rightarrow> model" where
  "TradedFactorModel portfolios_arg factors_arg =
     base_init ''TradedFactorModel'' portfolios_arg factors_arg"

definition LinearFactorModel :: "ivdata \<Rightarrow> ivdata \<Rightarrow> model" where
  \<comment> \<open>lines 206-208; the keyword-only \<open>sigma\<close> is stored and never read\<close>
  "LinearFactorModel portfolios_arg factors_arg =
     base_init ''LinearFactorModel'' portfolios_arg factors_arg"

definition LinearFactorModelGMM :: "ivdata \<Rightarrow> ivdata \<Rightarrow> model" where
  \<comment> \<open>lines 375-376: \<open>__init__(self, factors, portfolios)\<close> passes its two parameters on
      in the order it received them\<close>
  "LinearFactorModelGMM factors_arg portfolios_arg =
     base_init ''LinearFactorModelGMM'' factors_arg portfolios_arg"

text \<open>The parameter names of the three constructors, in the order of their signatures.\<close>

definition TradedFactorModel_params :: "string list" where
  "TradedFactorModel_params = [''portfolios'', ''factors'']"

definition LinearFactorModel_params :: "string list" where
  "LinearFactorModel_params = [''portfolios'', ''factors'']"

definition LinearFactorModelGMM_params :: "string list" where
  "LinearFactorModelGMM_params = [''factors'', ''portfolios'']"

definition call_kw ::
  "string list \<Rightarrow> (ivdata \<Rightarrow> ivdata \<Rightarrow> model) \<Rightarrow> (string \<rightharpoonup> ivdata) \<Rightarrow> error + model" where
  \<comment> \<open>Python's call of a two-parameter constructor with keyword arguments only: each
      parameter is bound to the argument of its name; a missing or an unexpected keyword
      is a TypeError\<close>
  "call_kw names init kw =
     (case names of
        [a, b] \<Rightarrow>
          (case (kw a, kw b) of
             (Some x, Some y) \<Rightarrow> if dom kw = {a, b} then Inr (init x y) else Inl TypeError
           | _ \<Rightarrow> Inl TypeError)
      | _ \<Rightarrow> Inl TypeError)"

section \<open>The time-series estimator: \<open>TradedFactorModel.fit\<close>\<close>

definition nportfolio :: "model \<Rightarrow> nat" where
  "nportfolio m = nc (ndarray (portfolios m))"

definition nfactor :: "model \<Rightarrow> nat" where
  "nfactor m = nc (ndarray (factors m))"

definition nobs_f :: "model \<Rightarrow> nat" where
  \<comment> \<open>\<open>nobs\<close> of \<open>nobs, nfactor = f.shape\<close>\<close>
  "nobs_f m = nr (ndarray (factors m))"

definition nloading :: "model \<Rightarrow> nat" where
  "nloading m = (nfactor m + 1) * nportfolio m"

definition tfm_fc :: "model \<Rightarrow> real mat" where
  \<comment> \<open>line 94\<close>
  "tfm_fc m = cbind (ones (nobs_f m) 1) (ndarray (factors m))"

definition tfm_rp :: "model \<Rightarrow> real mat" where
  \<comment> \<open>line 95\<close>
  "tfm_rp m = col (mean0 (ndarray (factors m)))"

definition tfm_fe :: "model \<Rightarrow> real mat" where
  \<comment> \<open>line 96\<close>
  "tfm_fe m = bsub (ndarray (factors m)) (row (mean0 (ndarray (factors m))))"

definition tfm_b :: "numerics \<Rightarrow> model \<Rightarrow> real mat" where
  \<comment> \<open>line 97\<close>
  "tfm_b np m = matmul (np_pinv np (tfm_fc m)) (ndarray (portfolios m))"

definition tfm_eps :: "numerics \<Rightarrow> model \<Rightarrow> real mat" where
  \<comment> \<open>line 98\<close>
  "tfm_eps np m = bsub (ndarray (portfolios m)) (matmul (tfm_fc m) (tfm_b np m))"

definition tfm_alphas :: "numerics \<Rightarrow> model \<Rightarrow> real mat" where
  \<comment> \<open>line 99: \<open>b[:1].T\<close>\<close>
  "tfm_alphas np m = mT (slice (tfm_b np m) 0 1 0 (nc (tfm_b np m)))"

definition tfm_xpxi :: "numerics \<Rightarrow> model \<Rightarrow> real mat" where
  \<comment> \<open>lines 102-103\<close>
  "tfm_xpxi np m =
     set_block (eye (nloading m + nfactor m)) 0 0
       (kron (eye (nportfolio m))
          (np_pinv np (sdiv (matmul (mT (tfm_fc m)) (tfm_fc m)) (real (nobs_f m)))))"

definition tfm_eps_rep :: "numerics \<Rightarrow> model \<Rightarrow> real mat" where
  \<comment> \<open>lines 105-107\<close>
  "tfm_eps_rep np m =
     reshape_F (nobs_f m) ((nfactor m + 1) * nportfolio m)
       (ravel_F (tile (tfm_eps np m) (nfactor m + 1) 1))"

definition tfm_xe :: "numerics \<Rightarrow> model \<Rightarrow> real mat" where
  \<comment> \<open>lines 104, 108-109\<close>
  "tfm_xe np m =
     cbind (bmul (tile (tfm_fc m) 1 (nportfolio m)) (tfm_eps_rep np m)) (tfm_fe m)"

definition default_bw :: "nat \<Rightarrow> int" where
  \<comment> \<open>line 116: \<open>int(np.ceil(4 * (nobs / 100) ** (2 / 9)))\<close>\<close>
  "default_bw n = \<lceil>4 * (real n / 100) powr (2 / 9)\<rceil>"

definition tfm_cov ::
  "numerics \<Rightarrow> model \<Rightarrow> string \<Rightarrow> cov_config \<Rightarrow> error + real mat \<times> real mat" where
  \<comment> \<open>lines 110-121: the pair \<open>(xeex, rp_cov)\<close>, or the exception\<close>
  "tfm_cov np m ct cfg =
     (if ct \<in> {''robust'', ''heteroskedastic''} then
        Inr (sdiv (matmul (mT (tfm_xe np m)) (tfm_xe np m)) (real (nobs_f m)),
             sdiv (matmul (mT (tfm_fe m)) (tfm_fe m)) (real (nobs_f m)))
      else if ct = ''kernel'' then
        (let kern = (case cfg_kernel cfg of None \<Rightarrow> ''bartlett'' | Some k \<Rightarrow> k);
             bw = (case cfg_bandwidth cfg of None \<Rightarrow> default_bw (nobs_f m) | Some b \<Rightarrow> b)
         in case KERNEL_LOOKUP np kern of
              None \<Rightarrow> Inl (KeyError kern)
            | Some weights \<Rightarrow>
                (case weights bw (int (nobs_f m) - 1) of
                   None \<Rightarrow> Inl ExternalError
                 | Some w \<Rightarrow>
                     (case cov_kernel np (tfm_xe np m) w of
                        None \<Rightarrow> Inl ExternalError
                      | Some xeex \<Rightarrow>
                          (case cov_kernel np (tfm_fe m) w of
                             None \<Rightarrow> Inl ExternalError
                           | Some rc \<Rightarrow> Inr (xeex, rc)))))
      else Inl (ValueError (''Unknown cov_type: '' @ ct)))"

definition tfm_full_vcv :: "numerics \<Rightarrow> model \<Rightarrow> bool \<Rightarrow> real mat \<Rightarrow> real mat" where
  \<comment> \<open>lines 122-124; \<open>debiased = int(bool(debiased))\<close>, \<open>df = fc.shape[1]\<close>\<close>
  "tfm_full_vcv np m debiased xeex =
     sdiv (matmul (matmul (tfm_xpxi np m) xeex) (tfm_xpxi np m))
       (real_of_int (int (nobs_f m) - (if debiased then 1 else 0) * int (nc (tfm_fc m))))"

definition tfm_order :: "model \<Rightarrow> nat list" where
  \<comment> \<open>lines 129-130\<close>
  "tfm_order m =
     ravel_C (mT (reshape_C (nportfolio m) (nfactor m + 1)
                    (arange 0 ((nfactor m + 1) * nportfolio m))))"

definition tfm_vcv :: "numerics \<Rightarrow> model \<Rightarrow> bool \<Rightarrow> real mat \<Rightarrow> real mat" where
  \<comment> \<open>lines 125 and 131\<close>
  "tfm_vcv np m debiased xeex =
     take_idx (tfm_order m)
       (slice (tfm_full_vcv np m debiased xeex) 0 (nloading m) 0 (nloading m))"

definition tfm_alpha_vcv :: "numerics \<Rightarrow> model \<Rightarrow> bool \<Rightarrow> real mat \<Rightarrow> real mat" where
  \<comment> \<open>line 134\<close>
  "tfm_alpha_vcv np m debiased xeex =
     slice (tfm_vcv np m debiased xeex) 0 (nportfolio m) 0 (nportfolio m)"

definition tfm_stat :: "numerics \<Rightarrow> model \<Rightarrow> bool \<Rightarrow> real mat \<Rightarrow> real" where
  \<comment> \<open>line 135: \<open>float\<close> of the one-by-one array\<close>
  "tfm_stat np m debiased xeex =
     el (matmul (matmul (mT (tfm_alphas np m)) (np_pinv np (tfm_alpha_vcv np m debiased xeex)))
           (tfm_alphas np m)) 0 0"

definition names_of :: "string list \<Rightarrow> string list \<Rightarrow> string list" where
  \<comment> \<open>the loop of lines 144-147 (and 308-311): for every portfolio, its alpha and then
      its beta on every factor\<close>
  "names_of pcols fcols =
     concat (map (\<lambda>portfolio. (''alpha-'' @ portfolio) #
                    map (\<lambda>factor. ''beta-'' @ portfolio @ ''-'' @ factor) fcols) pcols)"

definition lambda_names :: "string list \<Rightarrow> string list" where
  \<comment> \<open>lines 148-149 (and 314-315)\<close>
  "lambda_names fcols = map (\<lambda>factor. ''lambda-'' @ factor) fcols"

definition tfm_results ::
  "numerics \<Rightarrow> model \<Rightarrow> string \<Rightarrow> bool \<Rightarrow> real mat \<Rightarrow> real mat \<Rightarrow> results" where
  \<comment> \<open>lines 122-156, from \<open>xeex\<close> and \<open>rp_cov\<close> of the covariance selection\<close>
  "tfm_results np m ct debiased xeex rc =
     (let p = ndarray (portfolios m);
          b = tfm_b np m;
          eps = tfm_eps np m;
          residual = msum (bmul eps eps);
          e = bsub p (row (mean0 p));
          total = msum (bmul e e)
      in \<lparr>params = mT b,
          cov = tfm_full_vcv np m debiased xeex,
          betas = mT (slice b 1 (nr b) 0 (nc b)),
          rp = tfm_rp m,
          rp_cov = sdiv rc (real_of_int (int (nobs_f m) - (if debiased then 1 else 0))),
          alphas = tfm_alphas np m,
          alpha_vcv = tfm_alpha_vcv np m debiased xeex,
          jstat = \<lparr>stat = tfm_stat np m debiased xeex, null = ''All alphas are 0'',
                   df = int (nportfolio m), wald_name = ''J-statistic''\<rparr>,
          rsquared = 1 - residual / total,
          total_ss = total,
          residual_ss = residual,
          param_names = names_of (cols (portfolios m)) (cols (factors m))
                          @ lambda_names (cols (factors m)),
          portfolio_names = cols (portfolios m),
          factor_names = cols (factors m),
          name = model_name m,
          cov_type = ct,
          nobs = nobs_f m,
          rp_names = cols (factors m)\<rparr>)"

definition fit_traded ::
  "numerics \<Rightarrow> model \<Rightarrow> string \<Rightarrow> bool \<Rightarrow> cov_config \<Rightarrow> error + results" where
  \<comment> \<open>\<open>TradedFactorModel.fit(cov_type, debiased, **cov_config)\<close>. The product of line 97
      is the first operation on both inputs: numpy raises ValueError there when their row
      counts differ.\<close>
  "fit_traded np m ct debiased cfg =
     (if nr (ndarray (portfolios m)) \<noteq> nobs_f m then
        Inl (ValueError ''matmul: mismatch in the core dimension'')
      else
        (case tfm_cov np m ct cfg of
           Inl e \<Rightarrow> Inl e
         | Inr (xeex, rc) \<Rightarrow> Inr (tfm_results np m ct debiased xeex rc)))"

section \<open>The two-pass estimator: \<open>LinearFactorModel.fit\<close>\<close>

definition nrf_of :: "bool \<Rightarrow> nat" where
  \<comment> \<open>\<open>nrf = int(not excess_returns)\<close>\<close>
  "nrf_of er = (if er then 0 else 1)"

definition lfm_b :: "numerics \<Rightarrow> model \<Rightarrow> real mat" where
  \<comment> \<open>line 246\<close>
  "lfm_b np m = np_lstsq np (tfm_fc m) (ndarray (portfolios m))"

definition lfm_eps :: "numerics \<Rightarrow> model \<Rightarrow> real mat" where
  \<comment> \<open>line 247\<close>
  "lfm_eps np m = bsub (ndarray (portfolios m)) (matmul (tfm_fc m) (lfm_b np m))"

definition lfm_betas :: "numerics \<Rightarrow> model \<Rightarrow> bool \<Rightarrow> real mat" where
  \<comment> \<open>lines 248-252: without excess returns the intercept column is kept and set to 1\<close>
  "lfm_betas np m er =
     (if er then mT (slice (lfm_b np m) 1 (nr (lfm_b np m)) 0 (nc (lfm_b np m)))
      else set_block (mT (lfm_b np m)) 0 0 (ones (nr (mT (lfm_b np m))) 1))"

definition lfm_lam :: "numerics \<Rightarrow> model \<Rightarrow> bool \<Rightarrow> real mat" where
  \<comment> \<open>line 261\<close>
  "lfm_lam np m er = np_lstsq np (lfm_betas np m er) (col (mean0 (ndarray (portfolios m))))"

definition lfm_eps_rep :: "numerics \<Rightarrow> model \<Rightarrow> real mat" where
  \<comment> \<open>lines 265-266\<close>
  "lfm_eps_rep np m =
     mT (reshape_C (nportfolio m * (nfactor m + 1)) (nobs_f m)
           (ravel_C (mT (tile (lfm_eps np m) (nfactor m + 1) 1))))"

definition lfm_pricing_errors :: "numerics \<Rightarrow> model \<Rightarrow> bool \<Rightarrow> real mat" where
  \<comment> \<open>lines 267-268\<close>
  "lfm_pricing_errors np m er =
     bsub (ndarray (portfolios m)) (mT (matmul (lfm_betas np m er) (lfm_lam np m er)))"

definition lfm_alphas :: "numerics \<Rightarrow> model \<Rightarrow> bool \<Rightarrow> real mat" where
  \<comment> \<open>line 269\<close>
  "lfm_alphas np m er = col (mean0 (lfm_pricing_errors np m er))"

definition lfm_moments :: "numerics \<Rightarrow> model \<Rightarrow> bool \<Rightarrow> real mat" where
  \<comment> \<open>lines 264 and 271\<close>
  "lfm_moments np m er =
     cbind (cbind (bmul (tile (tfm_fc m) 1 (nportfolio m)) (lfm_eps_rep np m))
                  (matmul (lfm_pricing_errors np m er) (lfm_betas np m er)))
           (bsub (lfm_pricing_errors np m er) (mT (lfm_alphas np m er)))"

definition lfm_S :: "numerics \<Rightarrow> model \<Rightarrow> bool \<Rightarrow> real mat" where
  \<comment> \<open>line 272\<close>
  "lfm_S np m er =
     sdiv (matmul (mT (lfm_moments np m er)) (lfm_moments np m er)) (real (nobs_f m))"

definition lfm_s2 :: "model \<Rightarrow> nat" where
  \<comment> \<open>line 275\<close>
  "lfm_s2 m = (nfactor m + 1) * nportfolio m"

definition lfm_s3 :: "model \<Rightarrow> bool \<Rightarrow> nat" where
  \<comment> \<open>line 276\<close>
  "lfm_s3 m er = lfm_s2 m + (nfactor m + nrf_of er)"

definition lfm_lam_tail :: "numerics \<Rightarrow> model \<Rightarrow> bool \<Rightarrow> real mat" where
  \<comment> \<open>\<open>lam if excess_returns else lam[1:]\<close>, lines 281 and 290\<close>
  "lfm_lam_tail np m er =
     (if er then lfm_lam np m er
      else slice (lfm_lam np m er) 1 (nr (lfm_lam np m er)) 0 (nc (lfm_lam np m er)))"

definition lfm_block :: "numerics \<Rightarrow> model \<Rightarrow> bool \<Rightarrow> nat \<Rightarrow> real mat" where
  \<comment> \<open>the body of the loop, lines 281-288\<close>
  "lfm_block np m er i =
     (let bt = lfm_betas np m er;
          blk = matmul (mT (slice bt i (i + 1) 0 (nc bt))) (mT (lfm_lam_tail np m er));
          a = smul (el (lfm_alphas np m er) i 0) (eye (nfactor m));
          blk' = (if er then bsub blk a else bsub blk (rbind (zeros 1 (nfactor m)) a))
      in cbind (zeros (nfactor m + nrf_of er) 1) blk')"

definition lfm_G :: "numerics \<Rightarrow> model \<Rightarrow> bool \<Rightarrow> real mat" where
  \<comment> \<open>lines 274-291: the Jacobian, an identity matrix overwritten block by block\<close>
  "lfm_G np m er =
     (let G0 = eye (nr (lfm_S np m er));
          fpf = sdiv (matmul (mT (tfm_fc m)) (tfm_fc m)) (real (nobs_f m));
          G1 = set_block G0 0 0 (kron (eye (nportfolio m)) fpf);
          G2 = set_block G1 (lfm_s2 m) (lfm_s2 m)
                 (matmul (mT (lfm_betas np m er)) (lfm_betas np m er));
          G3 = fold (\<lambda>i G. set_block G (lfm_s2 m) (i * (nfactor m + 1)) (lfm_block np m er i))
                 [0..<nportfolio m] G2;
          zero_lam = rbind (zeros 1 1) (lfm_lam_tail np m er)
      in set_block G3 (lfm_s3 m er) 0 (kron (eye (nportfolio m)) (mT zero_lam)))"

definition lfm_full_vcv :: "numerics \<Rightarrow> model \<Rightarrow> bool \<Rightarrow> real mat \<Rightarrow> real mat" where
  \<comment> \<open>line 294, from \<open>Ginv\<close>\<close>
  "lfm_full_vcv np m er Ginv =
     sdiv (matmul (matmul Ginv (lfm_S np m er)) (mT Ginv)) (real (nobs_f m))"

definition lfm_alpha_vcv :: "numerics \<Rightarrow> model \<Rightarrow> bool \<Rightarrow> real mat \<Rightarrow> real mat" where
  \<comment> \<open>line 295: \<open>full_vcv[s3:, s3:]\<close>\<close>
  "lfm_alpha_vcv np m er Ginv =
     slice (lfm_full_vcv np m er Ginv) (lfm_s3 m er) (nr (lfm_full_vcv np m er Ginv))
       (lfm_s3 m er) (nc (lfm_full_vcv np m er Ginv))"

definition lfm_order :: "model \<Rightarrow> bool \<Rightarrow> nat list" where
  \<comment> \<open>lines 317-320\<close>
  "lfm_order m er =
     ravel_C (set_block (reshape_C (nportfolio m) (nfactor m + 1) (arange 0 (lfm_s2 m))) 0 0
                (col (arange (lfm_s3 m er) (lfm_s3 m er + nportfolio m))))
     @ arange (lfm_s2 m) (lfm_s3 m er)"

definition lfm_results ::
  "numerics \<Rightarrow> model \<Rightarrow> bool \<Rightarrow> string \<Rightarrow> real mat \<Rightarrow> real mat \<Rightarrow> results" where
  \<comment> \<open>lines 294-331, from \<open>Ginv\<close> and the inverse \<open>avi\<close> of \<open>alpha_vcv\<close>\<close>
  "lfm_results np m er ct Ginv avi =
     (let p = ndarray (portfolios m);
          e = bsub p (row (mean0 p));
          total = msum (bmul e e);
          residual = msum (bmul (lfm_eps np m) (lfm_eps np m));
          full_vcv = lfm_full_vcv np m er Ginv;
          bt = lfm_betas np m er;
          bt' = (if er then bt else slice bt 0 (nr bt) 1 (nc bt))
      in \<lparr>params = cbind (lfm_alphas np m er) bt',
          cov = take_idx (lfm_order m er) full_vcv,
          betas = bt',
          rp = lfm_lam np m er,
          rp_cov = slice full_vcv (lfm_s2 m) (lfm_s3 m er) (lfm_s2 m) (lfm_s3 m er),
          alphas = lfm_alphas np m er,
          alpha_vcv = lfm_alpha_vcv np m er Ginv,
          jstat = \<lparr>stat = el (matmul (matmul (mT (lfm_alphas np m er)) avi)
                                 (lfm_alphas np m er)) 0 0,
                   null = ''All alphas are 0'',
                   df = int (nportfolio m) - int (nfactor m), wald_name = ''J-statistic''\<rparr>,
          rsquared = 1 - residual / total,
          total_ss = total,
          residual_ss = residual,
          param_names = names_of (cols (portfolios m)) (cols (factors m))
                          @ (if er then [] else [''lambda-risk_free''])
                          @ lambda_names (cols (factors m)),
          portfolio_names = cols (portfolios m),
          factor_names = cols (factors m),
          name = model_name m,
          cov_type = ct,
          nobs = nobs_f m,
          rp_names = (if er then [] else [''risk_free'']) @ cols (factors m)\<rparr>)"

definition fit_lfm :: "numerics \<Rightarrow> model \<Rightarrow> bool \<Rightarrow> string \<Rightarrow> cov_config \<Rightarrow> error + results" where
  \<comment> \<open>\<open>LinearFactorModel.fit(excess_returns, cov_type, **cov_config)\<close>. \<open>lstsq\<close> of line 246
      raises LinAlgError when the row counts of the inputs differ; the two \<open>inv\<close> of lines
      292 and 296 raise LinAlgError on a singular matrix. \<open>cov_type\<close> and \<open>cov_config\<close>
      are only recorded.\<close>
  "fit_lfm np m er ct cfg =
     (if nr (ndarray (portfolios m)) \<noteq> nobs_f m then Inl LinAlgError
      else
        (case np_inv np (lfm_G np m er) of
           None \<Rightarrow> Inl LinAlgError
         | Some Ginv \<Rightarrow>
             (case np_inv np (lfm_alpha_vcv np m er Ginv) of
                None \<Rightarrow> Inl LinAlgError
              | Some avi \<Rightarrow> Inr (lfm_results np m er ct Ginv avi))))"

section \<open>The GMM estimator: \<open>LinearFactorModelGMM\<close>\<close>

definition shape_error :: error where
  \<comment> \<open>the ValueError numpy raises for operands whose shapes do not fit\<close>
  "shape_error = ValueError ''operands could not be broadcast together''"

definition gmm_nobs :: "model \<Rightarrow> nat" where
  \<comment> \<open>\<open>nobs\<close> of \<open>nobs, n = self.portfolios.shape\<close>\<close>
  "gmm_nobs m = nr (ndarray (portfolios m))"

definition gmm_nparams :: "model \<Rightarrow> bool \<Rightarrow> nat" where
  \<comment> \<open>the length of \<open>np.r_[betas, lam, mu]\<close>, line 423\<close>
  "gmm_nparams m er = nportfolio m * nfactor m + (nfactor m + nrf_of er) + nfactor m"

definition gmm_moments :: "model \<Rightarrow> bool \<Rightarrow> vec \<Rightarrow> error + real mat" where
  \<comment> \<open>\<open>_moments(self, parameters, excess_returns)\<close>, lines 494-513, for a flat parameter
      vector (a column gives the same array). numpy raises ValueError in \<open>reshape\<close> (line
      505), in the product of line 506, in the broadcast of line 507 or the product of line
      508, and in line 508 or 509 for inputs of different row counts.\<close>
  "gmm_moments m er parameters =
     (let nrf = nrf_of er;
          p = ndarray (portfolios m);
          n = nc p;
          f = ndarray (factors m);
          k = nc f;
          s1 = n * k;
          s2 = n * k + k + nrf;
          bv = take s1 parameters;
          lam = take (s2 - s1) (drop s1 parameters);
          mu = drop s2 parameters
      in if length bv \<noteq> n * k then Inl shape_error
         else if length lam \<noteq> k + nrf then Inl shape_error
         else if length mu \<noteq> k \<and> length mu \<noteq> 1 then Inl shape_error
         else if nr f \<noteq> nr p then Inl shape_error
         else
           (let bt = reshape_C n k bv;
                expected = matmul (cbind (ones n nrf) bt) (col lam);
                fe = bsub f (row mu);
                eps = bsub (bsub p (mT expected)) (matmul fe (mT bt));
                f' = tile (cbind (ones (nr p) 1) f) 1 n;
                eps' = mT (reshape_C (n * (k + 1)) (nr p) (ravel_C (mT (tile eps (k + 1) 1))))
            in Inr (cbind (bmul eps' f') fe)))"

definition gmm_j :: "model \<Rightarrow> bool \<Rightarrow> real mat \<Rightarrow> vec \<Rightarrow> error + real" where
  \<comment> \<open>\<open>_j(self, parameters, excess_returns, w)\<close>, lines 515-520\<close>
  "gmm_j m er w parameters =
     (case gmm_moments m er parameters of
        Inl e \<Rightarrow> Inl e
      | Inr g \<Rightarrow>
          Inr (real (gmm_nobs m) *
               el (matmul (matmul (mT (col (mean0 g))) w) (col (mean0 g))) 0 0))"

definition gmm_jac_rows :: "model \<Rightarrow> bool \<Rightarrow> vec \<Rightarrow> bool \<Rightarrow> real mat" where
  \<comment> \<open>the loop of lines 544-552: \<open>jac12\<close> (\<open>second = False\<close>) and \<open>jac13\<close> (\<open>second = True\<close>)\<close>
  "gmm_jac_rows m er ps second =
     (let n = nportfolio m;
          k = nfactor m;
          f_aug = cbind (ones (nobs_f m) 1) (ndarray (factors m));
          iota = ones (nobs_f m) 1;
          bt = reshape_C n k (take (n * k) ps);
          b = (\<lambda>i. if second \<or> er then slice bt i (i + 1) 0 k
                    else cbind (ones 1 1) (slice bt i (i + 1) 0 k));
          blk = (\<lambda>i. sdiv (matmul (mT f_aug) (matmul iota (b i))) (real (nobs_f m)))
      in fold (\<lambda>i J. set_block J (i * (k + 1)) 0 (if second then smul (- 1) (blk i) else blk i))
           [0..<n] (zeros (n * (k + 1)) (if second then k else k + nrf_of er)))"

definition gmm_jacobian :: "model \<Rightarrow> bool \<Rightarrow> vec \<Rightarrow> error + real mat" where
  \<comment> \<open>\<open>_jacobian(self, params, excess_returns)\<close>, lines 522-557, for the flat \<open>res.x\<close>,
      after \<open>_moments\<close> has returned on it (line 453). The assignment of line 554 raises
      ValueError unless \<open>k\<close> entries follow the risk premia. \<open>params[-k:]\<close> is the whole
      vector when \<open>k = 0\<close>, and then the assignment of line 555 covers the whole array and
      raises ValueError unless the array is empty.\<close>
  "gmm_jacobian m er ps =
     (let n = nportfolio m;
          k = nfactor m;
          nrf = nrf_of er;
          s1 = n * k;
          s2 = n * k + k + nrf;
          lam = take (s2 - s1) (drop s1 ps);
          mu = (if k = 0 then ps else drop (length ps - k) ps);
          lam_tilde = (if er then lam else drop 1 lam);
          f = ndarray (factors m);
          fe = badd (bsub f (row mu)) (row lam_tilde);
          f_aug = cbind (ones (nobs_f m) 1) f;
          fef = sdiv (matmul (mT f_aug) fe) (real (nobs_f m));
          r1 = n * (k + 1);
          J0 = zeros (n * k + n + k) (length ps);
          J1 = set_block J0 0 0 (kron (eye n) fef);
          J2 = set_block J1 0 s1 (gmm_jac_rows m er ps False);
          J3 = set_block J2 0 s2 (gmm_jac_rows m er ps True)
      in if length ps \<noteq> s2 + k then Inl shape_error
         else if k = 0 \<and> \<not> (n = 0 \<and> length ps = 0) then Inl shape_error
         else Inr (set_block J3 (nr J3 - k) (nc J3 - k) (eye k)))"

definition risk_premia_values :: "results \<Rightarrow> vec" where
  \<comment> \<open>Modelled from the spec: the results class is imported; \<open>res.risk_premia.values\<close> is
      the stored risk-premia column as a one-dimensional array.\<close>
  "risk_premia_values r = ravel_C (rp r)"

definition betas_values :: "results \<Rightarrow> real mat" where
  \<comment> \<open>Modelled from the spec: the results class is imported; \<open>res.betas.values\<close> is the
      stored matrix of betas.\<close>
  "betas_values r = betas r"

definition gmm_sv :: "numerics \<Rightarrow> model \<Rightarrow> bool \<Rightarrow> error + vec" where
  \<comment> \<open>lines 418-423: the starting values from the two-pass estimator\<close>
  "gmm_sv np m er =
     (case fit_lfm np (LinearFactorModel (portfolios m) (factors m)) er ''robust''
             \<lparr>cfg_kernel = None, cfg_bandwidth = None\<rparr> of
        Inl e \<Rightarrow> Inl e
      | Inr res \<Rightarrow>
          Inr (ravel_C (betas_values res) @ risk_premia_values res
                 @ mean0 (ndarray (factors m))))"

definition gmm_step ::
  "numerics \<Rightarrow> model \<Rightarrow> bool \<Rightarrow> int \<Rightarrow> int \<Rightarrow> vec \<Rightarrow> error + vec \<times> real \<times> real mat" where
  \<comment> \<open>one weighting matrix and one minimization, lines 424-434 and again 438-447:
      \<open>(res.x, res.fun, w)\<close>. The callback only prints.\<close>
  "gmm_step np m er disp max_iter ps =
     (case gmm_moments m er ps of
        Inl e \<Rightarrow> Inl e
      | Inr g \<Rightarrow>
          (case np_inv np (sdiv (matmul (mT g) g) (real (gmm_nobs m))) of
             None \<Rightarrow> Inl LinAlgError
           | Some w \<Rightarrow>
               (case sp_minimize np (gmm_j m er w) ps (disp \<noteq> 0) max_iter of
                  Inl e \<Rightarrow> Inl e
                | Inr (x, obj) \<Rightarrow> Inr (x, obj, w))))"

fun gmm_loop ::
  "(vec \<Rightarrow> error + vec \<times> real \<times> real mat) \<Rightarrow> nat \<Rightarrow> vec \<Rightarrow> real \<Rightarrow> real mat \<Rightarrow> real list
     \<Rightarrow> error + vec \<times> real mat \<times> real list" where
  \<comment> \<open>the loop of lines 437-450 with \<open>i\<close> iterations left, from \<open>params\<close>, \<open>last_obj\<close> and
      \<open>w\<close>; \<open>hist\<close> records the objective value of every minimization so far\<close>
  "gmm_loop step 0 ps last_obj w hist = Inr (ps, w, hist)"
| "gmm_loop step (Suc i) ps last_obj w hist =
     (case step ps of
        Inl e \<Rightarrow> Inl e
      | Inr (x, obj, w') \<Rightarrow>
          if \<bar>obj - last_obj\<bar> < 1 / 1000000 then Inr (x, w', hist @ [obj])
          else gmm_loop step i x obj w' (hist @ [obj]))"

definition gmm_run ::
  "(vec \<Rightarrow> error + vec \<times> real \<times> real mat) \<Rightarrow> int \<Rightarrow> vec \<Rightarrow> error + vec \<times> real mat \<times> real list" where
  \<comment> \<open>lines 424-450 from the starting values: the first minimization, then
      \<open>range(steps - 1)\<close>\<close>
  "gmm_run step steps sv =
     (case step sv of
        Inl e \<Rightarrow> Inl e
      | Inr (x, obj, w) \<Rightarrow> gmm_loop step (nat (steps - 1)) x obj w [obj])"

definition stride_list :: "'a list \<Rightarrow> nat \<Rightarrow> nat \<Rightarrow> 'a list" where
  \<comment> \<open>\<open>v[0:n:s]\<close> with \<open>s > 0\<close>\<close>
  "stride_list v n s = map (\<lambda>i. v ! (i * s)) [0..<(min n (length v) + s - 1) div s]"

definition gmm_param_names :: "model \<Rightarrow> bool \<Rightarrow> string list" where
  \<comment> \<open>lines 474-481\<close>
  "gmm_param_names m er =
     concat (map (\<lambda>portfolio. map (\<lambda>factor. ''beta-'' @ portfolio @ ''-'' @ factor)
                                  (cols (factors m))) (cols (portfolios m)))
     @ (if er then [] else [''lambda-risk_free''])
     @ lambda_names (cols (factors m))
     @ map (\<lambda>f. ''mu-'' @ f) (cols (factors m))"

definition gmm_results ::
  "model \<Rightarrow> bool \<Rightarrow> string \<Rightarrow> vec \<Rightarrow> real mat \<Rightarrow> real mat \<Rightarrow> real mat \<Rightarrow> real \<Rightarrow> results" where
  \<comment> \<open>lines 457-490, from the final \<open>params\<close>, the moments \<open>g\<close>, \<open>s\<close>, the inverse \<open>core\<close> of
      line 457 and the objective value \<open>st\<close>. The one-dimensional \<open>rp\<close> is stored as a
      column.\<close>
  "gmm_results m er ct ps g s core st =
     (let n = nportfolio m;
          k = nfactor m;
          nrf = nrf_of er;
          full_vcv = sdiv core (real (gmm_nobs m));
          al = col (stride_list (mean0 g) (n * (k + 1)) (k + 1));
          bt = reshape_C n k (take (n * k) ps);
          r0 = bsub (ndarray (portfolios m)) (matmul (ndarray (factors m)) (mT bt));
          resids = bsub r0 (row (mean0 r0));
          residual = msum (bmul resids resids);
          t0 = bsub (ndarray (portfolios m)) (row (mean0 (ndarray (portfolios m))));
          total = msum (bmul t0 t0)
      in \<lparr>params = cbind al bt,
          cov = full_vcv,
          betas = bt,
          rp = col (take (k + nrf) (drop (n * k) ps)),
          rp_cov = slice full_vcv (n * k) (n * k + k + nrf) (n * k) (n * k + k + nrf),
          alphas = al,
          alpha_vcv = sdiv (stride s (n * (k + 1)) (k + 1)) (real (gmm_nobs m)),
          jstat = \<lparr>stat = st, null = ''All alphas are 0'', df = int n,
                   wald_name = ''J-statistic''\<rparr>,
          rsquared = 1 - residual / total,
          total_ss = total,
          residual_ss = residual,
          param_names = gmm_param_names m er,
          portfolio_names = cols (portfolios m),
          factor_names = cols (factors m),
          name = model_name m,
          cov_type = ct,
          nobs = gmm_nobs m,
          rp_names = take (k + nrf) (drop (n * k) (gmm_param_names m er))\<rparr>)"

definition gmm_inference ::
  "numerics \<Rightarrow> model \<Rightarrow> bool \<Rightarrow> string \<Rightarrow> vec \<Rightarrow> real mat \<Rightarrow> error + results" where
  \<comment> \<open>lines 453-492, from the final \<open>params\<close> and \<open>w\<close>\<close>
  "gmm_inference np m er ct ps w =
     (case gmm_moments m er ps of
        Inl e \<Rightarrow> Inl e
      | Inr g \<Rightarrow>
          (case gmm_jacobian m er ps of
             Inl e \<Rightarrow> Inl e
           | Inr jac \<Rightarrow>
               (case np_inv np (sdiv (matmul (mT g) g) (real (gmm_nobs m))) of
                  None \<Rightarrow> Inl LinAlgError
                | Some si \<Rightarrow>
                    (case np_inv np (matmul (matmul (mT jac) si) jac) of
                       None \<Rightarrow> Inl LinAlgError
                     | Some core \<Rightarrow>
                         (case gmm_j m er w ps of
                            Inl e \<Rightarrow> Inl e
                          | Inr st \<Rightarrow>
                              Inr (gmm_results m er ct ps g
                                     (sdiv (matmul (mT g) g) (real (gmm_nobs m))) core st))))))"

definition fit_gmm ::
  "numerics \<Rightarrow> model \<Rightarrow> bool \<Rightarrow> int \<Rightarrow> int \<Rightarrow> int \<Rightarrow> string \<Rightarrow> error + results" where
  \<comment> \<open>\<open>LinearFactorModelGMM.fit(excess_returns, steps, disp, max_iter, cov_type, ...)\<close>;
      \<open>debiased\<close> and \<open>cov_config\<close> are never read\<close>
  "fit_gmm np m er steps disp max_iter ct =
     (case gmm_sv np m er of
        Inl e \<Rightarrow> Inl e
      | Inr sv \<Rightarrow>
          (case gmm_run (gmm_step np m er disp max_iter) steps sv of
             Inl e \<Rightarrow> Inl e
           | Inr (ps, w, hist) \<Rightarrow> gmm_inference np m er ct ps w))"

section \<open>Well-formed inputs and a concrete run\<close>

definition wf_model :: "model \<Rightarrow> bool" where
  \<comment> \<open>what the source is entitled to: paired observations, and one label per column\<close>
  "wf_model m \<longleftrightarrow>
     nr (ndarray (portfolios m)) = nr (ndarray (factors m)) \<and>
     length (cols (portfolios m)) = nc (ndarray (portfolios m)) \<and>
     length (cols (factors m)) = nc (ndarray (factors m))"

definition shape_ok :: "numerics \<Rightarrow> bool" where
  \<comment> \<open>the shapes of the results of the imported routines\<close>
  "shape_ok np \<longleftrightarrow>
     (\<forall>A. nr (np_pinv np A) = nc A \<and> nc (np_pinv np A) = nr A) \<and>
     (\<forall>A B. nr (np_lstsq np A B) = nc A \<and> nc (np_lstsq np A B) = nc B) \<and>
     (\<forall>A B. np_inv np A = Some B \<longrightarrow> nr B = nr A \<and> nc B = nc A) \<and>
     (\<forall>f x d mi y v. sp_minimize np f x d mi = Inr (y, v) \<longrightarrow> length y = length x)"

text \<open>
  An instance of the imported routines on which the model can be run: it has the shapes
  of numpy's and scipy's routines, not their values (the pseudo-inverse is the transpose,
  a square matrix is its own inverse, the minimizer stops at its starting point, no
  kernel is known).
\<close>

definition np_run :: numerics where
  "np_run =
     \<lparr>np_pinv = mT,
      np_lstsq = (\<lambda>A B. matmul (mT A) B),
      np_inv = (\<lambda>A. if nr A = nc A then Some A else None),
      sp_minimize = (\<lambda>f x disp max_iter. case f x of Inl e \<Rightarrow> Inl e | Inr v \<Rightarrow> Inr (x, v)),
      KERNEL_LOOKUP = (\<lambda>k. None),
      cov_kernel = (\<lambda>A w. None)\<rparr>"

text \<open>Two observations of two portfolios and of one factor.\<close>

definition ex_portfolios :: ivdata where
  "ex_portfolios = \<lparr>ndarray = of_rows 2 [[1, 2], [3, 5]], cols = [''p1'', ''p2'']\<rparr>"

definition ex_factors :: ivdata where
  "ex_factors = \<lparr>ndarray = of_rows 1 [[1], [2]], cols = [''f1'']\<rparr>"

definition no_config :: cov_config where
  "no_config = \<lparr>cfg_kernel = None, cfg_bandwidth = None\<rparr>"

text \<open>Six observations of two portfolios and of one factor, in general position.\<close>

definition ex6_portfolios :: ivdata where
  "ex6_portfolios =
     \<lparr>ndarray = of_rows 2 [[1, 2], [2, 1], [0, 3], [3, 0], [1, 5], [4, 2]],
      cols = [''p1'', ''p2'']\<rparr>"

definition ex6_factors :: ivdata where
  "ex6_factors = \<lparr>ndarray = of_rows 1 [[1], [0], [2], [1], [3], [0]], cols = [''f1'']\<rparr>"

text \<open>
  An array has no entries outside its shape: in the representation, they are 0. Every
  operation above builds such an array.
\<close>

definition normal :: "'a::zero mat \<Rightarrow> bool" where
  \<comment> \<open>the entries outside the shape are 0, as in every array the operations build\<close>
  "normal A \<longleftrightarrow> A = mk (nr A) (nc A) (el A)"

text \<open>
  Inverses. A matrix is invertible when it is square and has a two-sided inverse.
  \<open>inv_exact\<close> is the contract of \<open>np.linalg.inv\<close> in exact arithmetic: it returns the
  inverse where there is one and raises LinAlgError where there is none. \<open>np_exact\<close> is \<open>np_run\<close>
  with such an inverse; the inverse is given by its description, so that a run with
  \<open>np_exact\<close> is reasoned about through \<open>invertible\<close>.
\<close>

definition inverse_of :: "real mat \<Rightarrow> real mat \<Rightarrow> bool" where
  \<comment> \<open>\<open>B\<close> is the inverse of the square matrix \<open>A\<close>\<close>
  "inverse_of A B \<longleftrightarrow>
     nr A = nc A \<and> nr B = nr A \<and> nc B = nr A \<and> normal B \<and>
     matmul A B = eye (nr A) \<and> matmul B A = eye (nr A)"

definition invertible :: "real mat \<Rightarrow> bool" where
  "invertible A \<longleftrightarrow> (\<exists>B. inverse_of A B)"


definition np_exact :: numerics where
  "np_exact = np_run\<lparr>np_inv := (\<lambda>A. if invertible A then Some (SOME B. inverse_of A B) else None)\<rparr>"

text \<open>
  Inputs on which an inverse is missing. \<open>const_factors\<close> is a factor that never moves,
  two observations of it: it is collinear with the intercept, so the Jacobian of the
  two-pass estimator has two equal rows. \<open>half_portfolio\<close> earns half of \<open>swing_factor\<close> in
  each of two periods: the two-pass estimator succeeds on them, and the three GMM moments
  of two observations have a singular weighting matrix.
\<close>

definition const_factors :: ivdata where
  \<comment> \<open>a factor that never moves, and so is collinear with the intercept\<close>
  "const_factors = \<lparr>ndarray = of_rows 1 [[1], [1]], cols = [''f1'']\<rparr>"

definition half_portfolio :: ivdata where
  "half_portfolio = \<lparr>ndarray = of_rows 1 [[1 / 2], [- 1 / 2]], cols = [''p1'']\<rparr>"

definition swing_factor :: ivdata where
  "swing_factor = \<lparr>ndarray = of_rows 1 [[1], [- 1]], cols = [''f1'']\<rparr>"

text \<open>
  Reordering the portfolios. \<open>permute_portfolios perm m\<close> is the estimator built on the
  portfolio columns taken in the order \<open>perm\<close>, with their labels; \<open>permc\<close>, \<open>permr\<close> and \<open>perm2\<close>
  reorder the columns, the rows, and both. \<open>block_perm\<close> and \<open>moment_perm\<close> are the
  reorderings of the moment columns of the time-series and of the two-pass estimator that
  go with a reordering of the portfolios.
\<close>

definition permc :: "(nat \<Rightarrow> nat) \<Rightarrow> 'a::zero mat \<Rightarrow> 'a mat" where
  \<comment> \<open>\<open>A[:, perm]\<close>: column \<open>j\<close> of the result is column \<open>perm j\<close> of \<open>A\<close>\<close>
  "permc \<pi> A = mk (nr A) (nc A) (\<lambda>i j. el A i (\<pi> j))"

definition permr :: "(nat \<Rightarrow> nat) \<Rightarrow> 'a::zero mat \<Rightarrow> 'a mat" where
  \<comment> \<open>\<open>A[perm]\<close>\<close>
  "permr \<pi> A = mk (nr A) (nc A) (\<lambda>i j. el A (\<pi> i) j)"

definition perm2 :: "(nat \<Rightarrow> nat) \<Rightarrow> 'a::zero mat \<Rightarrow> 'a mat" where
  \<comment> \<open>\<open>A[perm][:, perm]\<close>\<close>
  "perm2 \<pi> A = mk (nr A) (nc A) (\<lambda>i j. el A (\<pi> i) (\<pi> j))"

definition permute_portfolios :: "(nat \<Rightarrow> nat) \<Rightarrow> model \<Rightarrow> model" where
  \<comment> \<open>the estimator built on the portfolio columns in the order \<open>perm\<close>\<close>
  "permute_portfolios \<pi> m =
     m\<lparr>portfolios :=
          \<lparr>ndarray = permc \<pi> (ndarray (portfolios m)),
           cols = map (\<lambda>i. cols (portfolios m) ! \<pi> i) [0..<length (cols (portfolios m))]\<rparr>\<rparr>"

definition block_perm :: "(nat \<Rightarrow> nat) \<Rightarrow> nat \<Rightarrow> nat \<Rightarrow> nat \<Rightarrow> nat" where
  \<comment> \<open>the reordering of the moment columns that goes with a reordering of the portfolios,
      when portfolio \<open>i\<close> owns the \<open>w\<close> columns from \<open>i * w\<close> on and the columns from
      \<open>n * w\<close> on belong to no portfolio\<close>
  "block_perm \<pi> w n c = (if c < n * w then \<pi> (c div w) * w + c mod w else c)"

definition moment_perm :: "(nat \<Rightarrow> nat) \<Rightarrow> nat \<Rightarrow> nat \<Rightarrow> nat \<Rightarrow> nat \<Rightarrow> nat" where
  \<comment> \<open>the reordering of the two-pass moment columns that goes with a reordering of the
      portfolios: \<open>n\<close> blocks of \<open>w\<close> columns, \<open>e\<close> columns of no portfolio, then one column for
      each portfolio\<close>
  "moment_perm \<pi> w n e c =
     (if c < n * w + e then block_perm \<pi> w n c else n * w + e + \<pi> (c - (n * w + e)))"

text \<open>
  What the exact pseudo-inverse, inverse, least-squares solution and kernel covariance do
  under a reordering of rows and columns: they commute with it.
\<close>

definition equivariant :: "numerics \<Rightarrow> bool" where
  \<comment> \<open>the imported routines commute with a reordering of rows and columns, as the exact
      pseudo-inverse, inverse, least-squares solution and kernel covariance do; the kernel
      covariance of a matrix is square, of the size of its column count\<close>
  "equivariant np \<longleftrightarrow>
     (\<forall>A \<pi>. bij_betw \<pi> {..<nr A} {..<nr A} \<and> nr A = nc A \<longrightarrow>
        np_pinv np (perm2 \<pi> A) = perm2 \<pi> (np_pinv np A)) \<and>
     (\<forall>A \<pi>. bij_betw \<pi> {..<nr A} {..<nr A} \<and> nr A = nc A \<longrightarrow>
        np_inv np (perm2 \<pi> A) = map_option (perm2 \<pi>) (np_inv np A)) \<and>
     (\<forall>A B \<pi>. bij_betw \<pi> {..<nc B} {..<nc B} \<and> nr B = nr A \<longrightarrow>
        np_lstsq np A (permc \<pi> B) = permc \<pi> (np_lstsq np A B)) \<and>
     (\<forall>A B \<pi>. bij_betw \<pi> {..<nr A} {..<nr A} \<and> nr B = nr A \<longrightarrow>
        np_lstsq np (permr \<pi> A) (permr \<pi> B) = np_lstsq np A B) \<and>
     (\<forall>A w \<pi>. bij_betw \<pi> {..<nc A} {..<nc A} \<longrightarrow>
        cov_kernel np (permc \<pi> A) w = map_option (perm2 \<pi>) (cov_kernel np A w)) \<and>
     (\<forall>A w C. cov_kernel np A w = Some C \<longrightarrow> nr C = nc A \<and> nc C = nc A)"

section \<open>Shapes\<close>

lemma nr_mk [simp]: "nr (mk r c f) = r"
  by (simp add: mk_def)

lemma nc_mk [simp]: "nc (mk r c f) = c"
  by (simp add: mk_def)

lemma el_mk [simp]: "el (mk r c f) i j = (if i < r \<and> j < c then f i j else 0)"
  by (simp add: mk_def)

lemma shapes [simp]:
  "nr (zeros r c) = r" "nc (zeros r c) = c"
  "nr (ones r c) = r" "nc (ones r c) = c"
  "nr (eye n) = n" "nc (eye n) = n"
  "nr (mT A) = nc A" "nc (mT A) = nr A"
  "nr (matmul X Y) = nr X" "nc (matmul X Y) = nc Y"
  "nr (cbind A B) = nr A" "nc (cbind A B) = nc A + nc B"
  "nr (rbind A B) = nr A + nr B" "nc (rbind A B) = nc A"
  "nr (bop f X Y) = bdim (nr X) (nr Y)" "nc (bop f X Y) = bdim (nc X) (nc Y)"
  "nr (smul (t::real) X) = nr X" "nc (smul t X) = nc X"
  "nr (sdiv X t) = nr X" "nc (sdiv X t) = nc X"
  "nr (col v) = length v" "nc (col v) = 1"
  "nr (row v) = 1" "nc (row v) = length v"
  "nr (kron X Y) = nr X * nr Y" "nc (kron X Y) = nc X * nc Y"
  "nr (tile A a b) = a * nr A" "nc (tile A a b) = b * nc A"
  "nr (reshape_C r c v) = r" "nc (reshape_C r c v) = c"
  "nr (reshape_F r c v) = r" "nc (reshape_F r c v) = c"
  "nr (slice A r0 r1 c0 c1) = min r1 (nr A) - r0" "nc (slice A r0 r1 c0 c1) = min c1 (nc A) - c0"
  "nr (take_idx order A) = length order" "nc (take_idx order A) = length order"
  "nr (set_block A r0 c0 B) = nr A" "nc (set_block A r0 c0 B) = nc A"
  "nr (of_rows c rows) = length rows" "nc (of_rows c rows) = c"
  by (simp_all add: zeros_def ones_def eye_def mT_def matmul_def cbind_def rbind_def bop_def
      smul_def sdiv_def col_def row_def kron_def tile_def reshape_C_def reshape_F_def slice_def
      take_idx_def set_block_def of_rows_def)

lemma shapes_b [simp]:
  "nr (badd X Y) = bdim (nr X) (nr Y)" "nc (badd X Y) = bdim (nc X) (nc Y)"
  "nr (bsub X Y) = bdim (nr X) (nr Y)" "nc (bsub X Y) = bdim (nc X) (nc Y)"
  "nr (bmul X Y) = bdim (nr X) (nr Y)" "nc (bmul X Y) = bdim (nc X) (nc Y)"
  by (simp_all add: badd_def bsub_def bmul_def)

lemma lengths [simp]:
  "length (mean0 X) = nc X" "length (ravel_C A) = nr A * nc A"
  "length (ravel_F A) = nr A * nc A" "length (arange a b) = b - a"
  by (simp_all add: mean0_def ravel_C_def ravel_F_def arange_def)

lemma bdim_same [simp]: "bdim a a = a" "bdim a 1 = a" "bdim a (Suc 0) = a"
  by (simp_all add: bdim_def)

lemma nr_fold_set_block [simp]:
  "nr (fold (\<lambda>i G. set_block G (a i) (b i) (B i)) xs G0) = nr G0"
  by (induction xs arbitrary: G0) simp_all

lemma nc_fold_set_block [simp]:
  "nc (fold (\<lambda>i G. set_block G (a i) (b i) (B i)) xs G0) = nc G0"
  by (induction xs arbitrary: G0) simp_all

section \<open>What a returned result is\<close>

lemma fit_traded_Inr:
  assumes "fit_traded np m ct d cfg = Inr r"
  obtains xeex rc where "tfm_cov np m ct cfg = Inr (xeex, rc)"
    and "r = tfm_results np m ct d xeex rc"
    and "nr (ndarray (portfolios m)) = nobs_f m"
  using assms by (auto simp: fit_traded_def split: if_splits sum.splits)

lemma fit_lfm_Inr:
  assumes "fit_lfm np m er ct cfg = Inr r"
  obtains Ginv avi where "np_inv np (lfm_G np m er) = Some Ginv"
    and "np_inv np (lfm_alpha_vcv np m er Ginv) = Some avi"
    and "r = lfm_results np m er ct Ginv avi"
    and "nr (ndarray (portfolios m)) = nobs_f m"
  using assms by (auto simp: fit_lfm_def split: if_splits option.splits)

lemma gmm_inference_Inr:
  assumes "gmm_inference np m er ct ps w = Inr r"
  obtains g jac si core st where "gmm_moments m er ps = Inr g"
    and "gmm_jacobian m er ps = Inr jac"
    and "np_inv np (sdiv (matmul (mT g) g) (real (gmm_nobs m))) = Some si"
    and "np_inv np (matmul (matmul (mT jac) si) jac) = Some core"
    and "gmm_j m er w ps = Inr st"
    and "r = gmm_results m er ct ps g (sdiv (matmul (mT g) g) (real (gmm_nobs m))) core st"
  using assms by (auto simp: gmm_inference_def split: sum.splits option.splits)

lemma fit_gmm_Inr:
  assumes "fit_gmm np m er steps disp mi ct = Inr r"
  obtains sv ps w hist where "gmm_sv np m er = Inr sv"
    and "gmm_run (gmm_step np m er disp mi) steps sv = Inr (ps, w, hist)"
    and "gmm_inference np m er ct ps w = Inr r"
  using assms by (auto simp: fit_gmm_def split: sum.splits)

section \<open>Running the model\<close>

lemma model_sel [simp]:
  "portfolios (base_init c a b) = a" "factors (base_init c a b) = b" "model_name (base_init c a b) = c"
  "nportfolio (base_init c a b) = nc (ndarray a)" "nfactor (base_init c a b) = nc (ndarray b)"
  "nobs_f (base_init c a b) = nr (ndarray b)" "gmm_nobs (base_init c a b) = nr (ndarray a)"
  by (simp_all add: base_init_def IVData_def nportfolio_def nfactor_def nobs_f_def gmm_nobs_def)

lemma ctor_sel [simp]:
  "portfolios (TradedFactorModel a b) = a" "factors (TradedFactorModel a b) = b"
  "portfolios (LinearFactorModel a b) = a" "factors (LinearFactorModel a b) = b"
  "portfolios (LinearFactorModelGMM a b) = a" "factors (LinearFactorModelGMM a b) = b"
  by (simp_all add: TradedFactorModel_def LinearFactorModel_def LinearFactorModelGMM_def)

lemma np_run_sel [simp]:
  "np_pinv np_run = mT" "np_lstsq np_run = (\<lambda>A B. matmul (mT A) B)"
  "np_inv np_run A = (if nr A = nc A then Some A else None)"
  "sp_minimize np_run f x disp mi = (case f x of Inl e \<Rightarrow> Inl e | Inr v \<Rightarrow> Inr (x, v))"
  by (simp_all add: np_run_def)

lemma shape_ok_np_run: "shape_ok np_run"
  by (auto simp: shape_ok_def split: sum.splits if_splits)

lemma tfm_fc_shape [simp]: "nr (tfm_fc m) = nobs_f m" "nc (tfm_fc m) = nfactor m + 1"
  by (simp_all add: tfm_fc_def nfactor_def)

lemma lfm_shapes:
  assumes "shape_ok np"
  shows "nr (lfm_b np m) = nfactor m + 1" "nc (lfm_b np m) = nportfolio m"
    "nr (lfm_betas np m er) = nportfolio m" "nc (lfm_betas np m er) = nfactor m + nrf_of er"
    "nr (lfm_lam np m er) = nfactor m + nrf_of er" "nc (lfm_lam np m er) = 1"
  using assms
  by (auto simp: shape_ok_def lfm_b_def lfm_betas_def lfm_lam_def nportfolio_def nrf_of_def)

lemma lfm_G_square [simp]: "nc (lfm_G np m er) = nr (lfm_G np m er)"
  by (simp add: lfm_G_def Let_def)

lemma lfm_alpha_vcv_square [simp]: "nc (lfm_alpha_vcv np m er Ginv) = nr (lfm_alpha_vcv np m er Ginv)"
  by (simp add: lfm_alpha_vcv_def lfm_full_vcv_def)

lemma fit_lfm_run:
  assumes "nr (ndarray (portfolios m)) = nobs_f m"
  shows "fit_lfm np_run m er ct cfg =
     Inr (lfm_results np_run m er ct (lfm_G np_run m er) (lfm_alpha_vcv np_run m er (lfm_G np_run m er)))"
  using assms by (simp add: fit_lfm_def)

lemma gmm_moments_returns:
  assumes "length ps = gmm_nparams m er" "nr (ndarray (factors m)) = nr (ndarray (portfolios m))"
  obtains g where "gmm_moments m er ps = Inr g"
    and "nc g = nportfolio m * (nfactor m + 1) + nfactor m" and "nr g = gmm_nobs m"
  using assms
  by (auto simp: gmm_moments_def gmm_nparams_def Let_def nportfolio_def nfactor_def gmm_nobs_def)

lemma gmm_j_returns:
  assumes "gmm_moments m er ps = Inr g"
  shows "\<exists>v. gmm_j m er w ps = Inr v"
  using assms by (simp add: gmm_j_def)

lemma gmm_step_run:
  assumes "length ps = gmm_nparams m er" "nr (ndarray (factors m)) = nr (ndarray (portfolios m))"
  shows "\<exists>v w. gmm_step np_run m er disp mi ps = Inr (ps, v, w)"
proof -
  from assms obtain g where g: "gmm_moments m er ps = Inr g"
    by (rule gmm_moments_returns)
  show ?thesis
    by (simp add: gmm_step_def g gmm_j_def)
qed

lemma gmm_loop_fixed:
  assumes "\<And>x. P x \<Longrightarrow> \<exists>x' v w. step x = Inr (x', v, w) \<and> P x'" "P ps"
  shows "\<exists>ps' w' h'. gmm_loop step i ps lo w h = Inr (ps', w', h') \<and> P ps'"
  using assms(2)
proof (induction i arbitrary: ps lo w h)
  case 0
  then show ?case by simp
next
  case (Suc i)
  from assms(1)[OF Suc.prems] obtain x' v w' where s: "step ps = Inr (x', v, w')" and p: "P x'"
    by blast
  show ?case
    using Suc.IH[OF p] p by (simp add: s)
qed

lemma gmm_run_fixed:
  assumes "\<And>x. P x \<Longrightarrow> \<exists>x' v w. step x = Inr (x', v, w) \<and> P x'" "P sv"
  shows "\<exists>ps' w' h'. gmm_run step steps sv = Inr (ps', w', h') \<and> P ps'"
proof -
  from assms obtain x' v w' where s: "step sv = Inr (x', v, w')" and p: "P x'"
    by blast
  show ?thesis
    using gmm_loop_fixed[where P = P and step = step, OF assms(1) p] by (simp add: gmm_run_def s)
qed

lemma lfm_results_sel [simp]:
  "betas (lfm_results np m er ct Ginv avi) =
     (if er then lfm_betas np m er
      else slice (lfm_betas np m er) 0 (nr (lfm_betas np m er)) 1 (nc (lfm_betas np m er)))"
  "rp (lfm_results np m er ct Ginv avi) = lfm_lam np m er"
  by (simp_all add: lfm_results_def Let_def)

lemma gmm_sv_length:
  assumes "gmm_sv np m er = Inr sv" "shape_ok np"
  shows "length sv = gmm_nparams m er"
proof -
  let ?m = "LinearFactorModel (portfolios m) (factors m)"
  from assms(1) obtain res where res: "fit_lfm np ?m er ''robust'' \<lparr>cfg_kernel = None, cfg_bandwidth = None\<rparr> = Inr res"
    and sv: "sv = ravel_C (betas_values res) @ risk_premia_values res @ mean0 (ndarray (factors m))"
    by (auto simp: gmm_sv_def split: sum.splits)
  from res obtain Ginv avi where r: "res = lfm_results np ?m er ''robust'' Ginv avi"
    by (rule fit_lfm_Inr)
  have [simp]: "nportfolio ?m = nportfolio m" "nfactor ?m = nfactor m"
    by (simp_all add: LinearFactorModel_def nportfolio_def nfactor_def)
  show ?thesis
    using lfm_shapes[OF assms(2)]
    by (cases er) (simp_all add: sv r betas_values_def risk_premia_values_def gmm_nparams_def
        nrf_of_def nfactor_def)
qed

lemma gmm_jacobian_returns:
  assumes "length ps = gmm_nparams m er" "1 \<le> nfactor m"
  obtains jac where "gmm_jacobian m er ps = Inr jac" and "nc jac = length ps"
  using assms by (auto simp: gmm_jacobian_def gmm_nparams_def Let_def)

lemma gmm_inference_run:
  assumes "length ps = gmm_nparams m er" "nr (ndarray (factors m)) = nr (ndarray (portfolios m))"
    "1 \<le> nfactor m"
  shows "\<exists>r. gmm_inference np_run m er ct ps w = Inr r"
proof -
  from assms(1,2) obtain g where g: "gmm_moments m er ps = Inr g"
    by (rule gmm_moments_returns)
  from assms(1,3) obtain jac where j: "gmm_jacobian m er ps = Inr jac"
    by (rule gmm_jacobian_returns)
  show ?thesis
    by (simp add: gmm_inference_def g j gmm_j_def)
qed

lemma fit_gmm_run:
  assumes "wf_model m" "1 \<le> nfactor m"
  shows "\<exists>r. fit_gmm np_run m er steps disp mi ct = Inr r"
proof -
  have rows: "nr (ndarray (factors m)) = nr (ndarray (portfolios m))"
    using assms(1) by (simp add: wf_model_def)
  let ?m = "LinearFactorModel (portfolios m) (factors m)"
  have "nr (ndarray (portfolios ?m)) = nobs_f ?m"
    using rows by (simp add: LinearFactorModel_def)
  then obtain sv where sv: "gmm_sv np_run m er = Inr sv"
    by (simp add: gmm_sv_def fit_lfm_run)
  have len: "length sv = gmm_nparams m er"
    using sv shape_ok_np_run by (rule gmm_sv_length)
  have "\<exists>ps' w' h'. gmm_run (gmm_step np_run m er disp mi) steps sv = Inr (ps', w', h')
          \<and> length ps' = gmm_nparams m er"
  proof (rule gmm_run_fixed[where P = "\<lambda>x. length x = gmm_nparams m er"])
    fix x :: vec assume "length x = gmm_nparams m er"
    then show "\<exists>x' v w. gmm_step np_run m er disp mi x = Inr (x', v, w) \<and> length x' = gmm_nparams m er"
      using gmm_step_run[OF _ rows, of x er disp mi] by auto
  qed (rule len)
  then obtain ps w h where run: "gmm_run (gmm_step np_run m er disp mi) steps sv = Inr (ps, w, h)"
    and l: "length ps = gmm_nparams m er"
    by blast
  from gmm_inference_run[OF l rows assms(2)] obtain r where "gmm_inference np_run m er ct ps w = Inr r"
    by blast
  then show ?thesis
    by (simp add: fit_gmm_def sv run)
qed

lemma results_df [simp]:
  "df (jstat (tfm_results np m ct d xeex rc)) = int (nportfolio m)"
  "df (jstat (lfm_results np m er ct Ginv avi)) = int (nportfolio m) - int (nfactor m)"
  "df (jstat (gmm_results m er ct ps g s core st)) = int (nportfolio m)"
  by (simp_all add: tfm_results_def lfm_results_def gmm_results_def Let_def)

lemma gmm_results_names [simp]:
  "portfolio_names (gmm_results m er ct ps g s core st) = cols (portfolios m)"
  "factor_names (gmm_results m er ct ps g s core st) = cols (factors m)"
  "nr (betas (gmm_results m er ct ps g s core st)) = nportfolio m"
  "nc (betas (gmm_results m er ct ps g s core st)) = nfactor m"
  by (simp_all add: gmm_results_def Let_def)

lemma call_kw_two:
  "call_kw [''portfolios'', ''factors''] init [''portfolios'' \<mapsto> P, ''factors'' \<mapsto> F] = Inr (init P F)"
  "call_kw [''factors'', ''portfolios''] init [''portfolios'' \<mapsto> P, ''factors'' \<mapsto> F] = Inr (init F P)"
  by (auto simp: call_kw_def)

section \<open>Claims\<close>

text \<open>
  C1. \<open>LinearFactorModelGMM(a, b)\<close> stores its first argument as the portfolio returns
  and its second as the factor returns, although its parameters are named
  \<open>(factors, portfolios)\<close>, the reverse of the parameter lists of the two other
  constructors. A call by keyword, \<open>portfolios=P, factors=F\<close>, binds by name, so the
  time-series and two-pass constructors store \<open>P\<close> as portfolios, while the GMM
  constructor stores \<open>F\<close> as portfolios and \<open>P\<close> as factors; a fit of that model
  reports the columns of \<open>F\<close> as its portfolios and those of \<open>P\<close> as its factors, and
  when the column counts differ the number of portfolios differs from that of the
  time-series model built from the same keywords.
\<close>

theorem gmm_constructor_roles:
  "portfolios (LinearFactorModelGMM a b) = a \<and> factors (LinearFactorModelGMM a b) = b \<and>
   LinearFactorModelGMM_params = [''factors'', ''portfolios''] \<and>
   LinearFactorModelGMM_params = rev TradedFactorModel_params \<and>
   LinearFactorModelGMM_params = rev LinearFactorModel_params \<and>
   call_kw TradedFactorModel_params TradedFactorModel [''portfolios'' \<mapsto> P, ''factors'' \<mapsto> F]
     = Inr (TradedFactorModel P F) \<and>
   call_kw LinearFactorModel_params LinearFactorModel [''portfolios'' \<mapsto> P, ''factors'' \<mapsto> F]
     = Inr (LinearFactorModel P F) \<and>
   call_kw LinearFactorModelGMM_params LinearFactorModelGMM [''portfolios'' \<mapsto> P, ''factors'' \<mapsto> F]
     = Inr (LinearFactorModelGMM F P) \<and>
   portfolios (LinearFactorModelGMM F P) = F \<and> factors (LinearFactorModelGMM F P) = P \<and>
   (fit_gmm np (LinearFactorModelGMM F P) er steps disp mi ct = Inr r \<longrightarrow>
      portfolio_names r = cols F \<and> factor_names r = cols P \<and>
      df (jstat r) = int (nc (ndarray F)) \<and>
      nr (betas r) = nc (ndarray F) \<and> nc (betas r) = nc (ndarray P)) \<and>
   (nc (ndarray P) \<noteq> nc (ndarray F) \<longrightarrow>
      nportfolio (LinearFactorModelGMM F P) \<noteq> nportfolio (TradedFactorModel P F) \<and>
      nfactor (LinearFactorModelGMM F P) \<noteq> nfactor (TradedFactorModel P F))"
  by (auto simp: LinearFactorModelGMM_params_def TradedFactorModel_params_def
      LinearFactorModel_params_def call_kw_two nportfolio_def nfactor_def
      elim!: fit_gmm_Inr gmm_inference_Inr)

lemma ex_shapes [simp]:
  "nr (ndarray ex_portfolios) = 2" "nc (ndarray ex_portfolios) = 2"
  "nr (ndarray ex_factors) = 2" "nc (ndarray ex_factors) = 1"
  "cols ex_portfolios = [''p1'', ''p2'']" "cols ex_factors = [''f1'']"
  by (simp_all add: ex_portfolios_def ex_factors_def)

theorem gmm_constructor_roles_witness:
  "\<exists>r. fit_gmm np_run (LinearFactorModelGMM ex_factors ex_portfolios) True 2 0 1000 ''robust'' = Inr r \<and>
     call_kw LinearFactorModelGMM_params LinearFactorModelGMM
       [''portfolios'' \<mapsto> ex_portfolios, ''factors'' \<mapsto> ex_factors]
       = Inr (LinearFactorModelGMM ex_factors ex_portfolios) \<and>
     nc (ndarray ex_portfolios) \<noteq> nc (ndarray ex_factors) \<and>
     portfolio_names r = [''f1''] \<and> factor_names r = [''p1'', ''p2''] \<and> df (jstat r) = 1 \<and>
     nportfolio (LinearFactorModelGMM ex_factors ex_portfolios) = 1 \<and>
     nportfolio (TradedFactorModel ex_portfolios ex_factors) = 2"
proof -
  have "wf_model (LinearFactorModelGMM ex_factors ex_portfolios)"
    by (simp add: wf_model_def)
  moreover have "1 \<le> nfactor (LinearFactorModelGMM ex_factors ex_portfolios)"
    by (simp add: nfactor_def)
  ultimately obtain r where
    r: "fit_gmm np_run (LinearFactorModelGMM ex_factors ex_portfolios) True 2 0 1000 ''robust'' = Inr r"
    using fit_gmm_run by blast
  show ?thesis
    using r gmm_constructor_roles[of ex_factors ex_portfolios ex_portfolios ex_factors np_run True 2 0 1000
        "''robust''" r]
    by (auto simp: nportfolio_def)
qed

text \<open>
  C2. Whenever a fit returns, its J-statistic carries \<open>N\<close> degrees of freedom for the
  time-series estimator, \<open>N - K\<close> for the two-pass estimator and \<open>N\<close> for the GMM
  estimator, \<open>N\<close> and \<open>K\<close> being the column counts of the stored portfolio and factor
  matrices.
\<close>

theorem jstat_degrees_of_freedom:
  "(fit_traded np m1 ct d cfg = Inr r1 \<longrightarrow> df (jstat r1) = int (nportfolio m1)) \<and>
   (fit_lfm np m2 er ct cfg = Inr r2 \<longrightarrow> df (jstat r2) = int (nportfolio m2) - int (nfactor m2)) \<and>
   (fit_gmm np m3 er steps disp mi ct = Inr r3 \<longrightarrow> df (jstat r3) = int (nportfolio m3))"
  by (auto elim!: fit_traded_Inr fit_lfm_Inr fit_gmm_Inr gmm_inference_Inr)

lemma fit_traded_robust:
  assumes "nr (ndarray (portfolios m)) = nobs_f m" "ct \<in> {''robust'', ''heteroskedastic''}"
  shows "\<exists>r. fit_traded np m ct d cfg = Inr r"
  using assms by (auto simp: fit_traded_def tfm_cov_def)

theorem jstat_degrees_of_freedom_witness:
  "\<exists>r1 r2 r3.
     fit_traded np_run (TradedFactorModel ex_portfolios ex_factors) ''robust'' True no_config = Inr r1 \<and>
     df (jstat r1) = 2 \<and>
     fit_lfm np_run (LinearFactorModel ex_portfolios ex_factors) True ''robust'' no_config = Inr r2 \<and>
     df (jstat r2) = 1 \<and>
     fit_gmm np_run (LinearFactorModelGMM ex_portfolios ex_factors) True 2 0 1000 ''robust'' = Inr r3 \<and>
     df (jstat r3) = 2"
proof -
  obtain r1 where
    r1: "fit_traded np_run (TradedFactorModel ex_portfolios ex_factors) ''robust'' True no_config = Inr r1"
    using fit_traded_robust[of "TradedFactorModel ex_portfolios ex_factors" "''robust''" np_run True
        no_config]
    by (auto simp: nobs_f_def)
  obtain r2 where
    r2: "fit_lfm np_run (LinearFactorModel ex_portfolios ex_factors) True ''robust'' no_config = Inr r2"
    using fit_lfm_run[of "LinearFactorModel ex_portfolios ex_factors" True "''robust''" no_config]
    by (auto simp: nobs_f_def)
  have "wf_model (LinearFactorModelGMM ex_portfolios ex_factors)"
    by (simp add: wf_model_def)
  moreover have "1 \<le> nfactor (LinearFactorModelGMM ex_portfolios ex_factors)"
    by (simp add: nfactor_def)
  ultimately obtain r3 where
    r3: "fit_gmm np_run (LinearFactorModelGMM ex_portfolios ex_factors) True 2 0 1000 ''robust'' = Inr r3"
    using fit_gmm_run by blast
  show ?thesis
    using r1 r2 r3
      jstat_degrees_of_freedom[of np_run "TradedFactorModel ex_portfolios ex_factors" "''robust''" True
        no_config r1 "LinearFactorModel ex_portfolios ex_factors" True r2
        "LinearFactorModelGMM ex_portfolios ex_factors" 2 0 1000 r3]
    by (auto simp: nportfolio_def nfactor_def)
qed

text \<open>
  C3 (amended). For inputs with equal row counts, the time-series fit fails with the
  error of an unknown covariance kind (the ValueError of line 121) if and only if
  \<open>cov_type\<close> is none of the three names \<open>'robust'\<close>, \<open>'heteroskedastic'\<close> and
  \<open>'kernel'\<close>; for exactly these three names the fit proceeds without this error.
\<close>

theorem unknown_cov_type_error:
  assumes "nr (ndarray (portfolios m)) = nobs_f m"
  shows "(fit_traded np m ct d cfg = Inl (ValueError (''Unknown cov_type: '' @ ct)))
           = (ct \<notin> {''robust'', ''heteroskedastic'', ''kernel''})"
  using assms
  by (auto simp: fit_traded_def tfm_cov_def Let_def split: option.splits)

theorem unknown_cov_type_error_witness:
  "nr (ndarray (portfolios (TradedFactorModel ex_portfolios ex_factors)))
     = nobs_f (TradedFactorModel ex_portfolios ex_factors) \<and>
   fit_traded np_run (TradedFactorModel ex_portfolios ex_factors) ''homoskedastic'' True no_config
     = Inl (ValueError ''Unknown cov_type: homoskedastic'') \<and>
   fit_traded np_run (TradedFactorModel ex_portfolios ex_factors) ''kernel'' True no_config
     \<noteq> Inl (ValueError ''Unknown cov_type: kernel'')"
proof -
  have h: "nr (ndarray (portfolios (TradedFactorModel ex_portfolios ex_factors)))
     = nobs_f (TradedFactorModel ex_portfolios ex_factors)"
    by (simp add: nobs_f_def)
  show ?thesis
    using h unknown_cov_type_error[OF h, of np_run "''homoskedastic''" True no_config]
      unknown_cov_type_error[OF h, of np_run "''kernel''" True no_config]
    by simp
qed

text \<open>
  The claim as stated fails: \<open>'heteroskedastic'\<close> is neither \<open>'robust'\<close> nor \<open>'kernel'\<close>,
  and the fit returns a result for it (line 110 tests membership in
  \<open>('robust', 'heteroskedastic')\<close>).
\<close>

theorem heteroskedastic_accepted:
  "''heteroskedastic'' \<notin> {''robust'', ''kernel''} \<and>
   \<not> isl (fit_traded np_run (TradedFactorModel ex_portfolios ex_factors) ''heteroskedastic'' True
            no_config)"
  by (simp add: fit_traded_def tfm_cov_def nobs_f_def)

text \<open>
  C4 (amended). Whenever \<open>_moments\<close> returns, its matrix has one row per observation
  and \<open>N (K + 1) + K\<close> columns; and for every parameter vector of the layout's length
  \<open>N K + (K + nrf) + K\<close> (on inputs with equal row counts) it returns, and the column
  count plus \<open>K + nrf\<close> equals the parameter count plus \<open>N\<close>, that is, there are
  \<open>N - K - nrf\<close> more moments than parameters.
\<close>

theorem moments_columns:
  "(gmm_moments m er ps = Inr g \<longrightarrow>
      nr g = gmm_nobs m \<and>
      nc g = nportfolio m * (nfactor m + 1) + nfactor m) \<and>
   (length ps = gmm_nparams m er \<and> nr (ndarray (factors m)) = nr (ndarray (portfolios m)) \<longrightarrow>
      (\<exists>g'. gmm_moments m er ps = Inr g' \<and>
            nc g' + nfactor m + nrf_of er = length ps + nportfolio m))"
  by (auto simp: gmm_moments_def gmm_nparams_def Let_def nportfolio_def nfactor_def gmm_nobs_def
      split: if_splits)

theorem moments_columns_witness:
  "length [0, 0, 0, 0 :: real] = gmm_nparams (LinearFactorModelGMM ex_portfolios ex_factors) True \<and>
   nr (ndarray (factors (LinearFactorModelGMM ex_portfolios ex_factors)))
     = nr (ndarray (portfolios (LinearFactorModelGMM ex_portfolios ex_factors))) \<and>
   (\<exists>g. gmm_moments (LinearFactorModelGMM ex_portfolios ex_factors) True [0, 0, 0, 0] = Inr g \<and>
        nr g = 2 \<and> nc g = 5 \<and> nc g + 1 + 0 = 4 + 2)"
  using moments_columns[of "LinearFactorModelGMM ex_portfolios ex_factors" True "[0, 0, 0, 0]"]
  by (auto simp: gmm_nparams_def nportfolio_def nfactor_def nrf_of_def gmm_nobs_def)

text \<open>
  The claim as stated fails: with two portfolios and one factor the matrix has 5 columns,
  neither \<open>K (K + 1) + N (K + 1) + K = 7\<close> nor the parameter count plus \<open>N\<close>, which is 6.
\<close>

theorem moments_columns_counterexample:
  "(case gmm_moments (LinearFactorModelGMM ex_portfolios ex_factors) True [0, 0, 0, 0] of
      Inl e \<Rightarrow> False
    | Inr g \<Rightarrow> nc g = 5 \<and> nc g \<noteq> 1 * (1 + 1) + 2 * (1 + 1) + 1 \<and>
               nc g \<noteq> length [0, 0, 0, 0 :: real] + 2)"
  by (simp add: gmm_moments_def Let_def nrf_of_def)



lemma gmm_loop_total:
  assumes "\<forall>x. \<exists>y. step x = Inr y"
  shows "\<exists>res. gmm_loop step i ps lo w h = Inr res"
proof (induction i arbitrary: ps lo w h)
  case 0
  then show ?case by simp
next
  case (Suc i)
  from assms obtain x obj wn where s: "step ps = Inr (x, obj, wn)"
    by (metis prod_cases3)
  show ?case
    using Suc.IH[of x obj wn "h @ [obj]"] by (simp add: s)
qed

lemma gmm_run_total:
  assumes "\<forall>x. \<exists>y. step x = Inr y"
  shows "\<exists>res. gmm_run step steps sv = Inr res"
proof -
  from assms obtain x obj wn where s: "step sv = Inr (x, obj, wn)"
    by (metis prod_cases3)
  show ?thesis
    using gmm_loop_total[OF assms, of "nat (steps - 1)" x obj wn "[obj]"] by (simp add: gmm_run_def s)
qed

lemma ex_gmm_wf [simp]:
  "wf_model (LinearFactorModelGMM ex_portfolios ex_factors)"
  "nfactor (LinearFactorModelGMM ex_portfolios ex_factors) = 1"
  "nportfolio (LinearFactorModelGMM ex_portfolios ex_factors) = 2"
  "gmm_nparams (LinearFactorModelGMM ex_portfolios ex_factors) True = 4"
  by (simp_all add: wf_model_def nfactor_def nportfolio_def gmm_nparams_def nrf_of_def)



lemma length_names_of [simp]:
  "length (names_of pcols fcols) = length pcols * (length fcols + 1)"
  by (induction pcols) (simp_all add: names_of_def)

lemma length_lambda_names [simp]: "length (lambda_names fcols) = length fcols"
  by (simp add: lambda_names_def)

lemma risk_free_not_in_names_of: "''lambda-risk_free'' \<notin> set (names_of pcols fcols)"
  by (auto simp: names_of_def)

lemma risk_free_in_lambda_names:
  "''lambda-risk_free'' \<in> set (lambda_names fcols) \<longleftrightarrow> ''risk_free'' \<in> set fcols"
  by (auto simp: lambda_names_def)

lemma lfm_results_names [simp]:
  "param_names (lfm_results np m er ct Ginv avi) =
     names_of (cols (portfolios m)) (cols (factors m))
       @ (if er then [] else [''lambda-risk_free'']) @ lambda_names (cols (factors m))"
  "rp_names (lfm_results np m er ct Ginv avi) =
     (if er then [] else [''risk_free'']) @ cols (factors m)"
  "params (lfm_results np m er ct Ginv avi) =
     cbind (lfm_alphas np m er) (betas (lfm_results np m er ct Ginv avi))"
  by (simp_all add: lfm_results_def Let_def)

lemma lfm_betas_ones:
  assumes "shape_ok np" "i < nportfolio m"
  shows "el (lfm_betas np m False) i 0 = 1"
  using assms lfm_shapes(1,2)[OF assms(1)]
  by (simp add: lfm_betas_def set_block_def ones_def)

lemma lfm_alphas_shape [simp]:
  "nc (lfm_alphas np m er) = 1" "nr (lfm_alphas np m er) = nc (lfm_pricing_errors np m er)"
  by (simp_all add: lfm_alphas_def)

text \<open>
  C10. Let the two-pass fit return on a well-formed input (the imported routines having
  numpy's shapes). With excess returns, the parameter names are the alphas and betas of
  the portfolios followed by the lambdas of the factors and nothing else, the risk-premia
  names are the factor names, there are \<open>K\<close> risk premia, and the reported betas are the
  \<open>N\<close> by \<open>K\<close> betas of the first pass; so no risk-free name appears unless a factor is itself
  labelled \<open>risk_free\<close>. Without excess returns, the name \<open>lambda-risk_free\<close> stands
  before the lambdas of the factors, \<open>risk_free\<close> heads the risk-premia names, there are
  \<open>K + 1\<close> risk premia, the betas used have \<open>K + 1\<close> columns of which the first is all
  ones, and the reported betas are the \<open>N\<close> by \<open>K\<close> remaining columns.
\<close>

theorem two_pass_risk_free:
  assumes "shape_ok np" "wf_model m" "fit_lfm np m er ct cfg = Inr r"
  shows "(er \<longrightarrow>
            param_names r = names_of (cols (portfolios m)) (cols (factors m))
                              @ lambda_names (cols (factors m)) \<and>
            length (param_names r) = nportfolio m * (nfactor m + 1) + nfactor m \<and>
            rp_names r = cols (factors m) \<and>
            nr (rp r) = nfactor m \<and>
            betas r = lfm_betas np m True \<and> nc (betas r) = nfactor m \<and>
            nc (params r) = nfactor m + 1 \<and>
            (''risk_free'' \<notin> set (cols (factors m)) \<longrightarrow>
               ''lambda-risk_free'' \<notin> set (param_names r) \<and>
               ''risk_free'' \<notin> set (rp_names r))) \<and>
         (\<not> er \<longrightarrow>
            param_names r = names_of (cols (portfolios m)) (cols (factors m))
                              @ [''lambda-risk_free''] @ lambda_names (cols (factors m)) \<and>
            length (param_names r) = nportfolio m * (nfactor m + 1) + 1 + nfactor m \<and>
            rp_names r = ''risk_free'' # cols (factors m) \<and>
            nr (rp r) = nfactor m + 1 \<and>
            nc (lfm_betas np m False) = nfactor m + 1 \<and>
            (\<forall>i<nportfolio m. el (lfm_betas np m False) i 0 = 1) \<and>
            nr (betas r) = nportfolio m \<and> nc (betas r) = nfactor m \<and>
            (\<forall>i<nportfolio m. \<forall>j<nfactor m.
               el (betas r) i j = el (lfm_betas np m False) i (j + 1)) \<and>
            nc (params r) = nfactor m + 1)"
proof -
  from assms(3) obtain Ginv avi where r: "r = lfm_results np m er ct Ginv avi"
    by (rule fit_lfm_Inr)
  have lens: "length (cols (portfolios m)) = nportfolio m" "length (cols (factors m)) = nfactor m"
    using assms(2) by (simp_all add: wf_model_def nportfolio_def nfactor_def)
  note sh = lfm_shapes[OF assms(1)]
  show ?thesis
  proof (cases er)
    case True
    then show ?thesis
      using sh lens
      by (simp add: r nrf_of_def risk_free_not_in_names_of risk_free_in_lambda_names)
  next
    case False
    have ones: "\<forall>i<nportfolio m. el (lfm_betas np m False) i 0 = 1"
      using lfm_betas_ones[OF assms(1)] by blast
    show ?thesis
      using False sh lens ones
      by (simp add: r nrf_of_def slice_def)
  qed
qed

theorem two_pass_risk_free_witness:
  "shape_ok np_run \<and> wf_model (LinearFactorModel ex_portfolios ex_factors) \<and>
   (\<exists>r. fit_lfm np_run (LinearFactorModel ex_portfolios ex_factors) True ''robust'' no_config = Inr r \<and>
        param_names r = [''alpha-p1'', ''beta-p1-f1'', ''alpha-p2'', ''beta-p2-f1'', ''lambda-f1''] \<and>
        rp_names r = [''f1''] \<and> nr (rp r) = 1 \<and> nc (betas r) = 1) \<and>
   (\<exists>r. fit_lfm np_run (LinearFactorModel ex_portfolios ex_factors) False ''robust'' no_config = Inr r \<and>
        param_names r = [''alpha-p1'', ''beta-p1-f1'', ''alpha-p2'', ''beta-p2-f1'',
                         ''lambda-risk_free'', ''lambda-f1''] \<and>
        rp_names r = [''risk_free'', ''f1''] \<and> nr (rp r) = 2 \<and> nc (betas r) = 1)"
proof -
  let ?m = "LinearFactorModel ex_portfolios ex_factors"
  have wf: "wf_model ?m"
    by (simp add: wf_model_def)
  have rows: "nr (ndarray (portfolios ?m)) = nobs_f ?m"
    by (simp add: nobs_f_def)
  obtain r1 where r1: "fit_lfm np_run ?m True ''robust'' no_config = Inr r1"
    using fit_lfm_run[OF rows] by blast
  obtain r2 where r2: "fit_lfm np_run ?m False ''robust'' no_config = Inr r2"
    using fit_lfm_run[OF rows] by blast
  have nf: "nfactor ?m = 1" "nportfolio ?m = 2"
    by (simp_all add: nfactor_def nportfolio_def)
  from two_pass_risk_free[OF shape_ok_np_run wf r1] nf have
    "param_names r1 = [''alpha-p1'', ''beta-p1-f1'', ''alpha-p2'', ''beta-p2-f1'', ''lambda-f1'']
     \<and> rp_names r1 = [''f1''] \<and> nr (rp r1) = 1 \<and> nc (betas r1) = 1"
    by (auto simp: names_of_def lambda_names_def)
  moreover from two_pass_risk_free[OF shape_ok_np_run wf r2] nf have
    "param_names r2 = [''alpha-p1'', ''beta-p1-f1'', ''alpha-p2'', ''beta-p2-f1'',
                       ''lambda-risk_free'', ''lambda-f1'']
     \<and> rp_names r2 = [''risk_free'', ''f1''] \<and> nr (rp r2) = 2 \<and> nc (betas r2) = 1"
    by (auto simp: names_of_def lambda_names_def)
  ultimately show ?thesis
    using shape_ok_np_run wf r1 r2 by blast
qed

lemma block_index_less:
  assumes "i < (N::nat)" "j < K"
  shows "i * K + j < K * N"
proof -
  have "i * K + j < Suc i * K"
    using assms by simp
  also have "\<dots> \<le> N * K"
    using assms by (intro mult_le_mono1) simp
  finally show ?thesis
    by (simp add: mult.commute)
qed

lemma nth_arange [simp]: "q < b - a \<Longrightarrow> arange a b ! q = a + q"
  by (simp add: arange_def)

lemma nth_ravel_C: "q < nr A * nc A \<Longrightarrow> ravel_C A ! q = el A (q div nc A) (q mod nc A)"
  by (simp add: ravel_C_def)

lemma nth_ravel_C_block:
  assumes "nc A = K" "i < nr A" "j < K"
  shows "ravel_C A ! (i * K + j) = el A i j"
proof -
  have "i * K + j < nr A * nc A"
    using block_index_less[OF assms(2,3)] assms(1) by (simp add: mult.commute)
  then have "ravel_C A ! (i * K + j) = el A ((i * K + j) div K) ((i * K + j) mod K)"
    by (simp add: nth_ravel_C assms(1))
  then show ?thesis
    using assms(3) by simp
qed


lemma tfm_order_length [simp]: "length (tfm_order m) = (nfactor m + 1) * nportfolio m"
  by (simp add: tfm_order_def)

lemma tfm_order_nth:
  assumes "i < nportfolio m"
  shows "tfm_order m ! i = i * (nfactor m + 1)"
proof -
  let ?K = "nfactor m + 1" and ?N = "nportfolio m"
  let ?R = "reshape_C ?N ?K (arange 0 (?K * ?N))"
  have le: "i < ?K * ?N"
    using assms by (simp add: trans_less_add1)
  have ik: "i * ?K < ?K * ?N"
    using block_index_less[OF assms, of 0 ?K] by simp
  have "tfm_order m ! i = el (mT ?R) (i div ?N) (i mod ?N)"
    using le by (simp add: tfm_order_def nth_ravel_C)
  also have "\<dots> = el ?R i 0"
    using assms by (simp add: mT_def)
  also have "\<dots> = i * ?K"
    using assms ik by (simp add: reshape_C_def)
  finally show ?thesis .
qed

lemma tfm_full_vcv_shape [simp]:
  "nr (tfm_full_vcv np m d xeex) = nloading m + nfactor m"
  "nc (tfm_full_vcv np m d xeex) = nloading m + nfactor m"
  by (simp_all add: tfm_full_vcv_def tfm_xpxi_def)

lemma tfm_alpha_vcv_shape [simp]:
  "nr (tfm_alpha_vcv np m d xeex) = nportfolio m"
  "nc (tfm_alpha_vcv np m d xeex) = nportfolio m"
  by (simp_all add: tfm_alpha_vcv_def tfm_vcv_def)

lemma tfm_alpha_vcv_el:
  assumes "i < nportfolio m" "i' < nportfolio m"
  shows "el (tfm_alpha_vcv np m d xeex) i i'
           = el (tfm_full_vcv np m d xeex) (i * (nfactor m + 1)) (i' * (nfactor m + 1))"
proof -
  have lt: "i * (nfactor m + 1) < nloading m" "i' * (nfactor m + 1) < nloading m"
    using block_index_less[OF assms(1), of 0 "nfactor m + 1"]
      block_index_less[OF assms(2), of 0 "nfactor m + 1"]
    by (simp_all add: nloading_def)
  have le: "i < (nfactor m + 1) * nportfolio m" "i' < (nfactor m + 1) * nportfolio m"
    using assms by (simp_all add: trans_less_add1)
  show ?thesis
    using assms lt le
    by (simp add: tfm_alpha_vcv_def tfm_vcv_def slice_def take_idx_def tfm_order_nth)
qed

lemma lfm_moments_shape:
  assumes "shape_ok np"
  shows "nc (lfm_pricing_errors np m er) = nportfolio m"
    and "nc (lfm_moments np m er) = lfm_s3 m er + nportfolio m"
    and "nr (lfm_G np m er) = lfm_s3 m er + nportfolio m"
proof -
  note sh = lfm_shapes[OF assms]
  show pe: "nc (lfm_pricing_errors np m er) = nportfolio m"
    by (simp add: lfm_pricing_errors_def sh) (simp add: nportfolio_def)
  show mo: "nc (lfm_moments np m er) = lfm_s3 m er + nportfolio m"
    by (simp add: lfm_moments_def lfm_eps_rep_def sh pe lfm_s3_def lfm_s2_def mult.commute)
  show "nr (lfm_G np m er) = lfm_s3 m er + nportfolio m"
    by (simp add: lfm_G_def Let_def lfm_S_def mo)
qed

lemma lfm_full_vcv_shape:
  assumes "shape_ok np" "np_inv np (lfm_G np m er) = Some Ginv"
  shows "nr (lfm_full_vcv np m er Ginv) = lfm_s3 m er + nportfolio m"
    and "nc (lfm_full_vcv np m er Ginv) = lfm_s3 m er + nportfolio m"
    and "nr (lfm_alpha_vcv np m er Ginv) = nportfolio m"
    and "nc (lfm_alpha_vcv np m er Ginv) = nportfolio m"
proof -
  from assms have "nr Ginv = nr (lfm_G np m er)"
    by (auto simp: shape_ok_def)
  then have g: "nr Ginv = lfm_s3 m er + nportfolio m"
    by (simp add: lfm_moments_shape(3)[OF assms(1)])
  show a: "nr (lfm_full_vcv np m er Ginv) = lfm_s3 m er + nportfolio m"
    and b: "nc (lfm_full_vcv np m er Ginv) = lfm_s3 m er + nportfolio m"
    by (simp_all add: lfm_full_vcv_def g)
  show "nr (lfm_alpha_vcv np m er Ginv) = nportfolio m"
    and "nc (lfm_alpha_vcv np m er Ginv) = nportfolio m"
    by (simp_all add: lfm_alpha_vcv_def a b)
qed

lemma lfm_order_length [simp]:
  "length (lfm_order m er) = nportfolio m * (nfactor m + 1) + (nfactor m + nrf_of er)"
  by (simp add: lfm_order_def lfm_s3_def)



lemma lfm_order_beta:
  assumes "i < nportfolio m" "1 \<le> j" "j \<le> nfactor m"
  shows "lfm_order m er ! (i * (nfactor m + 1) + j) = i * (nfactor m + 1) + j"
proof -
  let ?K = "nfactor m + 1" and ?N = "nportfolio m"
  let ?B = "set_block (reshape_C ?N ?K (arange 0 (lfm_s2 m))) 0 0
              (col (arange (lfm_s3 m er) (lfm_s3 m er + ?N)))"
  have jk: "j < ?K" using assms by simp
  have lt: "i * ?K + j < ?K * ?N"
    by (rule block_index_less[OF assms(1) jk])
  have rv: "ravel_C ?B ! (i * ?K + j) = el ?B i j"
    by (rule nth_ravel_C_block) (use assms in simp_all)
  from lt have "lfm_order m er ! (i * ?K + j) = ravel_C ?B ! (i * ?K + j)"
    by (simp add: lfm_order_def nth_append mult.commute)
  also have "\<dots> = el ?B i j"
    by (rule rv)
  also have "\<dots> = arange 0 (lfm_s2 m) ! (i * ?K + j)"
    using assms jk by (simp add: set_block_def col_def reshape_C_def)
  also have "\<dots> = i * ?K + j"
    using lt by (simp add: lfm_s2_def)
  finally show ?thesis .
qed

lemma gmm_param_names_length [simp]:
  "length (gmm_param_names m er) =
     length (cols (portfolios m)) * length (cols (factors m))
       + nrf_of er + length (cols (factors m)) + length (cols (factors m))"
proof -
  have "length (concat (map (\<lambda>portfolio. map (\<lambda>factor. ''beta-'' @ portfolio @ ''-'' @ factor) fc) pc))
          = length pc * length fc" for pc fc :: "string list"
    by (induction pc) simp_all
  then show ?thesis
    by (simp add: gmm_param_names_def nrf_of_def)
qed











lemma ex6_shapes [simp]:
  "nr (ndarray ex6_portfolios) = 6" "nc (ndarray ex6_portfolios) = 2"
  "nr (ndarray ex6_factors) = 6" "nc (ndarray ex6_factors) = 1"
  "cols ex6_portfolios = [''p1'', ''p2'']" "cols ex6_factors = [''f1'']"
  by (simp_all add: ex6_portfolios_def ex6_factors_def)

lemma ex6_gmm_wf [simp]:
  "wf_model (LinearFactorModelGMM ex6_portfolios ex6_factors)"
  "nfactor (LinearFactorModelGMM ex6_portfolios ex6_factors) = 1"
  "nportfolio (LinearFactorModelGMM ex6_portfolios ex6_factors) = 2"
  by (simp_all add: wf_model_def nfactor_def nportfolio_def)




section \<open>Reordered rows and columns\<close>

lemma mk_cong:
  assumes "\<And>i j. i < r \<Longrightarrow> j < c \<Longrightarrow> f i j = g i j"
  shows "mk r c f = mk r c g"
  using assms by (auto simp: mk_def intro!: ext)

lemma normal_mk [simp]: "normal (mk r c f)"
  by (auto simp: normal_def mk_def intro!: ext)

lemma normal_ops [simp]:
  "normal (mT A)" "normal (matmul X Y)" "normal (cbind A B)" "normal (rbind A B)"
  "normal (bop f X Y)" "normal (badd X Y)" "normal (bsub X Y)" "normal (bmul X Y)"
  "normal (smul t X)" "normal (sdiv X t)" "normal (kron X Y)" "normal (tile A a b)"
  "normal (slice A r0 r1 c0 c1)" "normal (take_idx order A)" "normal (set_block A r0 c0 B)"
  "normal (permc \<pi> A)" "normal (permr \<pi> A)" "normal (perm2 \<pi> A)"
  "normal (zeros r c)" "normal (ones r c)" "normal (eye n)"
  by (simp_all add: mT_def matmul_def cbind_def rbind_def bop_def badd_def bsub_def bmul_def
      smul_def sdiv_def kron_def tile_def slice_def take_idx_def set_block_def permc_def
      permr_def perm2_def zeros_def ones_def eye_def)

lemma mat_eqI:
  assumes "normal A" "normal B" "nr A = nr B" "nc A = nc B"
    and "\<And>i j. i < nr A \<Longrightarrow> j < nc A \<Longrightarrow> el A i j = el B i j"
  shows "A = B"
proof -
  have "A = mk (nr A) (nc A) (el A)" using assms(1) by (simp add: normal_def)
  also have "\<dots> = mk (nr A) (nc A) (el B)"
    by (rule mk_cong) (rule assms(5))
  also have "\<dots> = B" using assms(2,3,4) by (simp add: normal_def)
  finally show ?thesis .
qed

lemma perm_shapes [simp]:
  "nr (permc \<pi> A) = nr A" "nc (permc \<pi> A) = nc A"
  "nr (permr \<pi> A) = nr A" "nc (permr \<pi> A) = nc A"
  "nr (perm2 \<pi> A) = nr A" "nc (perm2 \<pi> A) = nc A"
  by (simp_all add: permc_def permr_def perm2_def)

lemma perm_lt:
  assumes "bij_betw \<pi> {..<n} {..<n}" "i < n"
  shows "\<pi> i < n"
  using assms by (auto simp: bij_betw_def)

lemma sum_perm:
  fixes f :: "nat \<Rightarrow> real"
  assumes "bij_betw \<pi> {..<n} {..<n}"
  shows "(\<Sum>k<n. f (\<pi> k)) = (\<Sum>k<n. f k)"
  using sum.reindex_bij_betw[OF assms, of f] .

lemma matmul_permc:
  assumes "bij_betw \<pi> {..<nc B} {..<nc B}" "nc A = nr B"
  shows "matmul A (permc \<pi> B) = permc \<pi> (matmul A B)"
  unfolding matmul_def permc_def
  using assms by (auto intro!: mk_cong sum.cong simp: perm_lt)

lemma matmul_permr:
  assumes "bij_betw \<pi> {..<nr A} {..<nr A}"
  shows "matmul (permr \<pi> A) B = permr \<pi> (matmul A B)"
  unfolding matmul_def permr_def
  using assms by (auto intro!: mk_cong sum.cong simp: perm_lt)

lemma matmul_perm_inner:
  assumes "bij_betw \<pi> {..<nc A} {..<nc A}" "nc A = nr B"
  shows "matmul (permc \<pi> A) (permr \<pi> B) = matmul A B"
proof -
  have "(\<Sum>k<nc A. el A i (\<pi> k) * el B (\<pi> k) j) = (\<Sum>k<nc A. el A i k * el B k j)" for i j
    using sum_perm[OF assms(1), of "\<lambda>k. el A i k * el B k j"] .
  then show ?thesis
    unfolding matmul_def permc_def permr_def
    using assms by (auto intro!: mk_cong simp: perm_lt)
qed

lemma perm2_rc: "perm2 \<pi> A = permr \<pi> (permc \<pi> A)"
  if "bij_betw \<pi> {..<nr A} {..<nr A}" "nr A = nc A"
  unfolding perm2_def permr_def permc_def
  using that by (auto intro!: mk_cong simp: perm_lt)

lemma perm2_cr: "perm2 \<pi> A = permc \<pi> (permr \<pi> A)"
  if "bij_betw \<pi> {..<nr A} {..<nr A}" "nr A = nc A"
  unfolding perm2_def permr_def permc_def
  using that by (auto intro!: mk_cong simp: perm_lt)

lemma matmul_perm2:
  assumes "bij_betw \<pi> {..<n} {..<n}" "nr A = n" "nc A = n" "nr B = n" "nc B = n"
  shows "matmul (perm2 \<pi> A) (perm2 \<pi> B) = perm2 \<pi> (matmul A B)"
proof -
  have a: "perm2 \<pi> A = permr \<pi> (permc \<pi> A)"
    using assms by (simp add: perm2_rc)
  have b: "perm2 \<pi> B = permc \<pi> (permr \<pi> B)"
    using assms by (simp add: perm2_cr)
  have "matmul (perm2 \<pi> A) (perm2 \<pi> B)
          = matmul (permr \<pi> (permc \<pi> A)) (permc \<pi> (permr \<pi> B))"
    by (simp only: a b)
  also have "\<dots> = permr \<pi> (matmul (permc \<pi> A) (permc \<pi> (permr \<pi> B)))"
    using assms by (simp add: matmul_permr)
  also have "\<dots> = permr \<pi> (permc \<pi> (matmul (permc \<pi> A) (permr \<pi> B)))"
    using assms by (simp add: matmul_permc)
  also have "\<dots> = permr \<pi> (permc \<pi> (matmul A B))"
    using assms by (simp add: matmul_perm_inner)
  also have "\<dots> = perm2 \<pi> (matmul A B)"
    using assms by (simp add: perm2_rc)
  finally show ?thesis .
qed

lemma block_perm_lt:
  assumes "bij_betw \<pi> {..<n} {..<n}" "c < n * w"
  shows "block_perm \<pi> w n c < n * w"
    and "block_perm \<pi> w n c div w = \<pi> (c div w)"
    and "block_perm \<pi> w n c mod w = c mod w"
proof -
  have w: "0 < w" using assms(2) by (cases w) auto
  have d: "c div w < n"
    using assms(2) w by (simp add: less_mult_imp_div_less)
  then have p: "\<pi> (c div w) < n"
    using assms(1) by (rule perm_lt[rotated])
  have "\<pi> (c div w) * w + c mod w < w * n"
    by (rule block_index_less[OF p]) (simp add: w)
  then show "block_perm \<pi> w n c < n * w"
    using assms(2) by (simp add: block_perm_def mult.commute)
  show "block_perm \<pi> w n c div w = \<pi> (c div w)"
    using assms(2) w by (simp add: block_perm_def)
  show "block_perm \<pi> w n c mod w = c mod w"
    using assms(2) w by (simp add: block_perm_def)
qed

lemma block_perm_bij:
  assumes "bij_betw \<pi> {..<n} {..<n}"
  shows "bij_betw (block_perm \<pi> w n) {..<n * w + e} {..<n * w + e}"
proof -
  define \<rho> where "\<rho> = the_inv_into {..<n} \<pi>"
  have inj: "inj_on \<pi> {..<n}" and img: "\<pi> ` {..<n} = {..<n}"
    using assms by (auto simp: bij_betw_def)
  have r1: "\<rho> (\<pi> i) = i" if "i < n" for i
    using that inj by (simp add: \<rho>_def the_inv_into_f_f)
  have r2: "\<pi> (\<rho> i) = i" if "i < n" for i
    using that inj img by (simp add: \<rho>_def f_the_inv_into_f)
  have rb: "bij_betw \<rho> {..<n} {..<n}"
    unfolding \<rho>_def using assms by (rule bij_betw_the_inv_into)
  show ?thesis
  proof (rule bij_betw_byWitness[where f' = "block_perm \<rho> w n"])
    show "\<forall>a\<in>{..<n * w + e}. block_perm \<rho> w n (block_perm \<pi> w n a) = a"
    proof
      fix a assume "a \<in> {..<n * w + e}"
      show "block_perm \<rho> w n (block_perm \<pi> w n a) = a"
      proof (cases "a < n * w")
        case True
        have w: "0 < w" using True by (cases w) auto
        have d: "a div w < n"
          using True w by (simp add: less_mult_imp_div_less)
        note b = block_perm_lt[OF assms True]
        have "block_perm \<rho> w n (block_perm \<pi> w n a)
                = \<rho> (block_perm \<pi> w n a div w) * w + block_perm \<pi> w n a mod w"
          using b(1) by (simp add: block_perm_def[of \<rho>])
        also have "\<dots> = a div w * w + a mod w"
          by (simp only: b(2,3) r1[OF d])
        finally show ?thesis by simp
      next
        case False
        then show ?thesis by (simp add: block_perm_def)
      qed
    qed
    show "\<forall>a\<in>{..<n * w + e}. block_perm \<pi> w n (block_perm \<rho> w n a) = a"
    proof
      fix a assume "a \<in> {..<n * w + e}"
      show "block_perm \<pi> w n (block_perm \<rho> w n a) = a"
      proof (cases "a < n * w")
        case True
        have w: "0 < w" using True by (cases w) auto
        have d: "a div w < n"
          using True w by (simp add: less_mult_imp_div_less)
        note b = block_perm_lt[OF rb True]
        have "block_perm \<pi> w n (block_perm \<rho> w n a)
                = \<pi> (block_perm \<rho> w n a div w) * w + block_perm \<rho> w n a mod w"
          using b(1) by (simp add: block_perm_def[of \<pi>])
        also have "\<dots> = a div w * w + a mod w"
          by (simp only: b(2,3) r2[OF d])
        finally show ?thesis by simp
      next
        case False
        then show ?thesis by (simp add: block_perm_def)
      qed
    qed
    show "block_perm \<pi> w n ` {..<n * w + e} \<subseteq> {..<n * w + e}"
    proof
      fix y assume "y \<in> block_perm \<pi> w n ` {..<n * w + e}"
      then obtain a where a: "a < n * w + e" and y: "y = block_perm \<pi> w n a" by auto
      show "y \<in> {..<n * w + e}"
      proof (cases "a < n * w")
        case True
        from block_perm_lt(1)[OF assms True] show ?thesis by (simp add: y)
      next
        case False
        then show ?thesis using a by (simp add: y block_perm_def)
      qed
    qed
    show "block_perm \<rho> w n ` {..<n * w + e} \<subseteq> {..<n * w + e}"
    proof
      fix y assume "y \<in> block_perm \<rho> w n ` {..<n * w + e}"
      then obtain a where a: "a < n * w + e" and y: "y = block_perm \<rho> w n a" by auto
      show "y \<in> {..<n * w + e}"
      proof (cases "a < n * w")
        case True
        from block_perm_lt(1)[OF rb True] show ?thesis by (simp add: y)
      next
        case False
        then show ?thesis using a by (simp add: y block_perm_def)
      qed
    qed
  qed
qed

lemma permute_sel [simp]:
  "factors (permute_portfolios \<pi> m) = factors m"
  "ndarray (portfolios (permute_portfolios \<pi> m)) = permc \<pi> (ndarray (portfolios m))"
  "model_name (permute_portfolios \<pi> m) = model_name m"
  "nportfolio (permute_portfolios \<pi> m) = nportfolio m"
  "nfactor (permute_portfolios \<pi> m) = nfactor m"
  "nobs_f (permute_portfolios \<pi> m) = nobs_f m"
  "gmm_nobs (permute_portfolios \<pi> m) = gmm_nobs m"
  "nloading (permute_portfolios \<pi> m) = nloading m"
  "tfm_fc (permute_portfolios \<pi> m) = tfm_fc m"
  "tfm_fe (permute_portfolios \<pi> m) = tfm_fe m"
  "tfm_rp (permute_portfolios \<pi> m) = tfm_rp m"
  by (simp_all add: permute_portfolios_def nportfolio_def nfactor_def nobs_f_def gmm_nobs_def
      nloading_def tfm_fc_def tfm_fe_def tfm_rp_def)

lemma el_bop_same:
  assumes "nr A = nr B" "nc A = nc B" "i < nr A" "j < nc A"
  shows "el (bop f A B) i j = f (el A i j) (el B i j)"
  using assms by (auto simp: bop_def bdim_def)

lemma bop_permc:
  assumes "nr A = nr B" "nc A = nc B" "bij_betw \<pi> {..<nc A} {..<nc A}"
  shows "bop f (permc \<pi> A) (permc \<pi> B) = permc \<pi> (bop f A B)"
proof -
  have p: "\<pi> j < nc B" if "j < nc B" for j
    using assms(2,3) that by (simp add: perm_lt)
  have p0: "\<pi> 0 = 0" if "nc B = Suc 0"
    using p[of 0] that by simp
  show ?thesis
    unfolding bop_def permc_def
    using assms(1,2) by (auto intro!: mk_cong simp: bdim_def p p0)
qed

lemma tfm_b_shape:
  assumes "shape_ok np"
  shows "nr (tfm_b np m) = nfactor m + 1" "nc (tfm_b np m) = nportfolio m"
  using assms by (simp_all add: tfm_b_def shape_ok_def nportfolio_def)

lemma tfm_eps_shape:
  assumes "shape_ok np" "wf_model m"
  shows "nr (tfm_eps np m) = nobs_f m" "nc (tfm_eps np m) = nportfolio m"
  using assms tfm_b_shape[OF assms(1), of m]
  by (simp_all add: tfm_eps_def wf_model_def nobs_f_def nportfolio_def)

lemma tfm_b_perm:
  assumes "shape_ok np" "wf_model m" "bij_betw \<pi> {..<nportfolio m} {..<nportfolio m}"
  shows "tfm_b np (permute_portfolios \<pi> m) = permc \<pi> (tfm_b np m)"
proof -
  have "nc (np_pinv np (tfm_fc m)) = nr (ndarray (portfolios m))"
    using assms(1,2) by (simp add: shape_ok_def wf_model_def nobs_f_def)
  then show ?thesis
    using assms(3) by (simp add: tfm_b_def matmul_permc nportfolio_def)
qed

lemma tfm_eps_perm:
  assumes "shape_ok np" "wf_model m" "bij_betw \<pi> {..<nportfolio m} {..<nportfolio m}"
  shows "tfm_eps np (permute_portfolios \<pi> m) = permc \<pi> (tfm_eps np m)"
proof -
  note bs = tfm_b_shape[OF assms(1), of m]
  have "tfm_eps np (permute_portfolios \<pi> m)
          = bsub (permc \<pi> (ndarray (portfolios m))) (matmul (tfm_fc m) (permc \<pi> (tfm_b np m)))"
    by (simp add: tfm_eps_def tfm_b_perm[OF assms])
  also have "matmul (tfm_fc m) (permc \<pi> (tfm_b np m)) = permc \<pi> (matmul (tfm_fc m) (tfm_b np m))"
    by (rule matmul_permc) (use assms(3) bs in simp_all)
  also have "bsub (permc \<pi> (ndarray (portfolios m))) (permc \<pi> (matmul (tfm_fc m) (tfm_b np m)))
          = permc \<pi> (bsub (ndarray (portfolios m)) (matmul (tfm_fc m) (tfm_b np m)))"
    unfolding bsub_def
    by (rule bop_permc) (use assms bs in \<open>simp_all add: wf_model_def nobs_f_def nportfolio_def\<close>)
  finally show ?thesis
    by (simp add: tfm_eps_def)
qed

lemma tfm_alphas_perm:
  assumes "shape_ok np" "wf_model m" "bij_betw \<pi> {..<nportfolio m} {..<nportfolio m}"
  shows "tfm_alphas np (permute_portfolios \<pi> m) = permr \<pi> (tfm_alphas np m)"
  unfolding tfm_alphas_def tfm_b_perm[OF assms] mT_def slice_def permr_def
  using tfm_b_shape[OF assms(1), of m] assms(3)
  by (auto intro!: mk_cong simp: permc_def perm_lt)

lemma rep_index:
  assumes "t < T" "c < w * (n::nat)"
  shows "c * T + t < (w * T) * n"
    and "(c * T + t) div (w * T) = c div w"
    and "(c * T + t) mod (w * T) mod T = t"
    and "(c * T + t) mod (w * T) < w * T"
    and "c div w < n"
proof -
  have w: "0 < w" using assms(2) by (cases w) auto
  have T: "0 < T" using assms(1) by auto
  have "c * T + t < T * (w * n)"
    by (rule block_index_less[OF assms(2,1)])
  then show "c * T + t < (w * T) * n"
    by (simp add: mult.assoc mult.left_commute mult.commute)
  have "(c * T + t) div (T * w) = (c * T + t) div T div w"
    by (rule div_mult2_eq)
  also have "(c * T + t) div T = c"
    using assms(1) by simp
  finally show "(c * T + t) div (w * T) = c div w"
    by (simp add: mult.commute)
  have "(c * T + t) mod (w * T) mod T = (c * T + t) mod T"
    by (rule mod_mod_cancel) simp
  then show "(c * T + t) mod (w * T) mod T = t"
    using assms(1) by simp
  show "(c * T + t) mod (w * T) < w * T"
    using w T by simp
  show "c div w < n"
    using assms(2) w by (simp add: less_mult_imp_div_less mult.commute)
qed

lemma rep_F_el:
  assumes "nr E = T" "nc E = n" "t < T" "c < w * n"
  shows "el (reshape_F T (w * n) (ravel_F (tile E w 1))) t c = el E t (c div w)"
proof -
  note ri = rep_index[OF assms(3,4)]
  have "el (reshape_F T (w * n) (ravel_F (tile E w 1))) t c = ravel_F (tile E w 1) ! (c * T + t)"
    using assms(3,4) by (simp add: reshape_F_def)
  also have "\<dots> = el (tile E w 1) ((c * T + t) mod (w * T)) ((c * T + t) div (w * T))"
    using ri(1) assms(1,2) by (simp add: ravel_F_def)
  also have "\<dots> = el E ((c * T + t) mod (w * T) mod T) ((c * T + t) div (w * T) mod n)"
    using ri(4,5) ri(2) assms(1,2) by (simp add: tile_def)
  also have "\<dots> = el E t (c div w)"
    using ri(5) by (simp only: ri(2,3) mod_less)
  finally show ?thesis .
qed

lemma rep_C_el:
  assumes "nr E = T" "nc E = n" "t < T" "c < n * w"
  shows "el (mT (reshape_C (n * w) T (ravel_C (mT (tile E w 1))))) t c = el E t (c div w)"
proof -
  have cw: "c < w * n" using assms(4) by (simp add: mult.commute)
  note ri = rep_index[OF assms(3) cw]
  have "el (mT (reshape_C (n * w) T (ravel_C (mT (tile E w 1))))) t c
          = ravel_C (mT (tile E w 1)) ! (c * T + t)"
    using assms(3,4) by (simp add: mT_def reshape_C_def)
  also have "\<dots> = el (mT (tile E w 1)) ((c * T + t) div (w * T)) ((c * T + t) mod (w * T))"
    using ri(1) assms(1,2) by (simp add: ravel_C_def mult.commute)
  also have "\<dots> = el (tile E w 1) ((c * T + t) mod (w * T)) ((c * T + t) div (w * T))"
    using ri(4,5) ri(2) assms(1,2) by (simp add: mT_def)
  also have "\<dots> = el E ((c * T + t) mod (w * T) mod T) ((c * T + t) div (w * T) mod n)"
    using ri(4,5) ri(2) assms(1,2) by (simp add: tile_def)
  also have "\<dots> = el E t (c div w)"
    using ri(5) by (simp only: ri(2,3) mod_less)
  finally show ?thesis .
qed

lemma xe_block_el:
  assumes "nr F = T" "nc F = w" "nr R = T" "nc R = n * w" "t < T" "c < n * w"
  shows "el (bmul (tile F 1 n) R) t c = el F t (c mod w) * el R t c"
proof -
  have "el (bmul (tile F 1 n) R) t c = el (tile F 1 n) t c * el R t c"
    unfolding bmul_def by (rule el_bop_same) (use assms in simp_all)
  also have "el (tile F 1 n) t c = el F t (c mod w)"
    using assms by (simp add: tile_def)
  finally show ?thesis .
qed

lemma tfm_eps_rep_shape [simp]:
  "nr (tfm_eps_rep np m) = nobs_f m" "nc (tfm_eps_rep np m) = (nfactor m + 1) * nportfolio m"
  by (simp_all add: tfm_eps_rep_def)

lemma tfm_fe_shape [simp]: "nr (tfm_fe m) = nobs_f m" "nc (tfm_fe m) = nfactor m"
  by (simp_all add: tfm_fe_def nobs_f_def nfactor_def)

lemma tfm_xe_shape:
  "nr (tfm_xe np m) = nobs_f m" "nc (tfm_xe np m) = nportfolio m * (nfactor m + 1) + nfactor m"
  by (simp_all add: tfm_xe_def mult.commute)

lemma tfm_xe_el:
  assumes "shape_ok np" "wf_model m" "t < nobs_f m"
  shows "c < nportfolio m * (nfactor m + 1) \<Longrightarrow>
           el (tfm_xe np m) t c
             = el (tfm_fc m) t (c mod (nfactor m + 1)) * el (tfm_eps np m) t (c div (nfactor m + 1))"
    and "nportfolio m * (nfactor m + 1) \<le> c \<Longrightarrow> c < nportfolio m * (nfactor m + 1) + nfactor m \<Longrightarrow>
           el (tfm_xe np m) t c = el (tfm_fe m) t (c - nportfolio m * (nfactor m + 1))"
proof -
  let ?w = "nfactor m + 1" and ?n = "nportfolio m"
  let ?B = "bmul (tile (tfm_fc m) 1 ?n) (tfm_eps_rep np m)"
  note es = tfm_eps_shape[OF assms(1,2)]
  have nB: "nc ?B = ?n * ?w" "nr ?B = nobs_f m"
    by (simp_all add: mult.commute)
  {
    assume c: "c < ?n * ?w"
    then have cw: "c < ?w * ?n" by (simp add: mult.commute)
    have "el (tfm_xe np m) t c = el ?B t c"
      using c assms(3) nB by (simp add: tfm_xe_def cbind_def del: shapes_b)
    also have "\<dots> = el (tfm_fc m) t (c mod ?w) * el (tfm_eps_rep np m) t c"
      by (rule xe_block_el[where T = "nobs_f m" and n = ?n])
        (use assms(3) c in \<open>simp_all add: mult.commute\<close>)
    also have "el (tfm_eps_rep np m) t c = el (tfm_eps np m) t (c div ?w)"
      unfolding tfm_eps_rep_def by (rule rep_F_el[OF es assms(3) cw])
    finally show "el (tfm_xe np m) t c
        = el (tfm_fc m) t (c mod ?w) * el (tfm_eps np m) t (c div ?w)" .
  }
  {
    assume c: "?n * ?w \<le> c" "c < ?n * ?w + nfactor m"
    show "el (tfm_xe np m) t c = el (tfm_fe m) t (c - ?n * ?w)"
      using c assms(3) nB by (simp add: tfm_xe_def cbind_def del: shapes_b)
  }
qed

lemma tfm_xe_perm:
  assumes "shape_ok np" "wf_model m" "bij_betw \<pi> {..<nportfolio m} {..<nportfolio m}"
  shows "tfm_xe np (permute_portfolios \<pi> m)
           = permc (block_perm \<pi> (nfactor m + 1) (nportfolio m)) (tfm_xe np m)"
proof (rule mat_eqI)
  let ?w = "nfactor m + 1" and ?n = "nportfolio m"
  let ?m' = "permute_portfolios \<pi> m"
  let ?s = "block_perm \<pi> ?w ?n"
  have wf': "wf_model ?m'"
    using assms(2) by (simp add: wf_model_def permute_portfolios_def)
  show "normal (tfm_xe np ?m')" "normal (permc ?s (tfm_xe np m))"
    by (simp_all add: tfm_xe_def)
  show "nr (tfm_xe np ?m') = nr (permc ?s (tfm_xe np m))"
    "nc (tfm_xe np ?m') = nc (permc ?s (tfm_xe np m))"
    by (simp_all add: tfm_xe_shape)
  fix t c assume "t < nr (tfm_xe np ?m')" "c < nc (tfm_xe np ?m')"
  then have t: "t < nobs_f m" and c: "c < ?n * ?w + nfactor m"
    by (simp_all add: tfm_xe_shape)
  have t': "t < nobs_f ?m'" using t by simp
  show "el (tfm_xe np ?m') t c = el (permc ?s (tfm_xe np m)) t c"
  proof (cases "c < ?n * ?w")
    case True
    note b = block_perm_lt[OF assms(3) True]
    have d: "c div ?w < ?n"
      using True by (simp add: less_mult_imp_div_less)
    have "el (tfm_xe np ?m') t c
            = el (tfm_fc m) t (c mod ?w) * el (tfm_eps np ?m') t (c div ?w)"
      using tfm_xe_el(1)[OF assms(1) wf' t', of c] True by simp
    also have "el (tfm_eps np ?m') t (c div ?w) = el (tfm_eps np m) t (\<pi> (c div ?w))"
      using t d tfm_eps_shape[OF assms(1,2)] by (simp add: tfm_eps_perm[OF assms] permc_def)
    also have "el (tfm_fc m) t (c mod ?w) * el (tfm_eps np m) t (\<pi> (c div ?w))
                 = el (tfm_xe np m) t (?s c)"
      using tfm_xe_el(1)[OF assms(1,2) t b(1)] by (simp only: b(2,3))
    finally show ?thesis
      using t c by (simp add: permc_def tfm_xe_shape)
  next
    case False
    then have s: "?s c = c" by (simp add: block_perm_def)
    have "el (tfm_xe np ?m') t c = el (tfm_fe m) t (c - ?n * ?w)"
      using tfm_xe_el(2)[OF assms(1) wf' t', of c] False c by simp
    also have "\<dots> = el (tfm_xe np m) t c"
      using tfm_xe_el(2)[OF assms(1,2) t, of c] False c by simp
    finally show ?thesis
      using t c s by (simp add: permc_def tfm_xe_shape)
  qed
qed

lemma perm_inj:
  assumes "bij_betw \<pi> {..<n} {..<n}" "i < n" "j < n"
  shows "\<pi> i = \<pi> j \<longleftrightarrow> i = j"
  using assms by (auto simp: bij_betw_def inj_on_def)

lemma tfm_xpxi_shape [simp]:
  "nr (tfm_xpxi np m) = nloading m + nfactor m" "nc (tfm_xpxi np m) = nloading m + nfactor m"
  by (simp_all add: tfm_xpxi_def)

lemma tfm_xpxi_perm:
  assumes "shape_ok np" "bij_betw \<pi> {..<nportfolio m} {..<nportfolio m}"
  shows "perm2 (block_perm \<pi> (nfactor m + 1) (nportfolio m)) (tfm_xpxi np m) = tfm_xpxi np m"
proof (rule mat_eqI)
  let ?w = "nfactor m + 1" and ?n = "nportfolio m"
  let ?s = "block_perm \<pi> ?w ?n"
  let ?Q = "np_pinv np (sdiv (matmul (mT (tfm_fc m)) (tfm_fc m)) (real (nobs_f m)))"
  have Q: "nr ?Q = ?w" "nc ?Q = ?w"
    using assms(1) by (simp_all add: shape_ok_def)
  have nl: "nloading m = ?n * ?w" by (simp add: nloading_def)
  have sb: "bij_betw ?s {..<?n * ?w + nfactor m} {..<?n * ?w + nfactor m}"
    by (rule block_perm_bij[OF assms(2)])
  have entry: "el (tfm_xpxi np m) a b =
      (if a < ?n * ?w \<and> b < ?n * ?w
       then (if a div ?w = b div ?w then 1 else 0) * el ?Q (a mod ?w) (b mod ?w)
       else if a = b then 1 else 0)"
    if "a < ?n * ?w + nfactor m" "b < ?n * ?w + nfactor m" for a b
  proof (cases "a < ?n * ?w \<and> b < ?n * ?w")
    case True
    then have "a div ?w < ?n" "b div ?w < ?n"
      by (simp_all add: less_mult_imp_div_less)
    then show ?thesis
      using True that Q by (simp add: tfm_xpxi_def set_block_def kron_def eye_def nl)
  next
    case False
    then show ?thesis
      using that Q by (auto simp: tfm_xpxi_def set_block_def kron_def eye_def nl)
  qed
  show "normal (perm2 ?s (tfm_xpxi np m))" "normal (tfm_xpxi np m)"
    by (simp_all add: tfm_xpxi_def)
  show "nr (perm2 ?s (tfm_xpxi np m)) = nr (tfm_xpxi np m)"
    "nc (perm2 ?s (tfm_xpxi np m)) = nc (tfm_xpxi np m)"
    by simp_all
  fix a b assume "a < nr (perm2 ?s (tfm_xpxi np m))" "b < nc (perm2 ?s (tfm_xpxi np m))"
  then have a: "a < ?n * ?w + nfactor m" and b: "b < ?n * ?w + nfactor m"
    by (simp_all add: nl)
  have sa: "?s a < ?n * ?w + nfactor m" and sb': "?s b < ?n * ?w + nfactor m"
    using perm_lt[OF sb a] perm_lt[OF sb b] by simp_all
  have "el (perm2 ?s (tfm_xpxi np m)) a b = el (tfm_xpxi np m) (?s a) (?s b)"
    using a b by (simp add: perm2_def nl)
  also have "\<dots> = el (tfm_xpxi np m) a b"
  proof (cases "a < ?n * ?w")
    case at: True
    note ba = block_perm_lt[OF assms(2) at]
    have da: "a div ?w < ?n" using at by (simp add: less_mult_imp_div_less)
    show ?thesis
    proof (cases "b < ?n * ?w")
      case bt: True
      note bb = block_perm_lt[OF assms(2) bt]
      have db: "b div ?w < ?n" using bt by (simp add: less_mult_imp_div_less)
      show ?thesis
        unfolding entry[OF sa sb'] entry[OF a b]
        using at bt ba(1) bb(1) perm_inj[OF assms(2) da db]
        by (simp only: ba(2,3) bb(2,3) if_True simp_thms)
    next
      case bf: False
      then have "?s b = b" by (simp add: block_perm_def)
      then show ?thesis
        unfolding entry[OF sa sb'] entry[OF a b]
        using at bf ba(1) by auto
    qed
  next
    case af: False
    then have sa': "?s a = a" by (simp add: block_perm_def)
    show ?thesis
    proof (cases "b < ?n * ?w")
      case bt: True
      note bb = block_perm_lt[OF assms(2) bt]
      show ?thesis
        unfolding entry[OF sa sb'] entry[OF a b]
        using af bt bb(1) sa' by auto
    next
      case bf: False
      then have "?s b = b" by (simp add: block_perm_def)
      then show ?thesis
        using sa' by simp
    qed
  qed
  finally show "el (perm2 ?s (tfm_xpxi np m)) a b = el (tfm_xpxi np m) a b" .
qed

lemma gram_perm:
  assumes "bij_betw \<sigma> {..<nc A} {..<nc A}"
  shows "sdiv (matmul (mT (permc \<sigma> A)) (permc \<sigma> A)) t = perm2 \<sigma> (sdiv (matmul (mT A) A) t)"
  unfolding sdiv_def matmul_def mT_def permc_def perm2_def
  using assms by (auto intro!: mk_cong sum.cong simp: perm_lt)

lemma sdiv_perm2: "sdiv (perm2 \<sigma> A) t = perm2 \<sigma> (sdiv A t)"
  if "bij_betw \<sigma> {..<nr A} {..<nr A}" "nr A = nc A"
  unfolding sdiv_def perm2_def
  using that by (auto intro!: mk_cong simp: perm_lt)

lemma mT_permr: "mT (permr \<pi> A) = permc \<pi> (mT A)"
  if "bij_betw \<pi> {..<nr A} {..<nr A}"
  unfolding mT_def permr_def permc_def
  using that by (auto intro!: mk_cong simp: perm_lt)

lemma tfm_cov_perm:
  assumes "shape_ok np" "equivariant np" "wf_model m"
    "bij_betw \<pi> {..<nportfolio m} {..<nportfolio m}"
  shows "tfm_cov np (permute_portfolios \<pi> m) ct cfg =
           (case tfm_cov np m ct cfg of
              Inl e \<Rightarrow> Inl e
            | Inr (xeex, rc) \<Rightarrow>
                Inr (perm2 (block_perm \<pi> (nfactor m + 1) (nportfolio m)) xeex, rc))"
proof -
  let ?s = "block_perm \<pi> (nfactor m + 1) (nportfolio m)"
  have sb: "bij_betw ?s {..<nc (tfm_xe np m)} {..<nc (tfm_xe np m)}"
    unfolding tfm_xe_shape by (rule block_perm_bij[OF assms(4)])
  have xe: "tfm_xe np (permute_portfolios \<pi> m) = permc ?s (tfm_xe np m)"
    by (rule tfm_xe_perm[OF assms(1,3,4)])
  have ck: "cov_kernel np (permc ?s (tfm_xe np m)) w = map_option (perm2 ?s) (cov_kernel np (tfm_xe np m) w)"
    for w
    using assms(2) sb by (simp add: equivariant_def)
  have fe: "tfm_fe (permute_portfolios \<pi> m) = tfm_fe m"
    and nb: "nobs_f (permute_portfolios \<pi> m) = nobs_f m"
    by simp_all
  consider "ct \<in> {''robust'', ''heteroskedastic''}" | "ct \<notin> {''robust'', ''heteroskedastic''}" "ct = ''kernel''"
    | "ct \<notin> {''robust'', ''heteroskedastic''}" "ct \<noteq> ''kernel''"
    by blast
  then show ?thesis
  proof cases
    case 1
    then show ?thesis
      unfolding tfm_cov_def xe fe nb using gram_perm[OF sb] by simp
  next
    case 2
    show ?thesis
      unfolding tfm_cov_def xe fe nb ck using 2
      by (simp add: Let_def split: option.splits)
  next
    case 3
    then show ?thesis
      unfolding tfm_cov_def by simp
  qed
qed

lemma tfm_cov_shape:
  assumes "equivariant np" "tfm_cov np m ct cfg = Inr (xeex, rc)"
  shows "nr xeex = nloading m + nfactor m" "nc xeex = nloading m + nfactor m"
proof -
  have ck: "nr C = nc (tfm_xe np m) \<and> nc C = nc (tfm_xe np m)"
    if "cov_kernel np (tfm_xe np m) w = Some C" for w C
    using assms(1) that by (simp add: equivariant_def)
  have "nr xeex = nc (tfm_xe np m) \<and> nc xeex = nc (tfm_xe np m)"
    using assms(2) ck
    by (auto simp: tfm_cov_def Let_def split: if_splits option.splits)
  then show "nr xeex = nloading m + nfactor m" "nc xeex = nloading m + nfactor m"
    by (simp_all add: tfm_xe_shape nloading_def mult.commute)
qed

lemma tfm_full_vcv_perm:
  assumes "shape_ok np" "bij_betw \<pi> {..<nportfolio m} {..<nportfolio m}"
    "nr xeex = nloading m + nfactor m" "nc xeex = nloading m + nfactor m"
  shows "tfm_full_vcv np (permute_portfolios \<pi> m) d
             (perm2 (block_perm \<pi> (nfactor m + 1) (nportfolio m)) xeex)
           = perm2 (block_perm \<pi> (nfactor m + 1) (nportfolio m)) (tfm_full_vcv np m d xeex)"
proof -
  let ?s = "block_perm \<pi> (nfactor m + 1) (nportfolio m)"
  let ?X = "tfm_xpxi np m"
  let ?n = "nloading m + nfactor m"
  have sb: "bij_betw ?s {..<?n} {..<?n}"
    using block_perm_bij[OF assms(2), of "nfactor m + 1" "nfactor m"]
    by (simp add: nloading_def mult.commute)
  have X': "tfm_xpxi np (permute_portfolios \<pi> m) = ?X"
    by (simp add: tfm_xpxi_def)
  have X: "perm2 ?s ?X = ?X"
    by (rule tfm_xpxi_perm[OF assms(1,2)])
  have "matmul (matmul ?X (perm2 ?s xeex)) ?X
          = matmul (matmul (perm2 ?s ?X) (perm2 ?s xeex)) (perm2 ?s ?X)"
    by (simp only: X)
  also have "\<dots> = matmul (perm2 ?s (matmul ?X xeex)) (perm2 ?s ?X)"
    using matmul_perm2[OF sb, of ?X xeex] assms(3,4) by simp
  also have "\<dots> = perm2 ?s (matmul (matmul ?X xeex) ?X)"
    using matmul_perm2[OF sb, of "matmul ?X xeex" ?X] assms(3,4) by simp
  finally have mm: "matmul (matmul ?X (perm2 ?s xeex)) ?X = perm2 ?s (matmul (matmul ?X xeex) ?X)" .
  have sb2: "bij_betw ?s {..<nr (matmul (matmul ?X xeex) ?X)} {..<nr (matmul (matmul ?X xeex) ?X)}"
    using sb by simp
  have sq: "nr (matmul (matmul ?X xeex) ?X) = nc (matmul (matmul ?X xeex) ?X)"
    by simp
  have "tfm_full_vcv np (permute_portfolios \<pi> m) d (perm2 ?s xeex)
          = sdiv (perm2 ?s (matmul (matmul ?X xeex) ?X))
              (real_of_int (int (nobs_f m) - (if d then 1 else 0) * int (nc (tfm_fc m))))"
    unfolding tfm_full_vcv_def X' mm by (simp only: permute_sel)
  also have "\<dots> = perm2 ?s (tfm_full_vcv np m d xeex)"
    unfolding tfm_full_vcv_def by (rule sdiv_perm2[OF sb2 sq])
  finally show ?thesis .
qed

lemma block_perm_alpha:
  assumes "i < n"
  shows "block_perm \<pi> w n (i * w) = \<pi> i * w"
proof (cases "w = 0")
  case True
  then show ?thesis by (simp add: block_perm_def)
next
  case False
  then have "i * w < n * w" using assms by simp
  then show ?thesis using False by (simp add: block_perm_def)
qed

lemma tfm_alpha_vcv_perm:
  assumes "shape_ok np" "bij_betw \<pi> {..<nportfolio m} {..<nportfolio m}"
    "nr xeex = nloading m + nfactor m" "nc xeex = nloading m + nfactor m"
  shows "tfm_alpha_vcv np (permute_portfolios \<pi> m) d
             (perm2 (block_perm \<pi> (nfactor m + 1) (nportfolio m)) xeex)
           = perm2 \<pi> (tfm_alpha_vcv np m d xeex)"
proof (rule mat_eqI)
  let ?s = "block_perm \<pi> (nfactor m + 1) (nportfolio m)"
  let ?m' = "permute_portfolios \<pi> m"
  show "normal (tfm_alpha_vcv np ?m' d (perm2 ?s xeex))" "normal (perm2 \<pi> (tfm_alpha_vcv np m d xeex))"
    by (simp_all add: tfm_alpha_vcv_def)
  show "nr (tfm_alpha_vcv np ?m' d (perm2 ?s xeex)) = nr (perm2 \<pi> (tfm_alpha_vcv np m d xeex))"
    "nc (tfm_alpha_vcv np ?m' d (perm2 ?s xeex)) = nc (perm2 \<pi> (tfm_alpha_vcv np m d xeex))"
    by simp_all
  fix i j assume "i < nr (tfm_alpha_vcv np ?m' d (perm2 ?s xeex))"
    "j < nc (tfm_alpha_vcv np ?m' d (perm2 ?s xeex))"
  then have i: "i < nportfolio m" and j: "j < nportfolio m" by simp_all
  have pi: "\<pi> i < nportfolio m" and pj: "\<pi> j < nportfolio m"
    using perm_lt[OF assms(2)] i j by simp_all
  have lt: "i * (nfactor m + 1) < nloading m + nfactor m" "j * (nfactor m + 1) < nloading m + nfactor m"
    using block_index_less[OF i, of 0 "nfactor m + 1"] block_index_less[OF j, of 0 "nfactor m + 1"]
    by (simp_all add: nloading_def)
  have "el (tfm_alpha_vcv np ?m' d (perm2 ?s xeex)) i j
          = el (tfm_full_vcv np ?m' d (perm2 ?s xeex)) (i * (nfactor m + 1)) (j * (nfactor m + 1))"
    using tfm_alpha_vcv_el[of i ?m' j np d "perm2 ?s xeex"] i j by simp
  also have "\<dots> = el (perm2 ?s (tfm_full_vcv np m d xeex)) (i * (nfactor m + 1)) (j * (nfactor m + 1))"
    by (simp only: tfm_full_vcv_perm[OF assms])
  also have "\<dots> = el (tfm_full_vcv np m d xeex) (?s (i * (nfactor m + 1))) (?s (j * (nfactor m + 1)))"
    using lt by (simp add: perm2_def)
  also have "\<dots> = el (tfm_full_vcv np m d xeex) (\<pi> i * (nfactor m + 1)) (\<pi> j * (nfactor m + 1))"
    by (simp only: block_perm_alpha[OF i] block_perm_alpha[OF j])
  also have "\<dots> = el (tfm_alpha_vcv np m d xeex) (\<pi> i) (\<pi> j)"
    by (rule tfm_alpha_vcv_el[OF pi pj, symmetric])
  also have "\<dots> = el (perm2 \<pi> (tfm_alpha_vcv np m d xeex)) i j"
    using i j by (simp add: perm2_def)
  finally show "el (tfm_alpha_vcv np ?m' d (perm2 ?s xeex)) i j
      = el (perm2 \<pi> (tfm_alpha_vcv np m d xeex)) i j" .
qed

lemma quad_form_perm:
  assumes "bij_betw \<pi> {..<n} {..<n}" "nr a = n" "nr P = n" "nc P = n"
  shows "matmul (matmul (mT (permr \<pi> a)) (perm2 \<pi> P)) (permr \<pi> a)
           = matmul (matmul (mT a) P) a"
proof -
  have b1: "bij_betw \<pi> {..<nr a} {..<nr a}" "bij_betw \<pi> {..<nr P} {..<nr P}"
    "bij_betw \<pi> {..<nc P} {..<nc P}" "bij_betw \<pi> {..<nc (mT a)} {..<nc (mT a)}"
    using assms by simp_all
  have "matmul (mT (permr \<pi> a)) (perm2 \<pi> P)
          = matmul (permc \<pi> (mT a)) (permr \<pi> (permc \<pi> P))"
    using assms b1 by (simp add: mT_permr perm2_rc)
  also have "\<dots> = matmul (mT a) (permc \<pi> P)"
    by (rule matmul_perm_inner) (use assms in simp_all)
  also have "\<dots> = permc \<pi> (matmul (mT a) P)"
    by (rule matmul_permc) (use assms in simp_all)
  finally have "matmul (matmul (mT (permr \<pi> a)) (perm2 \<pi> P)) (permr \<pi> a)
      = matmul (permc \<pi> (matmul (mT a) P)) (permr \<pi> a)"
    by simp
  also have "\<dots> = matmul (matmul (mT a) P) a"
    by (rule matmul_perm_inner) (use assms in simp_all)
  finally show ?thesis .
qed

lemma tfm_alphas_shape:
  assumes "shape_ok np"
  shows "nr (tfm_alphas np m) = nportfolio m" "nc (tfm_alphas np m) = 1"
  using tfm_b_shape[OF assms, of m] by (simp_all add: tfm_alphas_def)

lemma tfm_stat_perm:
  assumes "shape_ok np" "equivariant np" "wf_model m"
    "bij_betw \<pi> {..<nportfolio m} {..<nportfolio m}"
    "nr xeex = nloading m + nfactor m" "nc xeex = nloading m + nfactor m"
  shows "tfm_stat np (permute_portfolios \<pi> m) d
             (perm2 (block_perm \<pi> (nfactor m + 1) (nportfolio m)) xeex)
           = tfm_stat np m d xeex"
proof -
  let ?av = "tfm_alpha_vcv np m d xeex"
  let ?a = "tfm_alphas np m"
  have bav: "bij_betw \<pi> {..<nr ?av} {..<nr ?av}"
    using assms(4) by simp
  have pv: "np_pinv np (perm2 \<pi> ?av) = perm2 \<pi> (np_pinv np ?av)"
    using assms(2) bav by (simp add: equivariant_def)
  have P: "nr (np_pinv np ?av) = nportfolio m" "nc (np_pinv np ?av) = nportfolio m"
    using assms(1) by (simp_all add: shape_ok_def)
  have "matmul (matmul (mT (permr \<pi> ?a)) (perm2 \<pi> (np_pinv np ?av))) (permr \<pi> ?a)
          = matmul (matmul (mT ?a) (np_pinv np ?av)) ?a"
    by (rule quad_form_perm[OF assms(4) tfm_alphas_shape(1)[OF assms(1)] P])
  then show ?thesis
    unfolding tfm_stat_def tfm_alphas_perm[OF assms(1,3,4)]
      tfm_alpha_vcv_perm[OF assms(1,4,5,6)] pv
    by simp
qed

lemma fit_traded_perm:
  assumes "shape_ok np" "equivariant np" "wf_model m"
    "bij_betw \<pi> {..<nportfolio m} {..<nportfolio m}"
    "fit_traded np m ct d cfg = Inr r"
  shows "\<exists>r'. fit_traded np (permute_portfolios \<pi> m) ct d cfg = Inr r' \<and>
              alphas r' = permr \<pi> (alphas r) \<and>
              alpha_vcv r' = perm2 \<pi> (alpha_vcv r) \<and>
              stat (jstat r') = stat (jstat r)"
proof -
  let ?m' = "permute_portfolios \<pi> m"
  let ?s = "block_perm \<pi> (nfactor m + 1) (nportfolio m)"
  from assms(5) obtain xeex rc where c: "tfm_cov np m ct cfg = Inr (xeex, rc)"
    and r: "r = tfm_results np m ct d xeex rc"
    and rows: "nr (ndarray (portfolios m)) = nobs_f m"
    by (rule fit_traded_Inr)
  note xs = tfm_cov_shape[OF assms(2) c]
  have c': "tfm_cov np ?m' ct cfg = Inr (perm2 ?s xeex, rc)"
    by (simp add: tfm_cov_perm[OF assms(1,2,3,4)] c)
  have f: "fit_traded np ?m' ct d cfg = Inr (tfm_results np ?m' ct d (perm2 ?s xeex) rc)"
    using rows by (simp add: fit_traded_def c')
  have sel: "alphas (tfm_results np m' ct d x y) = tfm_alphas np m'"
    "alpha_vcv (tfm_results np m' ct d x y) = tfm_alpha_vcv np m' d x"
    "stat (jstat (tfm_results np m' ct d x y)) = tfm_stat np m' d x" for m' x y
    by (simp_all add: tfm_results_def Let_def)
  show ?thesis
    unfolding f r sel
    using tfm_alphas_perm[OF assms(1,3,4)] tfm_alpha_vcv_perm[OF assms(1,4) xs, of d]
      tfm_stat_perm[OF assms(1,2,3,4) xs, of d]
    by (simp add: sel)
qed

lemma bop_permc_rows:
  assumes "nr A = nr B \<or> nr A = 1 \<or> nr B = 1" "nc A = nc B" "bij_betw \<pi> {..<nc A} {..<nc A}"
  shows "bop f (permc \<pi> A) (permc \<pi> B) = permc \<pi> (bop f A B)"
proof -
  have p: "\<pi> j < nc B" if "j < nc B" for j
    using assms(2,3) that by (simp add: perm_lt)
  have p0: "\<pi> 0 = 0" if "nc B = Suc 0"
    using p[of 0] that by simp
  show ?thesis
    unfolding bop_def permc_def
    using assms(1,2) by (auto intro!: mk_cong simp: bdim_def p p0)
qed

lemma mean0_permc:
  assumes "bij_betw \<pi> {..<nc A} {..<nc A}"
  shows "col (mean0 (permc \<pi> A)) = permr \<pi> (col (mean0 A))"
  unfolding col_def permr_def mean0_def permc_def
  using assms by (auto intro!: mk_cong sum.cong simp: perm_lt)

lemma lfm_b_perm:
  assumes "equivariant np" "wf_model m" "bij_betw \<pi> {..<nportfolio m} {..<nportfolio m}"
  shows "lfm_b np (permute_portfolios \<pi> m) = permc \<pi> (lfm_b np m)"
  using assms by (simp add: lfm_b_def equivariant_def nportfolio_def wf_model_def nobs_f_def)

lemma lfm_eps_shape:
  assumes "shape_ok np" "wf_model m"
  shows "nr (lfm_eps np m) = nobs_f m" "nc (lfm_eps np m) = nportfolio m"
  using assms lfm_shapes(1,2)[OF assms(1), of m]
  by (simp_all add: lfm_eps_def wf_model_def nobs_f_def nportfolio_def)

lemma lfm_eps_perm:
  assumes "shape_ok np" "equivariant np" "wf_model m"
    "bij_betw \<pi> {..<nportfolio m} {..<nportfolio m}"
  shows "lfm_eps np (permute_portfolios \<pi> m) = permc \<pi> (lfm_eps np m)"
proof -
  note bs = lfm_shapes(1,2)[OF assms(1), of m]
  have "lfm_eps np (permute_portfolios \<pi> m)
          = bsub (permc \<pi> (ndarray (portfolios m))) (matmul (tfm_fc m) (permc \<pi> (lfm_b np m)))"
    by (simp add: lfm_eps_def lfm_b_perm[OF assms(2,3,4)])
  also have "matmul (tfm_fc m) (permc \<pi> (lfm_b np m)) = permc \<pi> (matmul (tfm_fc m) (lfm_b np m))"
    by (rule matmul_permc) (use assms(4) bs in simp_all)
  also have "bsub (permc \<pi> (ndarray (portfolios m))) (permc \<pi> (matmul (tfm_fc m) (lfm_b np m)))
          = permc \<pi> (bsub (ndarray (portfolios m)) (matmul (tfm_fc m) (lfm_b np m)))"
    unfolding bsub_def
    by (rule bop_permc) (use assms bs in \<open>simp_all add: wf_model_def nobs_f_def nportfolio_def\<close>)
  finally show ?thesis
    by (simp add: lfm_eps_def)
qed

lemma lfm_betas_perm:
  assumes "shape_ok np" "equivariant np" "wf_model m"
    "bij_betw \<pi> {..<nportfolio m} {..<nportfolio m}"
  shows "lfm_betas np (permute_portfolios \<pi> m) er = permr \<pi> (lfm_betas np m er)"
proof (rule mat_eqI)
  let ?m' = "permute_portfolios \<pi> m"
  note bs = lfm_shapes[OF assms(1)]
  note b' = lfm_b_perm[OF assms(2,3,4)]
  show "normal (lfm_betas np ?m' er)" "normal (permr \<pi> (lfm_betas np m er))"
    by (simp_all add: lfm_betas_def)
  show "nr (lfm_betas np ?m' er) = nr (permr \<pi> (lfm_betas np m er))"
    "nc (lfm_betas np ?m' er) = nc (permr \<pi> (lfm_betas np m er))"
    by (simp_all add: bs)
  fix i j assume "i < nr (lfm_betas np ?m' er)" "j < nc (lfm_betas np ?m' er)"
  then have i: "i < nportfolio m" and j: "j < nfactor m + nrf_of er"
    by (simp_all add: bs)
  have pi: "\<pi> i < nportfolio m" using assms(4) i by (rule perm_lt)
  show "el (lfm_betas np ?m' er) i j = el (permr \<pi> (lfm_betas np m er)) i j"
    using i j pi bs(1,2)[of m]
    by (cases er) (simp_all add: lfm_betas_def b' mT_def slice_def permc_def permr_def
        set_block_def ones_def nrf_of_def)
qed

lemma lfm_lam_perm:
  assumes "shape_ok np" "equivariant np" "wf_model m"
    "bij_betw \<pi> {..<nportfolio m} {..<nportfolio m}"
  shows "lfm_lam np (permute_portfolios \<pi> m) er = lfm_lam np m er"
proof -
  have "col (mean0 (permc \<pi> (ndarray (portfolios m)))) = permr \<pi> (col (mean0 (ndarray (portfolios m))))"
    by (rule mean0_permc) (use assms(4) in \<open>simp add: nportfolio_def\<close>)
  moreover have "np_lstsq np (permr \<pi> (lfm_betas np m er)) (permr \<pi> (col (mean0 (ndarray (portfolios m)))))
      = np_lstsq np (lfm_betas np m er) (col (mean0 (ndarray (portfolios m))))"
    using assms(2,4) lfm_shapes(3)[OF assms(1), of m er]
    by (simp add: equivariant_def nportfolio_def)
  ultimately show ?thesis
    by (simp add: lfm_lam_def lfm_betas_perm[OF assms])
qed

lemma lfm_pe_shape:
  assumes "shape_ok np" "wf_model m"
  shows "nr (lfm_pricing_errors np m er) = nobs_f m" "nc (lfm_pricing_errors np m er) = nportfolio m"
  using assms lfm_shapes[OF assms(1), of m]
  by (simp_all add: lfm_pricing_errors_def wf_model_def nobs_f_def nportfolio_def)

lemma lfm_pe_perm:
  assumes "shape_ok np" "equivariant np" "wf_model m"
    "bij_betw \<pi> {..<nportfolio m} {..<nportfolio m}"
  shows "lfm_pricing_errors np (permute_portfolios \<pi> m) er = permc \<pi> (lfm_pricing_errors np m er)"
proof -
  note bs = lfm_shapes[OF assms(1)]
  let ?E = "matmul (lfm_betas np m er) (lfm_lam np m er)"
  have b: "bij_betw \<pi> {..<nr (lfm_betas np m er)} {..<nr (lfm_betas np m er)}"
    "bij_betw \<pi> {..<nr ?E} {..<nr ?E}"
    using assms(4) by (simp_all add: bs)
  have "mT (matmul (permr \<pi> (lfm_betas np m er)) (lfm_lam np m er)) = permc \<pi> (mT ?E)"
    by (simp add: matmul_permr[OF b(1)] mT_permr[OF b(2)])
  moreover have "bsub (permc \<pi> (ndarray (portfolios m))) (permc \<pi> (mT ?E))
      = permc \<pi> (bsub (ndarray (portfolios m)) (mT ?E))"
    unfolding bsub_def
    by (rule bop_permc_rows) (use assms bs in \<open>simp_all add: nportfolio_def\<close>)
  ultimately show ?thesis
    by (simp add: lfm_pricing_errors_def lfm_betas_perm[OF assms]
        lfm_lam_perm[OF assms])
qed

lemma lfm_alphas_perm:
  assumes "shape_ok np" "equivariant np" "wf_model m"
    "bij_betw \<pi> {..<nportfolio m} {..<nportfolio m}"
  shows "lfm_alphas np (permute_portfolios \<pi> m) er = permr \<pi> (lfm_alphas np m er)"
  unfolding lfm_alphas_def lfm_pe_perm[OF assms]
  by (rule mean0_permc) (use assms lfm_pe_shape[OF assms(1,3)] in simp)

lemma mT_perm2: "mT (perm2 \<pi> A) = perm2 \<pi> (mT A)"
  if "bij_betw \<pi> {..<nr A} {..<nr A}" "nr A = nc A"
  unfolding mT_def perm2_def
  using that by (auto intro!: mk_cong simp: perm_lt)

lemma equivariant_np_run: "equivariant np_run"
  unfolding equivariant_def
proof (intro conjI allI impI; (elim conjE)?)
  fix A :: "real mat" and \<pi>
  assume b: "bij_betw \<pi> {..<nr A} {..<nr A}" and sq: "nr A = nc A"
  show "np_pinv np_run (perm2 \<pi> A) = perm2 \<pi> (np_pinv np_run A)"
    unfolding np_run_sel by (rule mT_perm2[OF b sq])
  show "np_inv np_run (perm2 \<pi> A) = map_option (perm2 \<pi>) (np_inv np_run A)"
    by simp
next
  fix A B :: "real mat" and \<pi>
  assume b: "bij_betw \<pi> {..<nc B} {..<nc B}" and r: "nr B = nr A"
  show "np_lstsq np_run A (permc \<pi> B) = permc \<pi> (np_lstsq np_run A B)"
    unfolding np_run_sel by (rule matmul_permc[OF b]) (simp add: r)
next
  fix A B :: "real mat" and \<pi>
  assume b: "bij_betw \<pi> {..<nr A} {..<nr A}" and r: "nr B = nr A"
  have b': "bij_betw \<pi> {..<nc (mT A)} {..<nc (mT A)}"
    using b by simp
  show "np_lstsq np_run (permr \<pi> A) (permr \<pi> B) = np_lstsq np_run A B"
    unfolding np_run_sel mT_permr[OF b]
    by (rule matmul_perm_inner[OF b']) (simp add: r)
next
  fix A :: "real mat" and w \<pi>
  show "cov_kernel np_run (permc \<pi> A) w = map_option (perm2 \<pi>) (cov_kernel np_run A w)"
    by (simp add: np_run_def)
next
  fix A :: "real mat" and w C
  assume "cov_kernel np_run A w = Some C"
  then show "nr C = nc A" "nc C = nc A"
    by (simp_all add: np_run_def)
qed

lemma moment_perm_cases:
  assumes "bij_betw \<pi> {..<n} {..<n}"
  shows "c < n * w \<Longrightarrow> moment_perm \<pi> w n e c < n * w \<and>
           moment_perm \<pi> w n e c div w = \<pi> (c div w) \<and> moment_perm \<pi> w n e c mod w = c mod w"
    and "n * w \<le> c \<Longrightarrow> c < n * w + e \<Longrightarrow> moment_perm \<pi> w n e c = c"
    and "n * w + e \<le> c \<Longrightarrow> c < n * w + e + n \<Longrightarrow>
           moment_perm \<pi> w n e c = n * w + e + \<pi> (c - (n * w + e)) \<and> \<pi> (c - (n * w + e)) < n"
proof -
  show "moment_perm \<pi> w n e c < n * w \<and>
      moment_perm \<pi> w n e c div w = \<pi> (c div w) \<and> moment_perm \<pi> w n e c mod w = c mod w"
    if "c < n * w"
    using block_perm_lt[OF assms that] that by (simp add: moment_perm_def)
  show "moment_perm \<pi> w n e c = c" if "n * w \<le> c" "c < n * w + e"
    using that by (simp add: moment_perm_def block_perm_def)
  show "moment_perm \<pi> w n e c = n * w + e + \<pi> (c - (n * w + e)) \<and> \<pi> (c - (n * w + e)) < n"
    if "n * w + e \<le> c" "c < n * w + e + n"
    using that perm_lt[OF assms, of "c - (n * w + e)"] by (simp add: moment_perm_def)
qed

lemma shift_perm_bij:
  assumes "bij_betw \<pi> {..<n} {..<n}"
  shows "bij_betw (\<lambda>c. s + \<pi> (c - s)) {s..<s + n} {s..<s + (n::nat)}"
proof -
  define \<rho> where "\<rho> = the_inv_into {..<n} \<pi>"
  have inj: "inj_on \<pi> {..<n}" and img: "\<pi> ` {..<n} = {..<n}"
    using assms by (auto simp: bij_betw_def)
  have r1: "\<rho> (\<pi> i) = i" if "i < n" for i
    using that inj by (simp add: \<rho>_def the_inv_into_f_f)
  have r2: "\<pi> (\<rho> i) = i" if "i < n" for i
    using that inj img by (simp add: \<rho>_def f_the_inv_into_f)
  have rb: "bij_betw \<rho> {..<n} {..<n}"
    unfolding \<rho>_def using assms by (rule bij_betw_the_inv_into)
  show ?thesis
  proof (rule bij_betw_byWitness[where f' = "\<lambda>c. s + \<rho> (c - s)"])
    show "\<forall>a\<in>{s..<s + n}. s + \<rho> (s + \<pi> (a - s) - s) = a"
      using r1 by auto
    show "\<forall>a\<in>{s..<s + n}. s + \<pi> (s + \<rho> (a - s) - s) = a"
      using r2 by auto
    show "(\<lambda>c. s + \<pi> (c - s)) ` {s..<s + n} \<subseteq> {s..<s + n}"
      using perm_lt[OF assms] by auto
    show "(\<lambda>c. s + \<rho> (c - s)) ` {s..<s + n} \<subseteq> {s..<s + n}"
      using perm_lt[OF rb] by auto
  qed
qed

lemma moment_perm_bij:
  assumes "bij_betw \<pi> {..<n} {..<n}"
  shows "bij_betw (moment_perm \<pi> w n e) {..<n * w + e + n} {..<n * w + e + n}"
proof -
  let ?s = "n * w + e"
  have "bij_betw (block_perm \<pi> w n) {..<?s} {..<?s}"
    by (rule block_perm_bij[OF assms])
  then have A: "bij_betw (moment_perm \<pi> w n e) {..<?s} {..<?s}"
    by (rule bij_betw_cong[THEN iffD1, rotated]) (simp add: moment_perm_def)
  have "bij_betw (\<lambda>c. ?s + \<pi> (c - ?s)) {?s..<?s + n} {?s..<?s + n}"
    by (rule shift_perm_bij[OF assms])
  then have B: "bij_betw (moment_perm \<pi> w n e) {?s..<?s + n} {?s..<?s + n}"
    by (rule bij_betw_cong[THEN iffD1, rotated]) (simp add: moment_perm_def)
  have "bij_betw (moment_perm \<pi> w n e) ({..<?s} \<union> {?s..<?s + n}) ({..<?s} \<union> {?s..<?s + n})"
    by (rule bij_betw_combine[OF A B]) auto
  moreover have "{..<?s} \<union> {?s..<?s + n} = {..<?s + n}"
    by auto
  ultimately show ?thesis by simp
qed

lemma permc_id: "normal A \<Longrightarrow> permc (\<lambda>c. c) A = A"
  by (simp add: permc_def normal_def)

lemma cbind_permc:
  assumes "nr A = nr B"
    and "\<And>c. c < nc A \<Longrightarrow> \<sigma> c = \<sigma>1 c \<and> \<sigma>1 c < nc A"
    and "\<And>c. c < nc B \<Longrightarrow> \<sigma> (nc A + c) = nc A + \<sigma>2 c \<and> \<sigma>2 c < nc B"
  shows "cbind (permc \<sigma>1 A) (permc \<sigma>2 B) = permc \<sigma> (cbind A B)"
proof (rule mat_eqI)
  show "normal (cbind (permc \<sigma>1 A) (permc \<sigma>2 B))" "normal (permc \<sigma> (cbind A B))"
    by simp_all
  show "nr (cbind (permc \<sigma>1 A) (permc \<sigma>2 B)) = nr (permc \<sigma> (cbind A B))"
    "nc (cbind (permc \<sigma>1 A) (permc \<sigma>2 B)) = nc (permc \<sigma> (cbind A B))"
    by simp_all
  fix i j assume "i < nr (cbind (permc \<sigma>1 A) (permc \<sigma>2 B))" "j < nc (cbind (permc \<sigma>1 A) (permc \<sigma>2 B))"
  then have i: "i < nr A" and j: "j < nc A + nc B" by simp_all
  show "el (cbind (permc \<sigma>1 A) (permc \<sigma>2 B)) i j = el (permc \<sigma> (cbind A B)) i j"
  proof (cases "j < nc A")
    case True
    then show ?thesis
      using i j assms(2)[OF True] by (simp add: cbind_def permc_def)
  next
    case False
    then have c: "j - nc A < nc B" and e: "j = nc A + (j - nc A)"
      using j by simp_all
    have "\<sigma> j = nc A + \<sigma>2 (j - nc A)" "\<sigma>2 (j - nc A) < nc B"
      using assms(3)[OF c] e by simp_all
    then show ?thesis
      using i j False c assms(1) by (simp add: cbind_def permc_def)
  qed
qed

lemma lfm_eps_rep_shape [simp]:
  "nr (lfm_eps_rep np m) = nobs_f m" "nc (lfm_eps_rep np m) = nportfolio m * (nfactor m + 1)"
  by (simp_all add: lfm_eps_rep_def)

lemma lfm_xb_shape:
  "nr (bmul (tile (tfm_fc m) 1 (nportfolio m)) (lfm_eps_rep np m)) = nobs_f m"
  "nc (bmul (tile (tfm_fc m) 1 (nportfolio m)) (lfm_eps_rep np m)) = nportfolio m * (nfactor m + 1)"
  by simp_all

lemma lfm_xb_el:
  assumes "shape_ok np" "wf_model m" "t < nobs_f m" "c < nportfolio m * (nfactor m + 1)"
  shows "el (bmul (tile (tfm_fc m) 1 (nportfolio m)) (lfm_eps_rep np m)) t c
           = el (tfm_fc m) t (c mod (nfactor m + 1)) * el (lfm_eps np m) t (c div (nfactor m + 1))"
proof -
  let ?w = "nfactor m + 1" and ?n = "nportfolio m"
  note es = lfm_eps_shape[OF assms(1,2)]
  have "el (bmul (tile (tfm_fc m) 1 ?n) (lfm_eps_rep np m)) t c
          = el (tfm_fc m) t (c mod ?w) * el (lfm_eps_rep np m) t c"
    by (rule xe_block_el[where T = "nobs_f m" and n = ?n]) (use assms(3,4) in simp_all)
  also have "el (lfm_eps_rep np m) t c = el (lfm_eps np m) t (c div ?w)"
    unfolding lfm_eps_rep_def by (rule rep_C_el[OF es assms(3,4)])
  finally show ?thesis .
qed

lemma lfm_xb_perm:
  assumes "shape_ok np" "equivariant np" "wf_model m"
    "bij_betw \<pi> {..<nportfolio m} {..<nportfolio m}"
  shows "bmul (tile (tfm_fc m) 1 (nportfolio m)) (lfm_eps_rep np (permute_portfolios \<pi> m))
           = permc (block_perm \<pi> (nfactor m + 1) (nportfolio m))
               (bmul (tile (tfm_fc m) 1 (nportfolio m)) (lfm_eps_rep np m))"
    (is "?L = permc ?s ?R")
proof (rule mat_eqI)
  let ?w = "nfactor m + 1" and ?n = "nportfolio m"
  let ?m' = "permute_portfolios \<pi> m"
  have wf': "wf_model ?m'"
    using assms(3) by (simp add: wf_model_def permute_portfolios_def)
  show "normal ?L" "normal (permc ?s ?R)"
    by simp_all
  show "nr ?L = nr (permc ?s ?R)" "nc ?L = nc (permc ?s ?R)"
    by simp_all
  fix t c assume "t < nr ?L" "c < nc ?L"
  then have t: "t < nobs_f m" and c: "c < ?n * ?w"
    by simp_all
  have t': "t < nobs_f ?m'" and c': "c < nportfolio ?m' * (nfactor ?m' + 1)"
    using t c by simp_all
  note b = block_perm_lt[OF assms(4) c]
  have d: "c div ?w < ?n"
    using c by (simp add: less_mult_imp_div_less)
  have "el ?L t c = el (tfm_fc m) t (c mod ?w) * el (lfm_eps np ?m') t (c div ?w)"
    using lfm_xb_el[OF assms(1) wf' t' c'] by simp
  also have "el (lfm_eps np ?m') t (c div ?w) = el (lfm_eps np m) t (\<pi> (c div ?w))"
    using t d lfm_eps_shape[OF assms(1,3)] by (simp add: lfm_eps_perm[OF assms] permc_def)
  also have "el (tfm_fc m) t (c mod ?w) * el (lfm_eps np m) t (\<pi> (c div ?w)) = el ?R t (?s c)"
    using lfm_xb_el[OF assms(1,3) t b(1)] by (simp only: b(2,3))
  finally show "el ?L t c = el (permc ?s ?R) t c"
    using t c by (simp add: permc_def)
qed

lemma lfm_moments_perm:
  assumes "shape_ok np" "equivariant np" "wf_model m"
    "bij_betw \<pi> {..<nportfolio m} {..<nportfolio m}"
  shows "lfm_moments np (permute_portfolios \<pi> m) er
           = permc (moment_perm \<pi> (nfactor m + 1) (nportfolio m) (nfactor m + nrf_of er))
               (lfm_moments np m er)"
proof -
  let ?w = "nfactor m + 1" and ?n = "nportfolio m" and ?e = "nfactor m + nrf_of er"
  let ?m' = "permute_portfolios \<pi> m"
  let ?bp = "block_perm \<pi> ?w ?n"
  let ?XB = "bmul (tile (tfm_fc m) 1 ?n) (lfm_eps_rep np m)"
  let ?pe = "lfm_pricing_errors np m er"
  let ?PB = "matmul ?pe (lfm_betas np m er)"
  let ?AB = "bsub ?pe (mT (lfm_alphas np m er))"
  note sh = lfm_shapes[OF assms(1)]
  note ps = lfm_pe_shape[OF assms(1,3)]
  have bpe: "bij_betw \<pi> {..<nc ?pe} {..<nc ?pe}"
    using assms(4) by (simp add: ps)
  have PB: "matmul (permc \<pi> ?pe) (permr \<pi> (lfm_betas np m er)) = ?PB"
    by (rule matmul_perm_inner[OF bpe]) (simp add: ps sh)
  have ba: "bij_betw \<pi> {..<nr (lfm_alphas np m er)} {..<nr (lfm_alphas np m er)}"
    using assms(4) by (simp add: ps)
  have AB: "bsub (permc \<pi> ?pe) (mT (permr \<pi> (lfm_alphas np m er))) = permc \<pi> ?AB"
    unfolding mT_permr[OF ba] bsub_def
    by (rule bop_permc_rows) (use bpe in \<open>simp_all add: ps\<close>)
  have AB_shape: "nr ?AB = nobs_f m" "nc ?AB = ?n"
    by (simp_all add: ps bdim_def)
  have Y: "cbind (permc ?bp ?XB) (permc (\<lambda>c. c) ?PB) = permc ?bp (cbind ?XB ?PB)"
  proof (rule cbind_permc)
    show "nr ?XB = nr ?PB" by (simp add: ps)
    show "?bp c = ?bp c \<and> ?bp c < nc ?XB" if "c < nc ?XB" for c
      using block_perm_lt(1)[OF assms(4), of c ?w] that by simp
    show "?bp (nc ?XB + c) = nc ?XB + c \<and> c < nc ?PB" if "c < nc ?PB" for c
      using that by (simp add: block_perm_def)
  qed
  have Z: "cbind (permc ?bp (cbind ?XB ?PB)) (permc \<pi> ?AB)
             = permc (moment_perm \<pi> ?w ?n ?e) (cbind (cbind ?XB ?PB) ?AB)"
  proof (rule cbind_permc)
    show "nr (cbind ?XB ?PB) = nr ?AB" by (simp add: ps)
    have nY: "nc (cbind ?XB ?PB) = ?n * ?w + ?e"
      by (simp add: sh)
    show "moment_perm \<pi> ?w ?n ?e c = ?bp c \<and> ?bp c < nc (cbind ?XB ?PB)"
      if "c < nc (cbind ?XB ?PB)" for c
      using that perm_lt[OF block_perm_bij[OF assms(4), of ?w ?e], of c]
      unfolding nY by (simp add: moment_perm_def)
    show "moment_perm \<pi> ?w ?n ?e (nc (cbind ?XB ?PB) + c) = nc (cbind ?XB ?PB) + \<pi> c \<and> \<pi> c < nc ?AB"
      if "c < nc ?AB" for c
      using that perm_lt[OF assms(4), of c]
      unfolding nY AB_shape by (simp add: moment_perm_def)
  qed
  have "lfm_moments np ?m' er
          = cbind (cbind (bmul (tile (tfm_fc m) 1 ?n) (lfm_eps_rep np ?m'))
                         (matmul (permc \<pi> ?pe) (permr \<pi> (lfm_betas np m er))))
                  (bsub (permc \<pi> ?pe) (mT (permr \<pi> (lfm_alphas np m er))))"
    by (simp add: lfm_moments_def lfm_pe_perm[OF assms] lfm_betas_perm[OF assms]
        lfm_alphas_perm[OF assms])
  also have "\<dots> = cbind (cbind (permc ?bp ?XB) (permc (\<lambda>c. c) ?PB)) (permc \<pi> ?AB)"
    by (simp only: PB AB lfm_xb_perm[OF assms] permc_id[OF normal_ops(2)])
  also have "\<dots> = permc (moment_perm \<pi> ?w ?n ?e) (cbind (cbind ?XB ?PB) ?AB)"
    by (simp only: Y Z)
  finally show ?thesis
    by (simp add: lfm_moments_def)
qed

lemma lfm_S_perm:
  assumes "shape_ok np" "equivariant np" "wf_model m"
    "bij_betw \<pi> {..<nportfolio m} {..<nportfolio m}"
  shows "lfm_S np (permute_portfolios \<pi> m) er
           = perm2 (moment_perm \<pi> (nfactor m + 1) (nportfolio m) (nfactor m + nrf_of er))
               (lfm_S np m er)"
proof -
  have "nc (lfm_moments np m er) = nportfolio m * (nfactor m + 1) + (nfactor m + nrf_of er) + nportfolio m"
    by (simp add: lfm_moments_shape(2)[OF assms(1)] lfm_s3_def lfm_s2_def mult.commute)
  then have sb: "bij_betw (moment_perm \<pi> (nfactor m + 1) (nportfolio m) (nfactor m + nrf_of er))
      {..<nc (lfm_moments np m er)} {..<nc (lfm_moments np m er)}"
    using moment_perm_bij[OF assms(4), of "nfactor m + 1" "nfactor m + nrf_of er"] by simp
  show ?thesis
    unfolding lfm_S_def lfm_moments_perm[OF assms] permute_sel
    by (rule gram_perm[OF sb])
qed

lemma block_div_mod:
  assumes "n * w \<le> b" "b < n * w + (w::nat)"
  shows "b div w = n" "b mod w = b - n * w"
proof -
  obtain j where j: "b = n * w + j" "j < w"
    using assms by (metis add_diff_inverse_nat less_diff_conv2 not_less add.commute)
  show "b div w = n" using j by simp
  show "b mod w = b - n * w" using j by simp
qed

lemma el_set_block:
  "el (set_block A r0 c0 B) i j =
     (if i < nr A \<and> j < nc A
      then (if r0 \<le> i \<and> i < r0 + nr B \<and> c0 \<le> j \<and> j < c0 + nc B
            then el B (i - r0) (j - c0) else el A i j)
      else 0)"
  by (simp add: set_block_def)

lemma el_eye: "el (eye n) i j = (if i < n \<and> j < n \<and> i = j then 1 else 0)"
  by (simp add: eye_def)

lemma fold_set_block_el:
  assumes "\<forall>i<n. nr (B i) = e \<and> nc (B i) = w" "a < nr G0" "b < nc G0"
  shows "el (fold (\<lambda>i G. set_block G r0 (i * w) (B i)) [0..<n] G0) a b =
     (if r0 \<le> a \<and> a < r0 + e \<and> b < n * w then el (B (b div w)) (a - r0) (b mod w)
      else el G0 a b)"
  using assms(1)
proof (induction n)
  case 0
  then show ?case by simp
next
  case (Suc n)
  let ?G = "fold (\<lambda>i G. set_block G r0 (i * w) (B i)) [0..<n] G0"
  have ih: "el ?G a b =
     (if r0 \<le> a \<and> a < r0 + e \<and> b < n * w then el (B (b div w)) (a - r0) (b mod w)
      else el G0 a b)"
    by (rule Suc.IH) (simp add: Suc.prems)
  have Bn: "nr (B n) = e" "nc (B n) = w"
    using Suc.prems by simp_all
  have st: "el (fold (\<lambda>i G. set_block G r0 (i * w) (B i)) [0..<Suc n] G0) a b
      = (if r0 \<le> a \<and> a < r0 + e \<and> n * w \<le> b \<and> b < n * w + w
         then el (B n) (a - r0) (b - n * w) else el ?G a b)"
    using assms(2,3) by (simp add: el_set_block Bn)
  consider "b < n * w" | "n * w \<le> b" "b < n * w + w" | "n * w + w \<le> b"
    by linarith
  then show ?case
  proof cases
    case 1
    then show ?thesis unfolding st ih by simp
  next
    case 2
    note dm = block_div_mod[OF 2]
    show ?thesis unfolding st ih using 2 by (simp add: dm)
  next
    case 3
    then show ?thesis unfolding st ih by simp
  qed
qed

lemma kron_eye_el:
  assumes "nr F = r" "nc F = w" "a < n * r" "b < n * w"
  shows "el (kron (eye n) F) a b = (if a div r = b div w then el F (a mod r) (b mod w) else 0)"
proof -
  have "a div r < n" "b div w < n"
    using assms(3,4) by (simp_all add: less_mult_imp_div_less)
  then show ?thesis
    using assms by (simp add: kron_def eye_def)
qed

lemma jac_el:
  assumes "nr F = w" "nc F = w" "nr Q = e" "nc Q = e" "nr Z = 1" "nc Z = w"
    and "\<forall>i<n. nr (B i) = e \<and> nc (B i) = w"
    and "a < n * w + e + n" "b < n * w + e + n"
  shows "el (set_block
               (fold (\<lambda>i G. set_block G (n * w) (i * w) (B i)) [0..<n]
                  (set_block (set_block (eye (n * w + e + n)) 0 0 (kron (eye n) F)) (n * w) (n * w) Q))
               (n * w + e) 0 (kron (eye n) Z)) a b =
     (if n * w + e \<le> a \<and> b < n * w
      then (if a - (n * w + e) = b div w then el Z 0 (b mod w) else 0)
      else if n * w \<le> a \<and> a < n * w + e \<and> b < n * w
      then el (B (b div w)) (a - n * w) (b mod w)
      else if n * w \<le> a \<and> a < n * w + e \<and> n * w \<le> b \<and> b < n * w + e
      then el Q (a - n * w) (b - n * w)
      else if a < n * w \<and> b < n * w
      then (if a div w = b div w then el F (a mod w) (b mod w) else 0)
      else if a = b then 1 else 0)"
proof -
  let ?M = "n * w + e + n"
  let ?G1 = "set_block (eye ?M) 0 0 (kron (eye n) F)"
  let ?G2 = "set_block ?G1 (n * w) (n * w) Q"
  let ?G3 = "fold (\<lambda>i G. set_block G (n * w) (i * w) (B i)) [0..<n] ?G2"
  let ?G4 = "set_block ?G3 (n * w + e) 0 (kron (eye n) Z)"
  have G1: "el ?G1 a b =
      (if a < n * w \<and> b < n * w
       then (if a div w = b div w then el F (a mod w) (b mod w) else 0)
       else if a = b then 1 else 0)"
  proof (cases "a < n * w \<and> b < n * w")
    case True
    then show ?thesis
      using assms(8,9) kron_eye_el[OF assms(1,2), of a n b]
      by (simp add: el_set_block assms(1,2))
  next
    case False
    then show ?thesis
      using assms(8,9) by (auto simp add: el_set_block assms(1,2) el_eye)
  qed
  have G2: "el ?G2 a b =
      (if n * w \<le> a \<and> a < n * w + e \<and> n * w \<le> b \<and> b < n * w + e
       then el Q (a - n * w) (b - n * w) else el ?G1 a b)"
    using assms(8,9) by (simp add: el_set_block[of ?G1] assms(3,4))
  have G3: "el ?G3 a b =
      (if n * w \<le> a \<and> a < n * w + e \<and> b < n * w
       then el (B (b div w)) (a - n * w) (b mod w) else el ?G2 a b)"
    by (rule fold_set_block_el) (use assms(7,8,9) in simp_all)
  have G4: "el ?G4 a b =
      (if n * w + e \<le> a \<and> b < n * w
       then (if a - (n * w + e) = b div w then el Z 0 (b mod w) else 0)
       else el ?G3 a b)"
  proof (cases "n * w + e \<le> a \<and> b < n * w")
    case True
    then have "a - (n * w + e) < n"
      using assms(8) by linarith
    then have i: "a - (n * w + e) < n * 1"
      by simp
    have "el (kron (eye n) Z) (a - (n * w + e)) b
        = (if (a - (n * w + e)) div 1 = b div w then el Z ((a - (n * w + e)) mod 1) (b mod w) else 0)"
      by (rule kron_eye_el[OF assms(5,6) i]) (use True in simp)
    then show ?thesis
      using True assms(8,9) by (simp add: el_set_block[of ?G3] assms(5,6))
  next
    case False
    then show ?thesis
      using assms(8,9) by (auto simp add: el_set_block[of ?G3] assms(5,6))
  qed
  show ?thesis
    unfolding G4 G3 G2 G1 by (rule refl)
qed

lemma jac_perm:
  assumes p: "bij_betw \<pi> {..<n} {..<n}"
    and F: "nr F = w" "nc F = w" and Q: "nr Q = e" "nc Q = e" and Z: "nr Z = 1" "nc Z = w"
    and B: "\<forall>i<n. nr (B i) = e \<and> nc (B i) = w"
    and B': "\<And>i. i < n \<Longrightarrow> B' i = B (\<pi> i)"
  shows "set_block
           (fold (\<lambda>i G. set_block G (n * w) (i * w) (B' i)) [0..<n]
              (set_block (set_block (eye (n * w + e + n)) 0 0 (kron (eye n) F)) (n * w) (n * w) Q))
           (n * w + e) 0 (kron (eye n) Z)
         = perm2 (moment_perm \<pi> w n e)
             (set_block
               (fold (\<lambda>i G. set_block G (n * w) (i * w) (B i)) [0..<n]
                  (set_block (set_block (eye (n * w + e + n)) 0 0 (kron (eye n) F)) (n * w) (n * w) Q))
               (n * w + e) 0 (kron (eye n) Z))"
    (is "?L = perm2 ?s ?R")
proof (rule mat_eqI)
  show "normal ?L" "normal (perm2 ?s ?R)"
    by simp_all
  show "nr ?L = nr (perm2 ?s ?R)" "nc ?L = nc (perm2 ?s ?R)"
    by simp_all
  fix a b assume "a < nr ?L" "b < nc ?L"
  then have a: "a < n * w + e + n" and b: "b < n * w + e + n"
    by simp_all
  have B'': "\<forall>i<n. nr (B' i) = e \<and> nc (B' i) = w"
    using B perm_lt[OF p] B' by simp
  note sb = moment_perm_bij[OF p, of w e]
  have sa: "?s a < n * w + e + n" and sb': "?s b < n * w + e + n"
    using perm_lt[OF sb a] perm_lt[OF sb b] by simp_all
  note L = jac_el[where B = B', OF F Q Z B'' a b]
  note R = jac_el[where B = B, OF F Q Z B sa sb']
  have P: "el (perm2 ?s ?R) a b = el ?R (?s a) (?s b)"
    using a b by (simp add: perm2_def)
  consider (lo) "a < n * w" | (mid) "n * w \<le> a" "a < n * w + e" | (hi) "n * w + e \<le> a"
    by linarith
  then show "el ?L a b = el (perm2 ?s ?R) a b"
  proof cases
    case lo
    from moment_perm_cases(1)[OF p lo, of e]
    have A: "?s a < n * w" "?s a div w = \<pi> (a div w)" "?s a mod w = a mod w"
      by simp_all
    have da: "a div w < n" using lo by (simp add: less_mult_imp_div_less)
    consider (lo') "b < n * w" | (mid') "n * w \<le> b" "b < n * w + e" | (hi') "n * w + e \<le> b"
      by linarith
    then show ?thesis
    proof cases
      case lo'
      from moment_perm_cases(1)[OF p lo', of e]
      have C: "?s b < n * w" "?s b div w = \<pi> (b div w)" "?s b mod w = b mod w"
        by simp_all
      have db: "b div w < n" using lo' by (simp add: less_mult_imp_div_less)
      show ?thesis
        unfolding P L R using lo lo' A(1) C(1) perm_inj[OF p da db]
        by (simp add: A(2,3) C(2,3))
    next
      case mid'
      from moment_perm_cases(2)[OF p mid']
      have C: "?s b = b" .
      show ?thesis
        unfolding P L R using lo mid' A(1) by (simp add: C)
    next
      case hi'
      from moment_perm_cases(3)[OF p hi' b]
      have C: "n * w + e \<le> ?s b" by simp
      show ?thesis
        unfolding P L R using lo hi' A(1) C by simp
    qed
  next
    case mid
    from moment_perm_cases(2)[OF p mid]
    have A: "?s a = a" .
    consider (lo') "b < n * w" | (mid') "n * w \<le> b" "b < n * w + e" | (hi') "n * w + e \<le> b"
      by linarith
    then show ?thesis
    proof cases
      case lo'
      from moment_perm_cases(1)[OF p lo', of e]
      have C: "?s b < n * w" "?s b div w = \<pi> (b div w)" "?s b mod w = b mod w"
        by simp_all
      have db: "b div w < n" using lo' by (simp add: less_mult_imp_div_less)
      show ?thesis
        unfolding P L R using mid lo' C(1) by (simp add: A C(2,3) B'[OF db])
    next
      case mid'
      from moment_perm_cases(2)[OF p mid']
      have C: "?s b = b" .
      show ?thesis
        unfolding P L R using mid mid' by (simp add: A C)
    next
      case hi'
      from moment_perm_cases(3)[OF p hi' b]
      have C: "n * w + e \<le> ?s b" by simp
      show ?thesis
        unfolding P L R using mid hi' C by (simp add: A)
    qed
  next
    case hi
    from moment_perm_cases(3)[OF p hi a]
    have A: "n * w + e \<le> ?s a" "?s a - (n * w + e) = \<pi> (a - (n * w + e))"
      by simp_all
    have ka: "a - (n * w + e) < n" using hi a by linarith
    consider (lo') "b < n * w" | (mid') "n * w \<le> b" "b < n * w + e" | (hi') "n * w + e \<le> b"
      by linarith
    then show ?thesis
    proof cases
      case lo'
      from moment_perm_cases(1)[OF p lo', of e]
      have C: "?s b < n * w" "?s b div w = \<pi> (b div w)" "?s b mod w = b mod w"
        by simp_all
      have db: "b div w < n" using lo' by (simp add: less_mult_imp_div_less)
      show ?thesis
        unfolding P L R using hi lo' A(1) C(1) perm_inj[OF p ka db]
        by (simp add: A(2) C(2,3))
    next
      case mid'
      from moment_perm_cases(2)[OF p mid']
      have C: "?s b = b" .
      show ?thesis
        unfolding P L R using hi mid' A(1) by (simp add: C)
    next
      case hi'
      from moment_perm_cases(3)[OF p hi' b]
      have C: "n * w + e \<le> ?s b" "?s b - (n * w + e) = \<pi> (b - (n * w + e))"
        by simp_all
      have kb: "b - (n * w + e) < n" using hi' b by linarith
      have "?s a = ?s b \<longleftrightarrow> ?s a - (n * w + e) = ?s b - (n * w + e)"
        using A(1) C(1) by linarith
      also have "\<dots> \<longleftrightarrow> a - (n * w + e) = b - (n * w + e)"
        unfolding A(2) C(2) by (rule perm_inj[OF p ka kb])
      also have "\<dots> \<longleftrightarrow> a = b"
        using hi hi' by linarith
      finally have E: "?s a = ?s b \<longleftrightarrow> a = b" .
      show ?thesis
        unfolding P L R using hi hi' A(1) C(1) E by simp
    qed
  qed
qed

lemma lfm_lam_tail_shape:
  assumes "shape_ok np"
  shows "nr (lfm_lam_tail np m er) = nfactor m" "nc (lfm_lam_tail np m er) = 1"
  using lfm_shapes(5,6)[OF assms, of m er]
  by (cases er; simp add: lfm_lam_tail_def nrf_of_def)+

lemma lfm_block_shape:
  assumes "shape_ok np"
  shows "nr (lfm_block np m er i) = nfactor m + nrf_of er"
    and "nc (lfm_block np m er i) = nfactor m + 1"
  using lfm_lam_tail_shape[OF assms, of m er] lfm_shapes(3,4)[OF assms, of m er]
  by (cases er; simp add: lfm_block_def Let_def)+

lemma lfm_G_blocks:
  assumes "shape_ok np"
  shows "lfm_G np m er =
     set_block
       (fold (\<lambda>i G. set_block G (nportfolio m * (nfactor m + 1)) (i * (nfactor m + 1))
                      (lfm_block np m er i)) [0..<nportfolio m]
          (set_block
             (set_block (eye (nportfolio m * (nfactor m + 1) + (nfactor m + nrf_of er) + nportfolio m))
                0 0
                (kron (eye (nportfolio m))
                   (sdiv (matmul (mT (tfm_fc m)) (tfm_fc m)) (real (nobs_f m)))))
             (nportfolio m * (nfactor m + 1)) (nportfolio m * (nfactor m + 1))
             (matmul (mT (lfm_betas np m er)) (lfm_betas np m er))))
       (nportfolio m * (nfactor m + 1) + (nfactor m + nrf_of er)) 0
       (kron (eye (nportfolio m)) (mT (rbind (zeros 1 1) (lfm_lam_tail np m er))))"
proof -
  have s2: "lfm_s2 m = nportfolio m * (nfactor m + 1)"
    by (simp add: lfm_s2_def mult.commute)
  have s3: "lfm_s3 m er = nportfolio m * (nfactor m + 1) + (nfactor m + nrf_of er)"
    by (simp add: lfm_s3_def s2)
  have M: "nr (lfm_S np m er)
      = nportfolio m * (nfactor m + 1) + (nfactor m + nrf_of er) + nportfolio m"
    using lfm_moments_shape(2)[OF assms, of m er] by (simp add: lfm_S_def s3)
  show ?thesis
    unfolding lfm_G_def Let_def s3 s2 M by (rule refl)
qed


lemma slice_row_permr:
  assumes "i < nr A" "\<pi> i < nr A"
  shows "slice (permr \<pi> A) i (i + 1) 0 c = slice A (\<pi> i) (\<pi> i + 1) 0 c"
proof (rule mat_eqI)
  show "normal (slice (permr \<pi> A) i (i + 1) 0 c)" "normal (slice A (\<pi> i) (\<pi> i + 1) 0 c)"
    by simp_all
  show r: "nr (slice (permr \<pi> A) i (i + 1) 0 c) = nr (slice A (\<pi> i) (\<pi> i + 1) 0 c)"
    using assms by (simp add: slice_def)
  show "nc (slice (permr \<pi> A) i (i + 1) 0 c) = nc (slice A (\<pi> i) (\<pi> i + 1) 0 c)"
    by (simp add: slice_def)
  fix x y assume "x < nr (slice (permr \<pi> A) i (i + 1) 0 c)" "y < nc (slice (permr \<pi> A) i (i + 1) 0 c)"
  then have "x = 0" "y < nc A" "y < c"
    using assms by (simp_all add: slice_def)
  then show "el (slice (permr \<pi> A) i (i + 1) 0 c) x y = el (slice A (\<pi> i) (\<pi> i + 1) 0 c) x y"
    using assms by (simp add: slice_def permr_def)
qed

lemma gram_permr:
  assumes "bij_betw \<pi> {..<nr A} {..<nr A}"
  shows "matmul (mT (permr \<pi> A)) (permr \<pi> A) = matmul (mT A) A"
  unfolding mT_permr[OF assms]
  by (rule matmul_perm_inner) (use assms in simp_all)

lemma lfm_lam_tail_perm:
  assumes "shape_ok np" "equivariant np" "wf_model m"
    "bij_betw \<pi> {..<nportfolio m} {..<nportfolio m}"
  shows "lfm_lam_tail np (permute_portfolios \<pi> m) er = lfm_lam_tail np m er"
  by (simp add: lfm_lam_tail_def lfm_lam_perm[OF assms])

lemma lfm_block_perm:
  assumes "shape_ok np" "equivariant np" "wf_model m"
    "bij_betw \<pi> {..<nportfolio m} {..<nportfolio m}" "i < nportfolio m"
  shows "lfm_block np (permute_portfolios \<pi> m) er i = lfm_block np m er (\<pi> i)"
proof -
  note sh = lfm_shapes[OF assms(1)]
  have p: "\<pi> i < nportfolio m"
    using assms(4,5) by (rule perm_lt)
  have s: "slice (permr \<pi> (lfm_betas np m er)) i (i + 1) 0 (nc (lfm_betas np m er))
      = slice (lfm_betas np m er) (\<pi> i) (\<pi> i + 1) 0 (nc (lfm_betas np m er))"
    by (rule slice_row_permr) (simp_all add: sh assms(5) p)
  have a: "el (permr \<pi> (lfm_alphas np m er)) i 0 = el (lfm_alphas np m er) (\<pi> i) 0"
    using assms(5) lfm_pe_shape[OF assms(1,3), of er] by (simp add: permr_def)
  show ?thesis
    unfolding lfm_block_def Let_def lfm_betas_perm[OF assms(1,2,3,4)]
      lfm_alphas_perm[OF assms(1,2,3,4)] lfm_lam_tail_perm[OF assms(1,2,3,4)] permute_sel
      perm_shapes s a
    by (rule refl)
qed

lemma lfm_G_perm:
  assumes "shape_ok np" "equivariant np" "wf_model m"
    "bij_betw \<pi> {..<nportfolio m} {..<nportfolio m}"
  shows "lfm_G np (permute_portfolios \<pi> m) er
           = perm2 (moment_perm \<pi> (nfactor m + 1) (nportfolio m) (nfactor m + nrf_of er))
               (lfm_G np m er)"
proof -
  let ?m' = "permute_portfolios \<pi> m"
  have bb: "bij_betw \<pi> {..<nr (lfm_betas np m er)} {..<nr (lfm_betas np m er)}"
    using assms(4) by (simp add: lfm_shapes[OF assms(1)])
  have Qe: "matmul (mT (permr \<pi> (lfm_betas np m er))) (permr \<pi> (lfm_betas np m er))
      = matmul (mT (lfm_betas np m er)) (lfm_betas np m er)"
    by (rule gram_permr[OF bb])
  have B: "\<forall>i<nportfolio m. nr (lfm_block np m er i) = nfactor m + nrf_of er \<and>
                            nc (lfm_block np m er i) = nfactor m + 1"
    by (simp add: lfm_block_shape[OF assms(1)])
  have Z: "nr (mT (rbind (zeros 1 1) (lfm_lam_tail np m er))) = 1"
    "nc (mT (rbind (zeros 1 1) (lfm_lam_tail np m er))) = nfactor m + 1"
    by (simp_all add: lfm_lam_tail_shape[OF assms(1)])
  have F: "nr (sdiv (matmul (mT (tfm_fc m)) (tfm_fc m)) (real (nobs_f m))) = nfactor m + 1"
    "nc (sdiv (matmul (mT (tfm_fc m)) (tfm_fc m)) (real (nobs_f m))) = nfactor m + 1"
    by simp_all
  have Q: "nr (matmul (mT (lfm_betas np m er)) (lfm_betas np m er)) = nfactor m + nrf_of er"
    "nc (matmul (mT (lfm_betas np m er)) (lfm_betas np m er)) = nfactor m + nrf_of er"
    by (simp_all add: lfm_shapes[OF assms(1)])
  show ?thesis
    unfolding lfm_G_blocks[OF assms(1)] permute_sel lfm_betas_perm[OF assms] Qe
      lfm_lam_tail_perm[OF assms]
    by (rule jac_perm[where B = "lfm_block np m er" and B' = "lfm_block np ?m' er",
          OF assms(4) F Q Z B lfm_block_perm[OF assms]])
qed

lemma lfm_S_shape:
  assumes "shape_ok np"
  shows "nr (lfm_S np m er) = nportfolio m * (nfactor m + 1) + (nfactor m + nrf_of er) + nportfolio m"
    and "nc (lfm_S np m er) = nportfolio m * (nfactor m + 1) + (nfactor m + nrf_of er) + nportfolio m"
  using lfm_moments_shape(2)[OF assms, of m er]
  by (simp_all add: lfm_S_def lfm_s3_def lfm_s2_def mult.commute)

lemma lfm_full_vcv_perm:
  assumes "shape_ok np" "equivariant np" "wf_model m"
    "bij_betw \<pi> {..<nportfolio m} {..<nportfolio m}"
    and "nr Ginv = nportfolio m * (nfactor m + 1) + (nfactor m + nrf_of er) + nportfolio m"
    and "nc Ginv = nportfolio m * (nfactor m + 1) + (nfactor m + nrf_of er) + nportfolio m"
  shows "lfm_full_vcv np (permute_portfolios \<pi> m) er
             (perm2 (moment_perm \<pi> (nfactor m + 1) (nportfolio m) (nfactor m + nrf_of er)) Ginv)
           = perm2 (moment_perm \<pi> (nfactor m + 1) (nportfolio m) (nfactor m + nrf_of er))
               (lfm_full_vcv np m er Ginv)"
proof -
  let ?s = "moment_perm \<pi> (nfactor m + 1) (nportfolio m) (nfactor m + nrf_of er)"
  let ?M = "nportfolio m * (nfactor m + 1) + (nfactor m + nrf_of er) + nportfolio m"
  let ?S = "lfm_S np m er"
  have sb: "bij_betw ?s {..<?M} {..<?M}"
    by (rule moment_perm_bij[OF assms(4)])
  note S = lfm_S_shape[OF assms(1), of m er]
  have bG: "bij_betw ?s {..<nr Ginv} {..<nr Ginv}" and sq: "nr Ginv = nc Ginv"
    using sb assms(5,6) by simp_all
  have t: "mT (perm2 ?s Ginv) = perm2 ?s (mT Ginv)"
    by (rule mT_perm2[OF bG sq])
  have "matmul (matmul (perm2 ?s Ginv) (perm2 ?s ?S)) (perm2 ?s (mT Ginv))
          = matmul (perm2 ?s (matmul Ginv ?S)) (perm2 ?s (mT Ginv))"
    using matmul_perm2[OF sb assms(5,6) S] by simp
  also have "\<dots> = perm2 ?s (matmul (matmul Ginv ?S) (mT Ginv))"
    by (rule matmul_perm2[OF sb]) (simp_all add: assms(5,6) S)
  finally have mm: "matmul (matmul (perm2 ?s Ginv) (perm2 ?s ?S)) (perm2 ?s (mT Ginv))
      = perm2 ?s (matmul (matmul Ginv ?S) (mT Ginv))" .
  have b2: "bij_betw ?s {..<nr (matmul (matmul Ginv ?S) (mT Ginv))}
      {..<nr (matmul (matmul Ginv ?S) (mT Ginv))}"
    using sb by (simp add: assms(5))
  have sq2: "nr (matmul (matmul Ginv ?S) (mT Ginv)) = nc (matmul (matmul Ginv ?S) (mT Ginv))"
    by simp
  show ?thesis
    unfolding lfm_full_vcv_def lfm_S_perm[OF assms(1,2,3,4)] t mm permute_sel
    by (rule sdiv_perm2[OF b2 sq2])
qed

lemma lfm_alpha_vcv_perm:
  assumes "shape_ok np" "equivariant np" "wf_model m"
    "bij_betw \<pi> {..<nportfolio m} {..<nportfolio m}"
    and "nr Ginv = nportfolio m * (nfactor m + 1) + (nfactor m + nrf_of er) + nportfolio m"
    and "nc Ginv = nportfolio m * (nfactor m + 1) + (nfactor m + nrf_of er) + nportfolio m"
  shows "lfm_alpha_vcv np (permute_portfolios \<pi> m) er
             (perm2 (moment_perm \<pi> (nfactor m + 1) (nportfolio m) (nfactor m + nrf_of er)) Ginv)
           = perm2 \<pi> (lfm_alpha_vcv np m er Ginv)"
    (is "?L = perm2 \<pi> ?R")
proof (rule mat_eqI)
  let ?s = "moment_perm \<pi> (nfactor m + 1) (nportfolio m) (nfactor m + nrf_of er)"
  let ?n = "nportfolio m" and ?s3 = "nportfolio m * (nfactor m + 1) + (nfactor m + nrf_of er)"
  let ?full = "lfm_full_vcv np m er Ginv"
  have s3: "lfm_s3 m er = ?s3" "lfm_s3 (permute_portfolios \<pi> m) er = ?s3"
    by (simp_all add: lfm_s3_def lfm_s2_def mult.commute)
  have fs: "nr ?full = ?s3 + ?n" "nc ?full = ?s3 + ?n"
    by (simp_all add: lfm_full_vcv_def assms(5))
  have L: "?L = slice (perm2 ?s ?full) ?s3 (?s3 + ?n) ?s3 (?s3 + ?n)"
    unfolding lfm_alpha_vcv_def lfm_full_vcv_perm[OF assms] s3 perm_shapes fs by (rule refl)
  have R: "?R = slice ?full ?s3 (?s3 + ?n) ?s3 (?s3 + ?n)"
    unfolding lfm_alpha_vcv_def s3 fs by (rule refl)
  show "normal ?L" "normal (perm2 \<pi> ?R)"
    by (simp_all add: lfm_alpha_vcv_def)
  show "nr ?L = nr (perm2 \<pi> ?R)" "nc ?L = nc (perm2 \<pi> ?R)"
    unfolding L R by (simp_all add: slice_def fs)
  fix i j assume "i < nr ?L" "j < nc ?L"
  then have i: "i < ?n" and j: "j < ?n"
    unfolding L by (simp_all add: slice_def fs)
  have ci: "?s (?s3 + i) = ?s3 + \<pi> i" "\<pi> i < ?n"
    using moment_perm_cases(3)[OF assms(4), of "nfactor m + 1" "nfactor m + nrf_of er" "?s3 + i"] i
    by simp_all
  have cj: "?s (?s3 + j) = ?s3 + \<pi> j" "\<pi> j < ?n"
    using moment_perm_cases(3)[OF assms(4), of "nfactor m + 1" "nfactor m + nrf_of er" "?s3 + j"] j
    by simp_all
  have "el ?L i j = el (perm2 ?s ?full) (?s3 + i) (?s3 + j)"
    unfolding L using i j by (simp add: slice_def fs)
  also have "\<dots> = el ?full (?s (?s3 + i)) (?s (?s3 + j))"
    using i j by (simp add: perm2_def fs)
  also have "\<dots> = el ?full (?s3 + \<pi> i) (?s3 + \<pi> j)"
    by (simp only: ci(1) cj(1))
  also have "\<dots> = el ?R (\<pi> i) (\<pi> j)"
    unfolding R using ci(2) cj(2) by (simp add: slice_def fs)
  also have "\<dots> = el (perm2 \<pi> ?R) i j"
    unfolding R using i j by (simp add: perm2_def slice_def fs)
  finally show "el ?L i j = el (perm2 \<pi> ?R) i j" .
qed

lemma fit_lfm_perm:
  assumes "shape_ok np" "equivariant np" "wf_model m"
    "bij_betw \<pi> {..<nportfolio m} {..<nportfolio m}"
    "fit_lfm np m er ct cfg = Inr r"
  shows "\<exists>r'. fit_lfm np (permute_portfolios \<pi> m) er ct cfg = Inr r' \<and>
              alphas r' = permr \<pi> (alphas r) \<and>
              alpha_vcv r' = perm2 \<pi> (alpha_vcv r) \<and>
              stat (jstat r') = stat (jstat r)"
proof -
  let ?m' = "permute_portfolios \<pi> m"
  let ?s = "moment_perm \<pi> (nfactor m + 1) (nportfolio m) (nfactor m + nrf_of er)"
  let ?M = "nportfolio m * (nfactor m + 1) + (nfactor m + nrf_of er) + nportfolio m"
  from assms(5) obtain Ginv avi where gi: "np_inv np (lfm_G np m er) = Some Ginv"
    and ai: "np_inv np (lfm_alpha_vcv np m er Ginv) = Some avi"
    and r: "r = lfm_results np m er ct Ginv avi"
    and rows: "nr (ndarray (portfolios m)) = nobs_f m"
    by (rule fit_lfm_Inr)
  have nG: "nr (lfm_G np m er) = ?M"
    using lfm_moments_shape(3)[OF assms(1), of m er]
    by (simp add: lfm_s3_def lfm_s2_def mult.commute)
  have nGi: "nr Ginv = ?M" "nc Ginv = ?M"
    using assms(1) gi nG by (auto simp: shape_ok_def)
  note fs = lfm_full_vcv_shape[OF assms(1) gi]
  have navi: "nr avi = nportfolio m" "nc avi = nportfolio m"
    using assms(1) ai fs(3,4) by (auto simp: shape_ok_def)
  have sb: "bij_betw ?s {..<nr (lfm_G np m er)} {..<nr (lfm_G np m er)}"
    unfolding nG by (rule moment_perm_bij[OF assms(4)])
  have gi': "np_inv np (lfm_G np ?m' er) = Some (perm2 ?s Ginv)"
    unfolding lfm_G_perm[OF assms(1,2,3,4)]
    using assms(2) sb gi by (simp add: equivariant_def)
  have av': "lfm_alpha_vcv np ?m' er (perm2 ?s Ginv) = perm2 \<pi> (lfm_alpha_vcv np m er Ginv)"
    by (rule lfm_alpha_vcv_perm[OF assms(1,2,3,4) nGi])
  have ba: "bij_betw \<pi> {..<nr (lfm_alpha_vcv np m er Ginv)} {..<nr (lfm_alpha_vcv np m er Ginv)}"
    using assms(4) by (simp add: fs(3))
  have ai': "np_inv np (lfm_alpha_vcv np ?m' er (perm2 ?s Ginv)) = Some (perm2 \<pi> avi)"
    unfolding av' using assms(2) ba ai by (simp add: equivariant_def)
  have f: "fit_lfm np ?m' er ct cfg = Inr (lfm_results np ?m' er ct (perm2 ?s Ginv) (perm2 \<pi> avi))"
    unfolding fit_lfm_def gi' option.case ai' using rows by simp
  have sel: "alphas (lfm_results np m0 er ct x y) = lfm_alphas np m0 er"
    "alpha_vcv (lfm_results np m0 er ct x y) = lfm_alpha_vcv np m0 er x"
    "stat (jstat (lfm_results np m0 er ct x y))
       = el (matmul (matmul (mT (lfm_alphas np m0 er)) y) (lfm_alphas np m0 er)) 0 0" for m0 x y
    by (simp_all add: lfm_results_def Let_def)
  have na: "nr (lfm_alphas np m er) = nportfolio m"
    using lfm_pe_shape[OF assms(1,3), of er] by simp
  have q: "matmul (matmul (mT (permr \<pi> (lfm_alphas np m er))) (perm2 \<pi> avi))
             (permr \<pi> (lfm_alphas np m er))
         = matmul (matmul (mT (lfm_alphas np m er)) avi) (lfm_alphas np m er)"
    by (rule quad_form_perm[OF assms(4) na navi])
  let ?r' = "lfm_results np ?m' er ct (perm2 ?s Ginv) (perm2 \<pi> avi)"
  have a1: "alphas ?r' = permr \<pi> (alphas r)"
    unfolding r sel lfm_alphas_perm[OF assms(1,2,3,4)] by (rule refl)
  have a2: "alpha_vcv ?r' = perm2 \<pi> (alpha_vcv r)"
    unfolding r sel av' by (rule refl)
  have a3: "stat (jstat ?r') = stat (jstat r)"
    unfolding r sel lfm_alphas_perm[OF assms(1,2,3,4)] q by (rule refl)
  show ?thesis
    using f a1 a2 a3 by blast
qed

lemma swap_bij: "bij_betw (\<lambda>i. 1 - i) {..<2} {..<(2::nat)}"
  by (rule bij_betw_byWitness[where f' = "\<lambda>i. 1 - i"]) auto

section \<open>Matrices without an inverse\<close>














lemma np_exact_sel [simp]:
  "np_pinv np_exact = mT" "np_lstsq np_exact = (\<lambda>A B. matmul (mT A) B)"
  "sp_minimize np_exact f x disp mi = (case f x of Inl e \<Rightarrow> Inl e | Inr v \<Rightarrow> Inr (x, v))"
  by (simp_all add: np_exact_def np_run_def)







lemma const_shapes [simp]:
  "nr (ndarray const_factors) = 2" "nc (ndarray const_factors) = 1"
  "cols const_factors = [''f1'']"
  by (simp_all add: const_factors_def)




lemma less_2_cases: "t < (2::nat) \<longleftrightarrow> t = 0 \<or> t = 1"
  by auto

lemma half_shapes [simp]:
  "nr (ndarray half_portfolio) = 2" "nc (ndarray half_portfolio) = 1"
  "nr (ndarray swing_factor) = 2" "nc (ndarray swing_factor) = 1"
  "cols half_portfolio = [''p1'']" "cols swing_factor = [''f1'']"
  "el (ndarray half_portfolio) 0 0 = 1 / 2" "el (ndarray half_portfolio) (Suc 0) 0 = - 1 / 2"
  "el (ndarray swing_factor) 0 0 = 1" "el (ndarray swing_factor) (Suc 0) 0 = - 1"
  by (simp_all add: half_portfolio_def swing_factor_def of_rows_def)

lemma half_model [simp]:
  "nportfolio (LinearFactorModel half_portfolio swing_factor) = 1"
  "nfactor (LinearFactorModel half_portfolio swing_factor) = 1"
  "nobs_f (LinearFactorModel half_portfolio swing_factor) = 2"
  by (simp_all add: LinearFactorModel_def)












lemma lfm_G_normal [simp]: "normal (lfm_G np m er)"
  by (simp add: lfm_G_def Let_def)



lemma lfm_S_normal [simp]: "normal (lfm_S np m er)"
  by (simp add: lfm_S_def)





lemma half_gmm [simp]:
  "nportfolio (LinearFactorModelGMM half_portfolio swing_factor) = 1"
  "nfactor (LinearFactorModelGMM half_portfolio swing_factor) = 1"
  "nobs_f (LinearFactorModelGMM half_portfolio swing_factor) = 2"
  "gmm_nobs (LinearFactorModelGMM half_portfolio swing_factor) = 2"
  "gmm_nparams (LinearFactorModelGMM half_portfolio swing_factor) True = 3"
  by (simp_all add: LinearFactorModelGMM_def gmm_nparams_def nrf_of_def)





text \<open>
  C9. Let the imported routines have numpy's shapes and commute with a reordering of rows
  and columns, as the exact pseudo-inverse, inverse, least-squares solution and kernel
  covariance do. On a well-formed input and for every permutation \<open>perm\<close> of the portfolio
  columns: if the time-series fit returns, then the fit on the reordered portfolios
  returns, its alphas are the alphas taken in the order \<open>perm\<close>, its alpha covariance is the
  alpha covariance with rows and columns taken in the order \<open>perm\<close>, and its J statistic is
  the same; and likewise for the two-pass fit.
\<close>

theorem portfolio_reordering:
  assumes "shape_ok np" "equivariant np" "wf_model m"
    "bij_betw \<pi> {..<nportfolio m} {..<nportfolio m}"
  shows "(fit_traded np m ct d cfg = Inr r1 \<longrightarrow>
            (\<exists>r'. fit_traded np (permute_portfolios \<pi> m) ct d cfg = Inr r' \<and>
                  alphas r' = permr \<pi> (alphas r1) \<and>
                  alpha_vcv r' = perm2 \<pi> (alpha_vcv r1) \<and>
                  stat (jstat r') = stat (jstat r1))) \<and>
         (fit_lfm np m er ct cfg = Inr r2 \<longrightarrow>
            (\<exists>r'. fit_lfm np (permute_portfolios \<pi> m) er ct cfg = Inr r' \<and>
                  alphas r' = permr \<pi> (alphas r2) \<and>
                  alpha_vcv r' = perm2 \<pi> (alpha_vcv r2) \<and>
                  stat (jstat r') = stat (jstat r2)))"
  using fit_traded_perm[OF assms, of ct d cfg r1] fit_lfm_perm[OF assms, of er ct cfg r2]
  by blast

theorem portfolio_reordering_witness:
  "shape_ok np_run \<and> equivariant np_run \<and>
   wf_model (TradedFactorModel ex6_portfolios ex6_factors) \<and>
   wf_model (LinearFactorModel ex6_portfolios ex6_factors) \<and>
   bij_betw (\<lambda>i. 1 - i) {..<nportfolio (TradedFactorModel ex6_portfolios ex6_factors)}
     {..<nportfolio (TradedFactorModel ex6_portfolios ex6_factors)} \<and>
   cols (portfolios (permute_portfolios (\<lambda>i. 1 - i) (TradedFactorModel ex6_portfolios ex6_factors)))
     = [''p2'', ''p1''] \<and>
   (\<exists>r1 r1' r2 r2'.
      fit_traded np_run (TradedFactorModel ex6_portfolios ex6_factors) ''robust'' True no_config
        = Inr r1 \<and>
      fit_traded np_run
          (permute_portfolios (\<lambda>i. 1 - i) (TradedFactorModel ex6_portfolios ex6_factors))
          ''robust'' True no_config = Inr r1' \<and>
      alphas r1' = permr (\<lambda>i. 1 - i) (alphas r1) \<and>
      alpha_vcv r1' = perm2 (\<lambda>i. 1 - i) (alpha_vcv r1) \<and>
      stat (jstat r1') = stat (jstat r1) \<and>
      fit_lfm np_run (LinearFactorModel ex6_portfolios ex6_factors) True ''robust'' no_config
        = Inr r2 \<and>
      fit_lfm np_run
          (permute_portfolios (\<lambda>i. 1 - i) (LinearFactorModel ex6_portfolios ex6_factors))
          True ''robust'' no_config = Inr r2' \<and>
      alphas r2' = permr (\<lambda>i. 1 - i) (alphas r2) \<and>
      alpha_vcv r2' = perm2 (\<lambda>i. 1 - i) (alpha_vcv r2) \<and>
      stat (jstat r2') = stat (jstat r2))"
proof -
  let ?t = "TradedFactorModel ex6_portfolios ex6_factors"
  let ?l = "LinearFactorModel ex6_portfolios ex6_factors"
  let ?s = "\<lambda>i::nat. 1 - i"
  have wf: "wf_model ?t" "wf_model ?l"
    by (simp_all add: wf_model_def)
  have n: "nportfolio ?t = 2" "nportfolio ?l = 2"
    by (simp_all add: nportfolio_def)
  have b: "bij_betw ?s {..<nportfolio ?t} {..<nportfolio ?t}"
    "bij_betw ?s {..<nportfolio ?l} {..<nportfolio ?l}"
    unfolding n by (rule swap_bij)+
  have rows: "nr (ndarray (portfolios ?t)) = nobs_f ?t" "nr (ndarray (portfolios ?l)) = nobs_f ?l"
    by (simp_all add: nobs_f_def)
  have c: "cols (portfolios (permute_portfolios ?s ?t)) = [''p2'', ''p1'']"
    by (simp add: permute_portfolios_def upt_rec_numeral)
  obtain r1 where r1: "fit_traded np_run ?t ''robust'' True no_config = Inr r1"
    using fit_traded_robust[OF rows(1), of "''robust''" np_run True no_config] by auto
  obtain r2 where r2: "fit_lfm np_run ?l True ''robust'' no_config = Inr r2"
    using fit_lfm_run[OF rows(2)] by blast
  from portfolio_reordering[OF shape_ok_np_run equivariant_np_run wf(1) b(1),
      of "''robust''" True no_config r1 True r1, THEN conjunct1, rule_format, OF r1]
  obtain r1' where t1: "fit_traded np_run (permute_portfolios ?s ?t) ''robust'' True no_config = Inr r1'"
    "alphas r1' = permr ?s (alphas r1)" "alpha_vcv r1' = perm2 ?s (alpha_vcv r1)"
    "stat (jstat r1') = stat (jstat r1)"
    by blast
  from portfolio_reordering[OF shape_ok_np_run equivariant_np_run wf(2) b(2),
      of "''robust''" True no_config r2 True r2, THEN conjunct2, rule_format, OF r2]
  obtain r2' where t2: "fit_lfm np_run (permute_portfolios ?s ?l) True ''robust'' no_config = Inr r2'"
    "alphas r2' = permr ?s (alphas r2)" "alpha_vcv r2' = perm2 ?s (alpha_vcv r2)"
    "stat (jstat r2') = stat (jstat r2)"
    by blast
  show ?thesis
    using shape_ok_np_run equivariant_np_run wf b(1) c r1 t1 r2 t2 by blast
qed

end
